theory Spec2Isabelle
  imports Main "HOL-Library.Sublist"
begin

section \<open>JavaScript strings and values\<close>

text \<open>
  A JavaScript string is a sequence of UTF-16 code units; \<open>length\<close> counts code units,
  as \<^verbatim>\<open>String.prototype.length\<close> does. ASCII literals of the script are written
  \<open>ustr ''...''\<close>, the Chinese ones as explicit code-unit lists.
\<close>

type_synonym jstr = "nat list"

definition ustr :: "string \<Rightarrow> jstr" where
  "ustr s = map of_char s"

text \<open>The value universe of the script: what \<^verbatim>\<open>JSON.parse\<close> can produce, plus
  \<^verbatim>\<open>undefined\<close>. Numbers are the integers (timestamps and identifiers); an object is
  its list of own properties in \<^verbatim>\<open>Object.keys\<close> order.\<close>

datatype jsv =
    JUndefined
  | JNull
  | JBool bool
  | JNum int
  | JStr jstr
  | JArr "jsv list"
  | JObj "(jstr \<times> jsv) list"

text \<open>\<^verbatim>\<open>ToBoolean\<close>: the falsy values are undefined, null, false, 0 and the empty string.\<close>

fun truthy :: "jsv \<Rightarrow> bool" where
  "truthy JUndefined = False"
| "truthy JNull = False"
| "truthy (JBool b) = b"
| "truthy (JNum n) = (n \<noteq> 0)"
| "truthy (JStr s) = (s \<noteq> [])"
| "truthy (JArr _) = True"
| "truthy (JObj _) = True"

text \<open>\<^verbatim>\<open>a || b\<close> on values.\<close>

definition js_or :: "jsv \<Rightarrow> jsv \<Rightarrow> jsv" where
  "js_or a b = (if truthy a then a else b)"

text \<open>\<^verbatim>\<open>String.prototype.trim\<close> strips WhiteSpace and LineTerminator code points.\<close>

definition js_is_ws :: "nat \<Rightarrow> bool" where
  "js_is_ws c \<longleftrightarrow>
     c = 0x9 \<or> c = 0xA \<or> c = 0xB \<or> c = 0xC \<or> c = 0xD \<or> c = 0x20 \<or> c = 0xA0 \<or>
     c = 0x1680 \<or> (0x2000 \<le> c \<and> c \<le> 0x200A) \<or> c = 0x2028 \<or> c = 0x2029 \<or>
     c = 0x202F \<or> c = 0x205F \<or> c = 0x3000 \<or> c = 0xFEFF"

definition trim :: "jstr \<Rightarrow> jstr" where
  "trim s = rev (dropWhile js_is_ws (rev (dropWhile js_is_ws s)))"

text \<open>\<^verbatim>\<open>s.startsWith(p)\<close> is \<open>prefix p s\<close>; \<^verbatim>\<open>s.includes(p)\<close> and an unanchored
  literal regular expression search for the literal anywhere in the string.\<close>

fun js_includes :: "jstr \<Rightarrow> jstr \<Rightarrow> bool" where
  "js_includes [] p = (p = [])"
| "js_includes (c # s) p = (prefix p (c # s) \<or> js_includes s p)"

text \<open>
  The \<^verbatim>\<open>i\<close> flag compares canonicalised code units. Every literal used with it in
  the script consists of ASCII letters and CJK ideographs: a non-ASCII code unit never
  canonicalises to an ASCII one, and nothing but the ideograph itself canonicalises to
  an ideograph, so upper-casing a-z is the whole of the comparison for these patterns.
\<close>

definition canon :: "nat \<Rightarrow> nat" where
  "canon c = (if 97 \<le> c \<and> c \<le> 122 then c - 32 else c)"

definition includes_ci :: "jstr \<Rightarrow> jstr \<Rightarrow> bool" where
  "includes_ci s p = js_includes (map canon s) (map canon p)"

text \<open>An alternation of literals, \<^verbatim>\<open>/a|b|c/i.test(s)\<close>.\<close>

definition test_any_ci :: "jstr list \<Rightarrow> jstr \<Rightarrow> bool" where
  "test_any_ci ps s = list_ex (includes_ci s) ps"

section \<open>Block-page detector\<close>

text \<open>
  \<^verbatim>\<open>/\<close>U+5B89 U+5168 U+9A8C U+8BC1\<^verbatim>\<open>|captcha|\<close>U+9A8C U+8BC1 U+7801\<^verbatim>\<open>|verify|risk/i\<close>
\<close>

definition security_patterns :: "jstr list" where
  "security_patterns =
     [[0x5B89, 0x5168, 0x9A8C, 0x8BC1], ustr ''captcha'', [0x9A8C, 0x8BC1, 0x7801],
      ustr ''verify'', ustr ''risk'']"

text \<open>
  \<^verbatim>\<open>/SignFlow|\<close>U+8BF7 U+767B U+5F55\<^verbatim>\<open>|\<close>U+767B U+5F55 U+77E5 U+4E4E\<^verbatim>\<open>|\<close>U+767B U+5F55 U+540E U+67E5 U+770B\<^verbatim>\<open>/i\<close>
\<close>

definition login_patterns :: "jstr list" where
  "login_patterns =
     [ustr ''SignFlow'', [0x8BF7, 0x767B, 0x5F55], [0x767B, 0x5F55, 0x77E5, 0x4E4E],
      [0x767B, 0x5F55, 0x540E, 0x67E5, 0x770B]]"

fun detectZhihuBlockPage :: "jsv \<Rightarrow> jstr" where
  "detectZhihuBlockPage (JStr htmlText) =
     (if htmlText = [] then []
      else if test_any_ci security_patterns htmlText then ustr ''SECURITY_CHECK''
      else if test_any_ci login_patterns htmlText then ustr ''LOGIN_REQUIRED''
      else [])"
| "detectZhihuBlockPage _ = []"

section \<open>Document trees and selectors\<close>

text \<open>
  A DOM tree: text nodes and elements with a lower-case tag name, an attribute list and
  child nodes. Only what the script reads is modelled: \<^verbatim>\<open>textContent\<close>,
  \<^verbatim>\<open>getAttribute\<close>, \<^verbatim>\<open>setAttribute\<close>, \<^verbatim>\<open>removeAttribute\<close>, and
  \<^verbatim>\<open>querySelector(All)\<close> for the selectors the script uses: lists of descendant
  chains of compound selectors built from tag, id, class and attribute-value tests.
\<close>

datatype node =
    TextNode jstr
  | Element jstr "(jstr \<times> jstr) list" "node list"

fun textContent :: "node \<Rightarrow> jstr" where
  "textContent (TextNode s) = s"
| "textContent (Element t as ks) = concat (map textContent ks)"

fun tagName :: "node \<Rightarrow> jstr" where
  "tagName (TextNode s) = []"
| "tagName (Element t as ks) = t"

fun getAttribute :: "node \<Rightarrow> jstr \<Rightarrow> jstr option" where
  "getAttribute (TextNode s) name = None"
| "getAttribute (Element t as ks) name = map_of as name"

text \<open>The class attribute, split at ASCII whitespace.\<close>

definition html_space :: "nat \<Rightarrow> bool" where
  "html_space c \<longleftrightarrow> c = 0x9 \<or> c = 0xA \<or> c = 0xC \<or> c = 0xD \<or> c = 0x20"

fun split_tokens :: "jstr \<Rightarrow> jstr \<Rightarrow> jstr list" where
  "split_tokens cur [] = (if cur = [] then [] else [cur])"
| "split_tokens cur (c # s) =
     (if html_space c then (if cur = [] then [] else [cur]) @ split_tokens [] s
      else split_tokens (cur @ [c]) s)"

definition classList :: "node \<Rightarrow> jstr list" where
  "classList el = (case getAttribute el (ustr ''class'') of
                     None \<Rightarrow> [] | Some v \<Rightarrow> split_tokens [] v)"

datatype simple_selector =
    Tag jstr
  | Id jstr
  | Class jstr
  | AttrEq jstr jstr

fun matches_simple :: "node \<Rightarrow> simple_selector \<Rightarrow> bool" where
  "matches_simple el (Tag t) = (tagName el = t)"
| "matches_simple el (Id i) = (getAttribute el (ustr ''id'') = Some i)"
| "matches_simple el (Class c) = (c \<in> set (classList el))"
| "matches_simple el (AttrEq a v) = (getAttribute el a = Some v)"

type_synonym compound_selector = "simple_selector list"

definition matches_compound :: "node \<Rightarrow> compound_selector \<Rightarrow> bool" where
  "matches_compound el cs = list_all (matches_simple el) cs"

text \<open>The remaining compounds of a descendant chain, innermost first, against the
  ancestors, nearest first.\<close>

fun matches_ancestors :: "compound_selector list \<Rightarrow> node list \<Rightarrow> bool" where
  "matches_ancestors [] anc = True"
| "matches_ancestors (c # cs) [] = False"
| "matches_ancestors (c # cs) (a # anc) =
     (if matches_compound a c then matches_ancestors cs anc
      else matches_ancestors (c # cs) anc)"

text \<open>A complex selector is its chain of compounds, outermost first; a selector is a
  comma-separated list of them.\<close>

type_synonym selector = "compound_selector list list"

definition matches_complex :: "node list \<Rightarrow> node \<Rightarrow> compound_selector list \<Rightarrow> bool" where
  "matches_complex anc el chain =
     (case rev chain of
        [] \<Rightarrow> False
      | c # cs \<Rightarrow> matches_compound el c \<and> matches_ancestors cs anc)"

definition matches_selector :: "selector \<Rightarrow> node list \<times> node \<Rightarrow> bool" where
  "matches_selector sel p = list_ex (matches_complex (fst p) (snd p)) sel"

text \<open>The elements of a subtree in tree order, each with its ancestors (nearest first).\<close>

fun subtree :: "node list \<Rightarrow> node \<Rightarrow> (node list \<times> node) list" where
  "subtree anc (TextNode s) = []"
| "subtree anc (Element t as ks) =
     (anc, Element t as ks) # concat (map (subtree (Element t as ks # anc)) ks)"

fun descendants :: "node \<Rightarrow> (node list \<times> node) list" where
  "descendants (TextNode s) = []"
| "descendants (Element t as ks) = concat (map (subtree [Element t as ks]) ks)"

definition querySelectorAll :: "node \<Rightarrow> selector \<Rightarrow> node list" where
  "querySelectorAll root sel = map snd (filter (matches_selector sel) (descendants root))"

definition querySelector :: "node \<Rightarrow> selector \<Rightarrow> node option" where
  "querySelector root sel =
     (case querySelectorAll root sel of [] \<Rightarrow> None | el # _ \<Rightarrow> Some el)"

text \<open>\<^verbatim>\<open>'tag'\<close> as a selector.\<close>

definition sel_tag :: "string \<Rightarrow> selector" where
  "sel_tag t = [[[Tag (ustr t)]]]"

section \<open>Environment\<close>

text \<open>
  What the script takes from the browser and the userscript host. A thrown exception or
  a rejected promise is \<open>Inl\<close> of the exception.
\<close>

datatype exn = TypeError | Error jstr

text \<open>A request handed to \<^verbatim>\<open>GM_xmlhttpRequest\<close> (always a credentialed GET) and what
  comes back: \<^verbatim>\<open>onerror\<close> with the error object's \<^verbatim>\<open>error\<close> property, or
  \<^verbatim>\<open>onload\<close> with a response.\<close>

record request =
  req_url :: jstr
  req_headers :: "(jstr \<times> jstr) list"
  req_arraybuffer :: bool
    \<comment> \<open>\<^verbatim>\<open>responseType: 'arraybuffer'\<close>\<close>

record response =
  status :: int
  finalUrl :: jstr
  responseText :: jstr
  responseHeaders :: jstr
  response_bytes :: "nat list option"
    \<comment> \<open>\<^verbatim>\<open>response.response\<close>, the array buffer\<close>

text \<open>What the request manager calls back with: \<^verbatim>\<open>onerror\<close> with the manager's error
  text (\<open>None\<close> when the event carries none), or \<^verbatim>\<open>onload\<close> with the response.\<close>

datatype xhr_result = OnError "jstr option" | OnLoad response

record env =
  location_protocol :: jstr
    \<comment> \<open>\<^verbatim>\<open>window.location.protocol\<close>, with its colon\<close>
  location_href :: jstr
    \<comment> \<open>\<^verbatim>\<open>window.location.href\<close>\<close>
  URL_href :: "jstr \<Rightarrow> jstr \<Rightarrow> jstr option"
    \<comment> \<open>\<^verbatim>\<open>new URL(raw, base).href\<close>; \<open>None\<close> when the constructor throws\<close>
  URL_origin :: "jstr \<Rightarrow> jstr option"
    \<comment> \<open>\<^verbatim>\<open>new URL(url).origin\<close>; \<open>None\<close> when the constructor throws\<close>
  Date_parse :: "jstr \<Rightarrow> int option"
    \<comment> \<open>the time value of \<^verbatim>\<open>new Date(string)\<close>; \<open>None\<close> for an invalid date\<close>
  JSON_parse :: "jstr \<Rightarrow> jsv option"
    \<comment> \<open>\<^verbatim>\<open>JSON.parse\<close>; \<open>None\<close> when it throws\<close>
  innerHTML :: "jstr \<Rightarrow> node list"
    \<comment> \<open>the children a \<^verbatim>\<open>div\<close> gets from \<^verbatim>\<open>container.innerHTML = html\<close>\<close>
  parseFromString :: "jstr \<Rightarrow> node"
    \<comment> \<open>\<^verbatim>\<open>new DOMParser().parseFromString(text, 'text/html')\<close>\<close>
  btoa :: "nat list \<Rightarrow> jstr"
    \<comment> \<open>base64 of a binary string\<close>
  GM_xmlhttpRequest :: "request \<Rightarrow> xhr_result"
  Number_toString :: "int \<Rightarrow> jstr"
    \<comment> \<open>\<^verbatim>\<open>String(n)\<close> for a number beyond \<open>2 ^ 53\<close> in magnitude: the shortest
      digits that read back as the same double\<close>

section \<open>URL normaliser\<close>

text \<open>
  \<^verbatim>\<open>normalizeUrl(rawUrl, base = window.location.href)\<close>. The base is \<open>None\<close> when the
  caller leaves it out. A truthy value that is not a string has no \<^verbatim>\<open>startsWith\<close>
  method, and calling it throws a TypeError outside the \<^verbatim>\<open>try\<close>.
\<close>

definition base_or_default :: "'e env_scheme \<Rightarrow> jstr option \<Rightarrow> jstr" where
  "base_or_default E base = (case base of None \<Rightarrow> location_href E | Some b \<Rightarrow> b)"

definition normalizeUrl :: "'e env_scheme \<Rightarrow> jsv \<Rightarrow> jstr option \<Rightarrow> exn + jstr" where
  "normalizeUrl E rawUrl base =
     (if \<not> truthy rawUrl then Inr []
      else case rawUrl of
        JStr r \<Rightarrow>
          if prefix (ustr ''data:'') r then Inr r
          else if prefix (ustr ''//'') r then Inr (location_protocol E @ r)
          else if prefix (ustr ''http://'') r \<or> prefix (ustr ''https://'') r then Inr r
          else (case URL_href E r (base_or_default E base) of
                  Some absolute \<Rightarrow> Inr absolute
                | None \<Rightarrow> Inr r)
      | _ \<Rightarrow> Inl TypeError)"

text \<open>A resolver for the page \<^verbatim>\<open>https://www.zhihu.com/people/x/posts\<close>; it stands for the
  browser's on the references of the examples. A path-absolute reference is put on the
  page's origin, an address on that origin is kept, and a plain relative path is put in
  the page's directory. \<^verbatim>\<open>ftp://\<close> names a scheme that needs a host and gives none: the
  constructor throws on it.\<close>

definition demo_origin :: jstr where
  "demo_origin = ustr ''https://www.zhihu.com''"

definition demo_URL_href :: "jstr \<Rightarrow> jstr \<Rightarrow> jstr option" where
  "demo_URL_href r b =
     (if prefix (ustr ''/'') r then Some (demo_origin @ r)
      else if prefix demo_origin r then Some r
      else if r = ustr ''ftp://'' then None
      else Some (demo_origin @ ustr ''/people/x/'' @ r))"

text \<open>An engine whose \<^verbatim>\<open>Date\<close> parses the one ISO string of the examples.\<close>

definition demo_Date_parse :: "jstr \<Rightarrow> int option" where
  "demo_Date_parse s =
     (if s = ustr ''2020-09-13T12:26:40.000Z'' then Some 1600000000000 else None)"

section \<open>Markdown converter: the table rule\<close>

text \<open>\<^verbatim>\<open>Array.prototype.join\<close>.\<close>

fun join :: "jstr \<Rightarrow> jstr list \<Rightarrow> jstr" where
  "join sep [] = []"
| "join sep [x] = x"
| "join sep (x # y # ys) = x @ sep @ join sep (y # ys)"

text \<open>\<^verbatim>\<open>arr.splice(i, 0, x)\<close>: insert at index \<open>i\<close>, or at the end of a shorter array.\<close>

definition splice_insert :: "nat \<Rightarrow> 'a \<Rightarrow> 'a list \<Rightarrow> 'a list" where
  "splice_insert i x xs = take i xs @ [x] @ drop i xs"

text \<open>\<^verbatim>\<open>s.replace(/\n/g, ' ')\<close>.\<close>

definition replace_newlines :: "jstr \<Rightarrow> jstr" where
  "replace_newlines s = map (\<lambda>c. if c = 0xA then 0x20 else c) s"

definition cell_markdown :: "node \<Rightarrow> jstr" where
  "cell_markdown cell =
     (let cellText = replace_newlines (trim (textContent cell))
      in if cellText = [] then ustr '' '' else cellText)"

definition row_markdown :: "node \<Rightarrow> jstr" where
  "row_markdown row =
     (let cells = querySelectorAll row [[[Tag (ustr ''th'')]], [[Tag (ustr ''td'')]]]
      in ustr ''| '' @ join (ustr '' | '') (map cell_markdown cells) @ ustr '' |'')"

definition separator_row :: "nat \<Rightarrow> jstr" where
  "separator_row n = ustr ''| '' @ join (ustr '' | '') (replicate n (ustr ''---'')) @ ustr '' |''"

text \<open>The \<^verbatim>\<open>replacement\<close> function of the \<^verbatim>\<open>tables\<close> rule; the lines before they are
  joined are \<open>table_lines\<close>.\<close>

definition table_lines :: "node list \<Rightarrow> jstr list" where
  "table_lines rows =
     (let markdownRows = map row_markdown rows
      in case rows of
           [] \<Rightarrow> markdownRows
         | row0 # _ \<Rightarrow>
             if querySelector row0 (sel_tag ''th'') \<noteq> None then
               let headerCells = querySelectorAll row0 (sel_tag ''th'');
                   separatorRow = ustr ''| '' @ join (ustr '' | '') (map (\<lambda>_. ustr ''---'') headerCells)
                                  @ ustr '' |''
               in splice_insert 1 separatorRow markdownRows
             else
               let firstRowCells = length (querySelectorAll row0 (sel_tag ''td''));
                   separatorRow = ustr ''| '' @ join (ustr '' | '') (replicate firstRowCells (ustr ''---''))
                                  @ ustr '' |''
               in splice_insert 1 separatorRow markdownRows)"

definition tables_replacement :: "jstr \<Rightarrow> node \<Rightarrow> jstr" where
  "tables_replacement content node =
     (let rows = querySelectorAll node (sel_tag ''tr'')
      in if length rows = 0 then content
         else [0xA, 0xA] @ join [0xA] (table_lines rows) @ [0xA, 0xA])"

text \<open>The table of the example: a header row A, B and a data row 1, 2.\<close>

definition el :: "string \<Rightarrow> node list \<Rightarrow> node" where
  "el t ks = Element (ustr t) [] ks"

definition txt_node :: "string \<Rightarrow> node" where
  "txt_node s = TextNode (ustr s)"

definition demo_table :: node where
  "demo_table =
     el ''table''
       [el ''thead'' [el ''tr'' [el ''th'' [txt_node ''A''], el ''th'' [txt_node ''B'']]],
        el ''tbody'' [el ''tr'' [el ''td'' [txt_node ''1''], el ''td'' [txt_node ''2'']]]]"

text \<open>A table without header cells, with an empty cell and a line break in a cell.\<close>

definition demo_table_plain :: node where
  "demo_table_plain =
     el ''table''
       [el ''tr'' [el ''td'' [TextNode (ustr '' x'' @ [0xA] @ ustr ''y '')], el ''td'' []]]"

section \<open>Dates\<close>

text \<open>
  Modelled from the ECMAScript specification: the \<^verbatim>\<open>Date\<close> built-in is not part of
  the script. A time value is a number of milliseconds since 1970-01-01T00:00:00Z,
  valid up to 8.64e15 in absolute value (\<^verbatim>\<open>TimeClip\<close>); \<open>None\<close> is the invalid date,
  whose \<^verbatim>\<open>getTime()\<close> is NaN. The calendar date of a day number is computed in the
  proleptic Gregorian calendar by the usual era / day-of-era decomposition.
\<close>

definition msPerDay :: int where
  "msPerDay = 86400000"

definition TimeClip :: "int \<Rightarrow> int option" where
  "TimeClip t = (if \<bar>t\<bar> \<le> 8640000000000000 then Some t else None)"

definition year_of_era :: "int \<Rightarrow> int" where
  "year_of_era doe = (doe - doe div 1460 + doe div 36524 - doe div 146096) div 365"

definition day_of_year :: "int \<Rightarrow> int \<Rightarrow> int" where
  "day_of_year doe yoe = doe - (365 * yoe + yoe div 4 - yoe div 100)"

text \<open>Months are counted from March: index 0 is March, 11 is February.\<close>

definition month_index :: "int \<Rightarrow> int" where
  "month_index doy = (5 * doy + 2) div 153"

definition month_of_index :: "int \<Rightarrow> int" where
  "month_of_index mp = (if mp < 10 then mp + 3 else mp - 9)"

definition civil_of :: "int \<Rightarrow> int \<Rightarrow> int \<Rightarrow> int \<Rightarrow> int \<times> int \<times> int" where
  "civil_of era yoe doy mp =
     (yoe + era * 400 + (if month_of_index mp \<le> 2 then 1 else 0),
      month_of_index mp,
      doy - (153 * mp + 2) div 5 + 1)"

definition civil_of_era :: "int \<Rightarrow> int \<Rightarrow> int \<times> int \<times> int" where
  "civil_of_era era doe =
     civil_of era (year_of_era doe) (day_of_year doe (year_of_era doe))
       (month_index (day_of_year doe (year_of_era doe)))"

text \<open>Year, month (1..12) and day of the month of a day number (day 0 is 1970-01-01).\<close>

definition civil_from_days :: "int \<Rightarrow> int \<times> int \<times> int" where
  "civil_from_days n = civil_of_era ((n + 719468) div 146097) ((n + 719468) mod 146097)"

text \<open>Decimal digits: a number in a fixed width, and the value of a digit string.\<close>

fun pad_digits :: "nat \<Rightarrow> nat \<Rightarrow> jstr" where
  "pad_digits 0 n = []"
| "pad_digits (Suc w) n = pad_digits w (n div 10) @ [48 + n mod 10]"

definition is_digit :: "nat \<Rightarrow> bool" where
  "is_digit c \<longleftrightarrow> 48 \<le> c \<and> c \<le> 57"

definition digits_value :: "jstr \<Rightarrow> nat" where
  "digits_value s = foldl (\<lambda>acc c. 10 * acc + (c - 48)) 0 s"

text \<open>\<^verbatim>\<open>Date.prototype.toISOString\<close> of a valid time value: the year in four digits, or
  with a sign and six digits outside 0..9999.\<close>

definition iso_year :: "int \<Rightarrow> jstr" where
  "iso_year y =
     (if 0 \<le> y \<and> y \<le> 9999 then pad_digits 4 (nat y)
      else (if y < 0 then ustr ''-'' else ustr ''+'') @ pad_digits 6 (nat \<bar>y\<bar>))"

definition iso_date_of :: "int \<times> int \<times> int \<Rightarrow> jstr" where
  "iso_date_of ymd =
     (case ymd of (y, m, d) \<Rightarrow>
        iso_year y @ ustr ''-'' @ pad_digits 2 (nat m) @ ustr ''-'' @ pad_digits 2 (nat d))"

definition iso_time_of :: "nat \<Rightarrow> jstr" where
  "iso_time_of r =
     pad_digits 2 (r div 3600000) @ ustr '':'' @ pad_digits 2 (r div 60000 mod 60) @ ustr '':''
     @ pad_digits 2 (r div 1000 mod 60) @ ustr ''.'' @ pad_digits 3 (r mod 1000)"

definition toISOString :: "int \<Rightarrow> jstr" where
  "toISOString t =
     iso_date_of (civil_from_days (t div msPerDay)) @ ustr ''T''
     @ iso_time_of (nat (t mod msPerDay)) @ ustr ''Z''"

text \<open>\<^verbatim>\<open>date.toISOString().split('T')[0]\<close>, or the empty string for an invalid date.\<close>

definition iso_date_or_empty :: "int option \<Rightarrow> jstr" where
  "iso_date_or_empty d =
     (case d of None \<Rightarrow> [] | Some t \<Rightarrow> takeWhile (\<lambda>c. c \<noteq> of_char CHR ''T'') (toISOString t))"

section \<open>Values: property access and conversion to string\<close>

function show_nat :: "nat \<Rightarrow> jstr" where
  "show_nat n = (if n < 10 then [48 + n] else show_nat (n div 10) @ [48 + n mod 10])"
  by pat_completeness auto
termination
  by (relation "measure id") auto

declare show_nat.simps [simp del]

definition show_int :: "int \<Rightarrow> jstr" where
  "show_int n = (if n < 0 then ustr ''-'' @ show_nat (nat (- n)) else show_nat (nat n))"

text \<open>The own enumerable properties in \<^verbatim>\<open>Object.keys\<close> order; an array has its indices.\<close>

fun own_entries :: "jsv \<Rightarrow> (jstr \<times> jsv) list" where
  "own_entries (JObj kvs) = kvs"
| "own_entries (JArr xs) = zip (map show_nat [0..<length xs]) xs"
| "own_entries _ = []"

text \<open>\<^verbatim>\<open>v.k\<close> and \<^verbatim>\<open>v[k]\<close> for the property names the script reads (none of them is
  inherited, and none is read from a string by index). The script reads a property with
  a plain dot only from values it has tested to be truthy.\<close>

definition get_prop :: "jsv \<Rightarrow> jstr \<Rightarrow> jsv" where
  "get_prop v k = (case map_of (own_entries v) k of Some x \<Rightarrow> x | None \<Rightarrow> JUndefined)"

text \<open>\<^verbatim>\<open>v?.k\<close>.\<close>

definition opt_prop :: "jsv \<Rightarrow> jstr \<Rightarrow> jsv" where
  "opt_prop v k = (if v = JNull \<or> v = JUndefined then JUndefined else get_prop v k)"

text \<open>\<^verbatim>\<open>String(n)\<close> of a number: an integer up to \<open>2 ^ 53\<close> in magnitude prints its own
  digits, a larger one the digits of its double.\<close>

definition number_toString :: "'e env_scheme \<Rightarrow> int \<Rightarrow> jstr" where
  "number_toString E n = (if \<bar>n\<bar> \<le> 2 ^ 53 then show_int n else Number_toString E n)"

text \<open>The results of a list of conversions, or the first exception among them.\<close>

fun all_or_throw :: "(exn + 'a) list \<Rightarrow> exn + 'a list" where
  "all_or_throw [] = Inr []"
| "all_or_throw (x # xs) =
     (case x of
        Inl e \<Rightarrow> Inl e
      | Inr v \<Rightarrow> (case all_or_throw xs of Inl e \<Rightarrow> Inl e | Inr vs \<Rightarrow> Inr (v # vs)))"

text \<open>
  \<^verbatim>\<open>ToString\<close>, as a template literal and the \<^verbatim>\<open>Date\<close> constructor apply it to a value
  that came out of \<^verbatim>\<open>JSON.parse\<close>. Such a value holds no function, so an object with an
  own \<^verbatim>\<open>toString\<close> property has no callable \<^verbatim>\<open>toString\<close>; the inherited \<^verbatim>\<open>valueOf\<close>
  returns the object itself, and the conversion throws a TypeError. Any other object
  prints through \<^verbatim>\<open>Object.prototype.toString\<close>, an array through \<^verbatim>\<open>join\<close>, which
  converts each element in turn.
\<close>

fun js_toString :: "'e env_scheme \<Rightarrow> jsv \<Rightarrow> exn + jstr" where
  "js_toString E JUndefined = Inr (ustr ''undefined'')"
| "js_toString E JNull = Inr (ustr ''null'')"
| "js_toString E (JBool b) = Inr (if b then ustr ''true'' else ustr ''false'')"
| "js_toString E (JNum n) = Inr (number_toString E n)"
| "js_toString E (JStr s) = Inr s"
| "js_toString E (JArr xs) =
     (case all_or_throw
             (map (\<lambda>x. if x = JNull \<or> x = JUndefined then Inr [] else js_toString E x) xs) of
        Inl e \<Rightarrow> Inl e
      | Inr parts \<Rightarrow> Inr (join (ustr '','') parts))"
| "js_toString E (JObj kvs) =
     (if ustr ''toString'' \<in> set (map fst kvs) then Inl TypeError
      else Inr (ustr ''[object Object]''))"

text \<open>\<^verbatim>\<open>typeof v === 'object'\<close> for a truthy value.\<close>

fun is_object :: "jsv \<Rightarrow> bool" where
  "is_object (JObj kvs) = True"
| "is_object (JArr xs) = True"
| "is_object _ = False"

text \<open>The time value of \<^verbatim>\<open>new Date(v)\<close>: a string is parsed, a number clipped, an object
  or array converted to a primitive first, which is its string or a TypeError.\<close>

fun new_Date :: "'e env_scheme \<Rightarrow> jsv \<Rightarrow> exn + int option" where
  "new_Date E (JStr s) = Inr (Option.bind (Date_parse E s) TimeClip)"
| "new_Date E (JNum n) = Inr (TimeClip n)"
| "new_Date E (JBool b) = Inr (TimeClip (if b then 1 else 0))"
| "new_Date E JNull = Inr (TimeClip 0)"
| "new_Date E JUndefined = Inr None"
| "new_Date E v =
     (case js_toString E v of
        Inl e \<Rightarrow> Inl e
      | Inr s \<Rightarrow> Inr (Option.bind (Date_parse E s) TimeClip))"

section \<open>Date normaliser\<close>

text \<open>\<^verbatim>\<open>/^\d+$/.test(s)\<close>.\<close>

definition all_digits :: "jstr \<Rightarrow> bool" where
  "all_digits s \<longleftrightarrow> s \<noteq> [] \<and> list_all is_digit s"

text \<open>\<^verbatim>\<open>parseIsoDate(value)\<close>. It has no \<^verbatim>\<open>try\<close>: what \<^verbatim>\<open>new Date\<close> throws, it throws.\<close>

definition parseIsoDate :: "'e env_scheme \<Rightarrow> jsv \<Rightarrow> exn + jstr" where
  "parseIsoDate E v =
     (if v = JNull \<or> v = JUndefined \<or> v = JStr [] then Inr []
      else
        let dateInput =
              (case v of
                 JStr s \<Rightarrow> let numeric = trim s
                           in if all_digits numeric then JNum (int (digits_value numeric)) else v
               | _ \<Rightarrow> v)
        in case dateInput of
             JNum n \<Rightarrow> Inr (iso_date_or_empty (TimeClip (if n < 10 ^ 12 then n * 1000 else n)))
           | _ \<Rightarrow> (case new_Date E dateInput of
                    Inl e \<Rightarrow> Inl e
                  | Inr d \<Rightarrow> Inr (iso_date_or_empty d)))"

text \<open>\<^verbatim>\<open>text.match(/(\d{4}-\d{2}-\d{2})/)\<close>: the first place where a date pattern starts.\<close>

definition date_pattern_at :: "jstr \<Rightarrow> bool" where
  "date_pattern_at s \<longleftrightarrow>
     length s \<ge> 10 \<and> list_all is_digit (take 4 s) \<and> s ! 4 = of_char CHR ''-''
     \<and> list_all is_digit (take 2 (drop 5 s)) \<and> s ! 7 = of_char CHR ''-''
     \<and> list_all is_digit (take 2 (drop 8 s))"

fun match_date_pattern :: "jstr \<Rightarrow> jstr option" where
  "match_date_pattern [] = None"
| "match_date_pattern (c # s) =
     (if date_pattern_at (c # s) then Some (take 10 (c # s)) else match_date_pattern s)"

definition getArticleDate :: "selector \<Rightarrow> node \<Rightarrow> jstr" where
  "getArticleDate selector root =
     (case querySelector root selector of
        None \<Rightarrow> []
      | Some dateElement \<Rightarrow>
          (case match_date_pattern (trim (textContent dateElement)) of
             Some m \<Rightarrow> m
           | None \<Rightarrow> []))"

section \<open>Embedded-state extractor\<close>

record content_record =
  cr_title :: jsv
  cr_author :: jsv
  cr_date :: jstr
  cr_url :: jstr
  cr_content :: node

definition safeParseJSON :: "'e env_scheme \<Rightarrow> jstr \<Rightarrow> jsv" where
  "safeParseJSON E text =
     (if text = [] then JNull
      else case JSON_parse E text of Some parsed \<Rightarrow> parsed | None \<Rightarrow> JNull)"

definition buildContentElementFromHtml :: "'e env_scheme \<Rightarrow> jsv \<Rightarrow> node option" where
  "buildContentElementFromHtml E html =
     (case html of
        JStr h \<Rightarrow> if h = [] then None else Some (Element (ustr ''div'') [] (innerHTML E h))
      | _ \<Rightarrow> None)"

text \<open>\<^verbatim>\<open>item && typeof item.content === 'string' && item.content.trim()\<close>.\<close>

definition has_content :: "jsv \<Rightarrow> bool" where
  "has_content item \<longleftrightarrow>
     truthy item \<and> (case get_prop item (ustr ''content'') of JStr c \<Rightarrow> trim c \<noteq> [] | _ \<Rightarrow> False)"

definition tryBuckets :: "jsv \<Rightarrow> jstr \<Rightarrow> (jstr \<times> jsv) option" where
  "tryBuckets entities key =
     (let bucket = get_prop entities key
      in if \<not> truthy bucket \<or> \<not> is_object bucket then None
         else case find has_content (map snd (own_entries bucket)) of
                Some candidate \<Rightarrow> Some (key, candidate)
              | None \<Rightarrow> None)"

text \<open>A \<^verbatim>\<open>for\<close> loop over keys that returns at the first bucket found.\<close>

fun first_bucket :: "jsv \<Rightarrow> jstr list \<Rightarrow> (jstr \<times> jsv) option" where
  "first_bucket entities [] = None"
| "first_bucket entities (key # keys) =
     (case tryBuckets entities key of
        Some found \<Rightarrow> Some found
      | None \<Rightarrow> first_bucket entities keys)"

definition findEntityWithContent :: "jsv \<Rightarrow> jstr list \<Rightarrow> (jstr \<times> jsv) option" where
  "findEntityWithContent entities preferredKeys =
     (if \<not> truthy entities \<or> \<not> is_object entities then None
      else case first_bucket entities preferredKeys of
             Some found \<Rightarrow> Some found
           | None \<Rightarrow>
               first_bucket entities
                 (filter (\<lambda>key. key \<notin> set preferredKeys) (map fst (own_entries entities))))"

definition preferredKeys :: "jstr list" where
  "preferredKeys = [ustr ''articles'', ustr ''answers'', ustr ''posts'', ustr ''zvideos'']"

text \<open>\<^verbatim>\<open>a || b || ...\<close>, left to right.\<close>

fun js_or_list :: "jsv list \<Rightarrow> jsv" where
  "js_or_list [] = JUndefined"
| "js_or_list [a] = a"
| "js_or_list (a # b # bs) = (if truthy a then a else js_or_list (b # bs))"

definition entity_url :: "'e env_scheme \<Rightarrow> jstr \<Rightarrow> jsv \<Rightarrow> jsv \<Rightarrow> exn + jstr" where
  "entity_url E key entity fallbackUrl =
     (case (if truthy (get_prop entity (ustr ''url''))
            then normalizeUrl E (get_prop entity (ustr ''url'')) None
            else normalizeUrl E fallbackUrl None) of
        Inl e \<Rightarrow> Inl e
      | Inr url \<Rightarrow>
          if \<not> truthy (get_prop entity (ustr ''url'')) \<and> truthy (get_prop entity (ustr ''id'')) then
            if key = ustr ''articles'' then
              (case js_toString E (get_prop entity (ustr ''id'')) of
                 Inl e \<Rightarrow> Inl e
               | Inr entity_id \<Rightarrow>
                   normalizeUrl E (JStr (ustr ''https://zhuanlan.zhihu.com/p/'' @ entity_id)) None)
            else if key = ustr ''answers''
                    \<and> truthy (opt_prop (get_prop entity (ustr ''question'')) (ustr ''id'')) then
              (case js_toString E (get_prop (get_prop entity (ustr ''question'')) (ustr ''id'')) of
                 Inl e \<Rightarrow> Inl e
               | Inr question_id \<Rightarrow>
              (case js_toString E (get_prop entity (ustr ''id'')) of
                 Inl e \<Rightarrow> Inl e
               | Inr entity_id \<Rightarrow>
                   normalizeUrl E
                     (JStr (ustr ''https://www.zhihu.com/question/'' @ question_id
                            @ ustr ''/answer/'' @ entity_id))
                     None))
            else Inr url
          else Inr url)"

text \<open>\<^verbatim>\<open>extractFromInitialData(doc, fallbackUrl)\<close>. The date is computed before the
  address, and neither call is inside a \<^verbatim>\<open>try\<close>.\<close>

definition extractFromInitialData ::
    "'e env_scheme \<Rightarrow> node option \<Rightarrow> jsv \<Rightarrow> exn + content_record option" where
  "extractFromInitialData E doc fallbackUrl =
     (case doc of
        None \<Rightarrow> Inr None
      | Some d \<Rightarrow>
     (case querySelector d [[[Id (ustr ''js-initialData'')]]] of
        None \<Rightarrow> Inr None
      | Some script \<Rightarrow>
     if textContent script = [] then Inr None
     else
       let parsed = safeParseJSON E (trim (textContent script)) in
       if \<not> truthy parsed then Inr None
       else
         let state = js_or_list [get_prop parsed (ustr ''initialState''), get_prop parsed (ustr ''data''),
                                 parsed];
             entities = opt_prop state (ustr ''entities'')
         in
         if \<not> truthy entities then Inr None
         else
           (case findEntityWithContent entities preferredKeys of
              None \<Rightarrow> Inr None
            | Some (key, entity) \<Rightarrow>
           (case buildContentElementFromHtml E (get_prop entity (ustr ''content'')) of
              None \<Rightarrow> Inr None
            | Some content \<Rightarrow>
                let title = js_or_list
                      [get_prop entity (ustr ''title''),
                       opt_prop (get_prop entity (ustr ''question'')) (ustr ''title''),
                       opt_prop state (ustr ''title''), JStr []];
                    author = js_or_list
                      [opt_prop (get_prop entity (ustr ''author'')) (ustr ''name''),
                       opt_prop (get_prop entity (ustr ''author'')) (ustr ''urlToken''),
                       opt_prop (get_prop entity (ustr ''user'')) (ustr ''name''), JStr []]
                in
                case parseIsoDate E (js_or_list
                      [get_prop entity (ustr ''updated''), get_prop entity (ustr ''updatedTime''),
                       get_prop entity (ustr ''publish_time''), get_prop entity (ustr ''publishTime''),
                       get_prop entity (ustr ''created''), get_prop entity (ustr ''createdTime'')]) of
                  Inl e \<Rightarrow> Inl e
                | Inr date \<Rightarrow>
                (case entity_url E key entity fallbackUrl of
                     Inl e \<Rightarrow> Inl e
                   | Inr url \<Rightarrow>
                       Inr (Some \<lparr> cr_title = title, cr_author = author, cr_date = date,
                                   cr_url = url, cr_content = content \<rparr>))))))"

section \<open>Fetching\<close>

text \<open>
  The session state: the two module-level caches and the requests handed to
  \<^verbatim>\<open>GM_xmlhttpRequest\<close> so far. An asynchronous function takes the state and returns
  its settlement (\<open>Inl\<close>: rejected) with the new state. Console logging is left out.
\<close>

record state =
  fetchedDocumentCache :: "jstr \<rightharpoonup> node"
  imageDataCache :: "jstr \<rightharpoonup> jstr"
  requests :: "request list"

definition DEFAULT_REFERER :: jstr where
  "DEFAULT_REFERER = ustr ''https://www.zhihu.com/''"

definition getRefererForUrl :: "'e env_scheme \<Rightarrow> jstr \<Rightarrow> jstr" where
  "getRefererForUrl E url =
     (case URL_origin E url of
        Some origin \<Rightarrow>
          if js_includes origin (ustr ''zhuanlan.zhihu.com'') then ustr ''https://zhuanlan.zhihu.com/''
          else DEFAULT_REFERER
      | None \<Rightarrow> DEFAULT_REFERER)"

definition buildRequestHeaders :: "'e env_scheme \<Rightarrow> jstr \<Rightarrow> (jstr \<times> jstr) list" where
  "buildRequestHeaders E url =
     [(ustr ''Referer'', getRefererForUrl E url),
      (ustr ''Accept'', ustr ''text/html,application/xhtml+xml,application/xml;q=0.9,*/*;q=0.8'')]"

definition buildApiRequestHeaders :: "'e env_scheme \<Rightarrow> jstr \<Rightarrow> (jstr \<times> jstr) list" where
  "buildApiRequestHeaders E url =
     [(ustr ''Referer'', getRefererForUrl E url),
      (ustr ''Accept'', ustr ''application/json, text/plain, */*''),
      (ustr ''X-Requested-With'', ustr ''XMLHttpRequest'')]"

text \<open>\<^verbatim>\<open>error.error || 'Unknown error'\<close>, where \<^verbatim>\<open>error.error\<close> is a string or missing.\<close>

definition error_text :: "jstr option \<Rightarrow> jstr" where
  "error_text err =
     (case err of
        Some message \<Rightarrow> if message = [] then ustr ''Unknown error'' else message
      | None \<Rightarrow> ustr ''Unknown error'')"

definition send :: "'e env_scheme \<Rightarrow> state \<Rightarrow> request \<Rightarrow> xhr_result \<times> state" where
  "send E st req = (GM_xmlhttpRequest E req, st\<lparr>requests := requests st @ [req]\<rparr>)"

definition document_request :: "'e env_scheme \<Rightarrow> jstr \<Rightarrow> request" where
  "document_request E normalizedUrl =
     \<lparr> req_url = normalizedUrl, req_headers = buildRequestHeaders E normalizedUrl,
       req_arraybuffer = False \<rparr>"

definition json_request :: "'e env_scheme \<Rightarrow> jstr \<Rightarrow> request" where
  "json_request E normalizedUrl =
     \<lparr> req_url = normalizedUrl, req_headers = buildApiRequestHeaders E normalizedUrl,
       req_arraybuffer = False \<rparr>"

definition fetchDocument :: "'e env_scheme \<Rightarrow> state \<Rightarrow> jstr \<Rightarrow> (exn + node) \<times> state" where
  "fetchDocument E st url =
     (case normalizeUrl E (JStr url) None of
        Inl e \<Rightarrow> (Inl e, st)
      | Inr normalizedUrl \<Rightarrow>
          if normalizedUrl = [] then (Inl (Error (ustr ''Invalid URL for fetching'')), st)
          else case fetchedDocumentCache st normalizedUrl of
            Some doc \<Rightarrow> (Inr doc, st)
          | None \<Rightarrow>
              (case send E st (document_request E normalizedUrl) of
                 (OnLoad r, st1) \<Rightarrow>
                   if 200 \<le> status r \<and> status r < 400 then
                     let doc = parseFromString E (responseText r)
                     in (Inr doc,
                         st1\<lparr>fetchedDocumentCache := (fetchedDocumentCache st1)(normalizedUrl \<mapsto> doc)\<rparr>)
                   else
                     (Inl (Error (ustr ''Failed to fetch '' @ normalizedUrl @ ustr '': ''
                                  @ number_toString E (status r))), st1)
               | (OnError err, st1) \<Rightarrow>
                   (Inl (Error (ustr ''Request error for '' @ normalizedUrl @ ustr '': ''
                                @ error_text err)), st1)))"

definition fetchJson :: "'e env_scheme \<Rightarrow> state \<Rightarrow> jstr \<Rightarrow> (exn + jsv) \<times> state" where
  "fetchJson E st url =
     (case normalizeUrl E (JStr url) None of
        Inl e \<Rightarrow> (Inl e, st)
      | Inr normalizedUrl \<Rightarrow>
          if normalizedUrl = [] then (Inl (Error (ustr ''Invalid URL for JSON fetching'')), st)
          else
            (case send E st (json_request E normalizedUrl) of
               (OnLoad r, st1) \<Rightarrow>
                 if 200 \<le> status r \<and> status r < 400 then
                   let parsed = safeParseJSON E (responseText r)
                   in if \<not> truthy parsed then
                        (Inl (Error (ustr ''Failed to parse JSON from '' @ normalizedUrl)), st1)
                      else (Inr parsed, st1)
                 else
                   (Inl (Error (ustr ''Failed to fetch JSON '' @ normalizedUrl @ ustr '': ''
                                @ number_toString E (status r))), st1)
             | (OnError err, st1) \<Rightarrow>
                 (Inl (Error (ustr ''JSON request error for '' @ normalizedUrl @ ustr '': ''
                              @ error_text err)), st1)))"

section \<open>API fallback client\<close>

text \<open>\<^verbatim>\<open>normalized.match(/\/p\/(\d+)/)\<close>: the digits after the first \<^verbatim>\<open>/p/\<close> that is
  followed by a digit.\<close>

fun match_article_id :: "jstr \<Rightarrow> jstr option" where
  "match_article_id [] = None"
| "match_article_id (c # s) =
     (if prefix (ustr ''/p/'') (c # s) \<and> takeWhile is_digit (drop 3 (c # s)) \<noteq> []
      then Some (takeWhile is_digit (drop 3 (c # s)))
      else match_article_id s)"

definition extractZhihuArticleId :: "'e env_scheme \<Rightarrow> jstr \<Rightarrow> exn + jstr" where
  "extractZhihuArticleId E url =
     (if url = [] then Inr []
      else case normalizeUrl E (JStr url) None of
             Inl e \<Rightarrow> Inl e
           | Inr normalized \<Rightarrow>
               (case match_article_id normalized of Some articleId \<Rightarrow> Inr articleId | None \<Rightarrow> Inr []))"

definition api_url :: "jstr \<Rightarrow> jstr" where
  "api_url articleId =
     ustr ''https://www.zhihu.com/api/v4/articles/'' @ articleId
     @ ustr ''?include=content,created,updated,title,url,author.name''"

text \<open>The body of the \<^verbatim>\<open>try\<close> block after \<^verbatim>\<open>fetchJson\<close> has resolved.\<close>

definition api_record :: "'e env_scheme \<Rightarrow> jstr \<Rightarrow> jsv \<Rightarrow> exn + content_record option" where
  "api_record E articleId data =
     (if \<not> truthy data then Inr None
      else case get_prop data (ustr ''content'') of
        JStr c \<Rightarrow>
          if trim c = [] then Inr None
          else (case buildContentElementFromHtml E (JStr c) of
                  None \<Rightarrow> Inr None
                | Some content \<Rightarrow>
                    (case parseIsoDate E (js_or (get_prop data (ustr ''updated''))
                                            (get_prop data (ustr ''created''))) of
                       Inl e \<Rightarrow> Inl e
                     | Inr date \<Rightarrow>
                    (case normalizeUrl E
                            (js_or (get_prop data (ustr ''url''))
                               (JStr (ustr ''https://zhuanlan.zhihu.com/p/'' @ articleId)))
                            None of
                       Inl e \<Rightarrow> Inl e
                     | Inr url \<Rightarrow>
                         Inr (Some \<lparr> cr_title = js_or (get_prop data (ustr ''title'')) (JStr []),
                                     cr_author = js_or (opt_prop (get_prop data (ustr ''author''))
                                                          (ustr ''name'')) (JStr []),
                                     cr_date = date,
                                     cr_url = url,
                                     cr_content = content \<rparr>))))
      | _ \<Rightarrow> Inr None)"

definition fetchZhihuArticleDetailsByApi ::
    "'e env_scheme \<Rightarrow> state \<Rightarrow> jstr \<Rightarrow> (exn + content_record option) \<times> state" where
  "fetchZhihuArticleDetailsByApi E st url =
     (case extractZhihuArticleId E url of
        Inl e \<Rightarrow> (Inl e, st)
      | Inr articleId \<Rightarrow>
          if articleId = [] then (Inr None, st)
          else
            (case fetchJson E st (api_url articleId) of
               (Inl e, st1) \<Rightarrow> (Inr None, st1)
             | (Inr data, st1) \<Rightarrow>
                 (case api_record E articleId data of
                    Inl e \<Rightarrow> (Inr None, st1)
                  | Inr result \<Rightarrow> (Inr result, st1))))"

section \<open>Content resolver\<close>

text \<open>\<^verbatim>\<open>doc.querySelector(sel)?.textContent.trim()\<close> and
  \<^verbatim>\<open>doc.querySelector(sel)?.getAttribute(name)\<close>.\<close>

definition query_text :: "node \<Rightarrow> selector \<Rightarrow> jsv" where
  "query_text doc sel =
     (case querySelector doc sel of
        None \<Rightarrow> JUndefined
      | Some e \<Rightarrow> JStr (trim (textContent e)))"

definition query_attr :: "node \<Rightarrow> selector \<Rightarrow> jstr \<Rightarrow> jsv" where
  "query_attr doc sel name =
     (case querySelector doc sel of
        None \<Rightarrow> JUndefined
      | Some e \<Rightarrow> (case getAttribute e name of None \<Rightarrow> JNull | Some v \<Rightarrow> JStr v))"

definition sel_tag_class :: "string \<Rightarrow> string \<Rightarrow> selector" where
  "sel_tag_class t c = [[[Tag (ustr t), Class (ustr c)]]]"

definition sel_meta_itemprop :: "string \<Rightarrow> selector" where
  "sel_meta_itemprop v = [[[Tag (ustr ''meta''), AttrEq (ustr ''itemprop'') (ustr v)]]]"

text \<open>The values of the local variables before the truncation check.\<close>

definition dom_title :: "node \<Rightarrow> jsv" where
  "dom_title doc =
     js_or_list [query_text doc (sel_tag_class ''h1'' ''Post-Title''),
                 query_text doc (sel_tag_class ''h1'' ''QuestionHeader-title''),
                 query_text doc (sel_tag ''title''),
                 JStr (ustr ''Untitled'')]"

definition dom_content :: "node \<Rightarrow> node option" where
  "dom_content doc =
     (case querySelector doc (sel_tag_class ''div'' ''Post-RichTextContainer'') of
        Some content \<Rightarrow> Some content
      | None \<Rightarrow> querySelector doc (sel_tag_class ''div'' ''RichContent-inner''))"

definition dom_author :: "node \<Rightarrow> jsv" where
  "dom_author doc =
     js_or_list
       [query_attr doc [[[Tag (ustr ''div''), Class (ustr ''AuthorInfo'')],
                         [Tag (ustr ''meta''), AttrEq (ustr ''itemprop'') (ustr ''name'')]]]
          (ustr ''content''),
        query_text doc [[[Class (ustr ''AuthorInfo-name'')]]],
        query_attr doc (sel_meta_itemprop ''author'') (ustr ''content''),
        JStr (ustr ''Unknown'')]"

definition dom_date :: "'e env_scheme \<Rightarrow> node \<Rightarrow> exn + jstr" where
  "dom_date E doc =
     (let publishedMeta = query_attr doc (sel_meta_itemprop ''datePublished'') (ustr ''content'')
      in case (if truthy publishedMeta then parseIsoDate E publishedMeta else Inr []) of
           Inl e \<Rightarrow> Inl e
         | Inr date0 \<Rightarrow>
             (case (if date0 = [] then
                      let modifiedMeta = query_attr doc (sel_meta_itemprop ''dateModified'')
                                           (ustr ''content'')
                      in if truthy modifiedMeta then parseIsoDate E modifiedMeta else Inr date0
                    else Inr date0) of
                Inl e \<Rightarrow> Inl e
              | Inr date1 \<Rightarrow>
                  Inr (if date1 = []
                       then getArticleDate (sel_tag_class ''div'' ''ContentItem-time'') doc
                       else date1)))"

definition dom_canonicalUrl :: "node \<Rightarrow> jstr \<Rightarrow> jsv" where
  "dom_canonicalUrl doc url =
     js_or (query_attr doc (sel_meta_itemprop ''url'') (ustr ''content'')) (JStr url)"

definition MIN_TEXT_LENGTH :: nat where
  "MIN_TEXT_LENGTH = 200"

text \<open>\<^verbatim>\<open>/\<close>U+9605 U+8BFB U+5168 U+6587\<^verbatim>\<open>/\<close>\<close>

definition READ_MORE :: jstr where
  "READ_MORE = [0x9605, 0x8BFB, 0x5168, 0x6587]"

definition shouldUseFallback :: "node option \<Rightarrow> bool" where
  "shouldUseFallback content =
     (case content of
        None \<Rightarrow> True
      | Some c \<Rightarrow>
          let text = trim (textContent c)
          in if length text < MIN_TEXT_LENGTH then True
             else let hasReadMore =
                        (querySelector c (sel_tag_class ''button'' ''ContentItem-more'') \<noteq> None
                         \<or> js_includes text READ_MORE)
                  in hasReadMore)"

text \<open>The local variables \<^verbatim>\<open>title\<close>, \<^verbatim>\<open>content\<close>, \<^verbatim>\<open>author\<close>, \<^verbatim>\<open>date\<close> and
  \<^verbatim>\<open>canonicalUrl\<close>, and the overlay of a fallback record on them.\<close>

record locals =
  l_title :: jsv
  l_content :: "node option"
  l_author :: jsv
  l_date :: jstr
  l_canonicalUrl :: jsv

definition overlay :: "content_record \<Rightarrow> locals \<Rightarrow> locals" where
  "overlay fallback l =
     \<lparr> l_title = (if truthy (cr_title fallback) then cr_title fallback else l_title l),
       l_content = Some (cr_content fallback),
       l_author = (if truthy (cr_author fallback) then cr_author fallback else l_author l),
       l_date = (if cr_date fallback \<noteq> [] then cr_date fallback else l_date l),
       l_canonicalUrl = (if cr_url fallback \<noteq> [] then JStr (cr_url fallback)
                         else l_canonicalUrl l) \<rparr>"

definition finish :: "'e env_scheme \<Rightarrow> jstr \<Rightarrow> locals \<Rightarrow> exn + content_record option" where
  "finish E url l =
     (case l_content l of
        None \<Rightarrow> Inr None
      | Some content \<Rightarrow>
          (case normalizeUrl E (js_or (l_canonicalUrl l) (JStr url)) None of
             Inl e \<Rightarrow> Inl e
           | Inr u \<Rightarrow>
               Inr (Some \<lparr> cr_title = l_title l, cr_author = l_author l, cr_date = l_date l,
                           cr_url = u, cr_content = content \<rparr>)))"

definition extractContentFromDocument ::
    "'e env_scheme \<Rightarrow> node option \<Rightarrow> jstr \<Rightarrow> exn + content_record option" where
  "extractContentFromDocument E doc0 url =
     (case doc0 of
        None \<Rightarrow> Inr None
      | Some doc \<Rightarrow>
          (case dom_date E doc of
             Inl e \<Rightarrow> Inl e
           | Inr date \<Rightarrow>
          let l = \<lparr> l_title = dom_title doc, l_content = dom_content doc,
                    l_author = dom_author doc, l_date = date,
                    l_canonicalUrl = dom_canonicalUrl doc url \<rparr>
          in if shouldUseFallback (l_content l) then
               (case extractFromInitialData E (Some doc) (js_or (l_canonicalUrl l) (JStr url)) of
                  Inl e \<Rightarrow> Inl e
                | Inr None \<Rightarrow> finish E url l
                | Inr (Some fallback) \<Rightarrow> finish E url (overlay fallback l))
             else finish E url l))"

definition fetchZhihuArticleDetails ::
    "'e env_scheme \<Rightarrow> state \<Rightarrow> jstr \<Rightarrow> (exn + content_record option) \<times> state" where
  "fetchZhihuArticleDetails E st url =
     (case fetchDocument E st url of
        (Inl e, st1) \<Rightarrow> fetchZhihuArticleDetailsByApi E st1 url
      | (Inr doc, st1) \<Rightarrow>
          (case extractContentFromDocument E (Some doc) url of
             Inl e \<Rightarrow> fetchZhihuArticleDetailsByApi E st1 url
           | Inr (Some extracted) \<Rightarrow> (Inr (Some extracted), st1)
           | Inr None \<Rightarrow>
               (case fetchZhihuArticleDetailsByApi E st1 url of
                  (Inl e, st2) \<Rightarrow> fetchZhihuArticleDetailsByApi E st2 url
                | (Inr apiFallback, st2) \<Rightarrow> (Inr apiFallback, st2))))"

section \<open>Image inliner\<close>

text \<open>\<^verbatim>\<open>headers.match(/content-type:\s*([^\n\r]+)/i)\<close>: at the first occurrence of the
  header name after which the group can match, the white space is skipped as far as
  possible while leaving the group a first character that is no line break; the group
  runs to the next line break.\<close>

definition not_newline :: "nat \<Rightarrow> bool" where
  "not_newline c \<longleftrightarrow> c \<noteq> 0xA \<and> c \<noteq> 0xD"

definition content_type_group :: "jstr \<Rightarrow> jstr option" where
  "content_type_group rest =
     (let k = length (takeWhile js_is_ws rest)
      in case filter (\<lambda>j. j < length rest \<and> not_newline (rest ! j)) (rev [0..<Suc k]) of
           [] \<Rightarrow> None
         | j # _ \<Rightarrow> Some (takeWhile not_newline (drop j rest)))"

fun match_content_type :: "jstr \<Rightarrow> jstr option" where
  "match_content_type [] = None"
| "match_content_type (c # s) =
     (if prefix (map canon (ustr ''content-type:'')) (map canon (c # s)) then
        (case content_type_group (drop 13 (c # s)) of
           Some g \<Rightarrow> Some g
         | None \<Rightarrow> match_content_type s)
      else match_content_type s)"

definition getContentTypeFromHeaders :: "jstr \<Rightarrow> jstr" where
  "getContentTypeFromHeaders headers =
     (if headers = [] then []
      else case match_content_type headers of
             Some g \<Rightarrow> trim (takeWhile (\<lambda>c. c \<noteq> of_char CHR '';'') g)
           | None \<Rightarrow> [])"

definition arrayBufferToBase64 :: "'e env_scheme \<Rightarrow> nat list option \<Rightarrow> jstr" where
  "arrayBufferToBase64 E buffer = (case buffer of None \<Rightarrow> [] | Some bytes \<Rightarrow> btoa E bytes)"

text \<open>
  \<^verbatim>\<open>fetchImageAsDataUrl\<close> in two steps. The call itself either returns a settled
  promise or hands a request to \<^verbatim>\<open>GM_xmlhttpRequest\<close>; the handlers settle the promise
  later, \<^verbatim>\<open>onload\<close> writing the cache.
\<close>

datatype image_call = Settled "exn + jstr" | Pending jstr

definition fetchImage_call ::
    "'e env_scheme \<Rightarrow> (jstr \<rightharpoonup> jstr) \<Rightarrow> jstr \<Rightarrow> jstr option \<Rightarrow> image_call" where
  "fetchImage_call E cache src baseUrl =
     (case normalizeUrl E (JStr src) baseUrl of
        Inl e \<Rightarrow> Settled (Inl e)
      | Inr normalized \<Rightarrow>
          if normalized = [] then Settled (Inr [])
          else if prefix (ustr ''data:'') normalized then Settled (Inr normalized)
          else case cache normalized of
                 Some dataUrl \<Rightarrow> Settled (Inr dataUrl)
               | None \<Rightarrow> Pending normalized)"

definition image_request :: "'e env_scheme \<Rightarrow> jstr \<Rightarrow> request" where
  "image_request E normalized =
     \<lparr> req_url = normalized, req_headers = buildRequestHeaders E normalized,
       req_arraybuffer = True \<rparr>"

definition image_settle :: "'e env_scheme \<Rightarrow> jstr \<Rightarrow> xhr_result \<Rightarrow> exn + jstr" where
  "image_settle E normalized res =
     (case res of
        OnLoad r \<Rightarrow>
          if 200 \<le> status r \<and> status r < 400 then
            let contentType = (if getContentTypeFromHeaders (responseHeaders r) \<noteq> []
                               then getContentTypeFromHeaders (responseHeaders r)
                               else ustr ''application/octet-stream'');
                base64 = arrayBufferToBase64 E (response_bytes r)
            in Inr (ustr ''data:'' @ contentType @ ustr '';base64,'' @ base64)
          else Inl (Error (ustr ''Failed to load image '' @ normalized @ ustr '': ''
                           @ number_toString E (status r)))
      | OnError err \<Rightarrow>
          Inl (Error (ustr ''Image request error for '' @ normalized @ ustr '': ''
                      @ error_text err)))"

text \<open>One call, awaited on its own.\<close>

definition fetchImageAsDataUrl ::
    "'e env_scheme \<Rightarrow> state \<Rightarrow> jstr \<Rightarrow> jstr option \<Rightarrow> (exn + jstr) \<times> state" where
  "fetchImageAsDataUrl E st src baseUrl =
     (case fetchImage_call E (imageDataCache st) src baseUrl of
        Settled r \<Rightarrow> (r, st)
      | Pending normalized \<Rightarrow>
          (case send E st (image_request E normalized) of
             (res, st1) \<Rightarrow>
               (case image_settle E normalized res of
                  Inr dataUrl \<Rightarrow>
                    (Inr dataUrl,
                     st1\<lparr>imageDataCache := (imageDataCache st1)(normalized \<mapsto> dataUrl)\<rparr>)
                | Inl e \<Rightarrow> (Inl e, st1))))"

fun attributes :: "node \<Rightarrow> (jstr \<times> jstr) list" where
  "attributes (TextNode s) = []"
| "attributes (Element t as ks) = as"

fun set_attr :: "jstr \<Rightarrow> jstr \<Rightarrow> (jstr \<times> jstr) list \<Rightarrow> (jstr \<times> jstr) list" where
  "set_attr name v [] = [(name, v)]"
| "set_attr name v ((k, x) # as) =
     (if k = name then (k, v) # as else (k, x) # set_attr name v as)"

definition remove_attr :: "jstr \<Rightarrow> (jstr \<times> jstr) list \<Rightarrow> (jstr \<times> jstr) list" where
  "remove_attr name as = filter (\<lambda>p. fst p \<noteq> name) as"

text \<open>\<^verbatim>\<open>getAttribute\<close> as a value: \<^verbatim>\<open>null\<close> when the attribute is absent.\<close>

definition attr_value :: "node \<Rightarrow> jstr \<Rightarrow> jsv" where
  "attr_value e name = (case getAttribute e name of None \<Rightarrow> JNull | Some v \<Rightarrow> JStr v)"

definition image_src :: "node \<Rightarrow> jsv" where
  "image_src img =
     js_or_list [attr_value img (ustr ''src''), attr_value img (ustr ''data-original''),
                 attr_value img (ustr ''data-src''), attr_value img (ustr ''data-actualsrc'')]"

text \<open>
  \<^verbatim>\<open>convertImagesToDataUrls\<close> maps an asynchronous callback over the images and awaits
  them together. Every callback runs up to its \<^verbatim>\<open>await\<close> before any response is
  handled, so every call of \<^verbatim>\<open>fetchImageAsDataUrl\<close> sees the cache as it was at the
  start and the requests go out in document order. Afterwards each image whose promise
  resolved to a non-empty data URL has \<^verbatim>\<open>src\<close> set and \<^verbatim>\<open>srcset\<close> removed; a
  rejection is caught and leaves the image as it was.
\<close>

definition image_call_of :: "'e env_scheme \<Rightarrow> (jstr \<rightharpoonup> jstr) \<Rightarrow> jstr option \<Rightarrow> node \<Rightarrow> image_call option" where
  "image_call_of E cache baseUrl img =
     (case image_src img of
        JStr src \<Rightarrow> if src = [] then None else Some (fetchImage_call E cache src baseUrl)
      | _ \<Rightarrow> None)"

definition image_outcome :: "'e env_scheme \<Rightarrow> image_call option \<Rightarrow> exn + jstr" where
  "image_outcome E c =
     (case c of
        None \<Rightarrow> Inr []
      | Some (Settled r) \<Rightarrow> r
      | Some (Pending normalized) \<Rightarrow>
          image_settle E normalized (GM_xmlhttpRequest E (image_request E normalized)))"

definition image_attributes ::
    "'e env_scheme \<Rightarrow> (jstr \<rightharpoonup> jstr) \<Rightarrow> jstr option \<Rightarrow> node \<Rightarrow> (jstr \<times> jstr) list" where
  "image_attributes E cache baseUrl img =
     (case image_outcome E (image_call_of E cache baseUrl img) of
        Inr dataUrl \<Rightarrow>
          if dataUrl \<noteq> [] then remove_attr (ustr ''srcset'') (set_attr (ustr ''src'') dataUrl (attributes img))
          else attributes img
      | Inl e \<Rightarrow> attributes img)"

fun map_images :: "(node \<Rightarrow> (jstr \<times> jstr) list) \<Rightarrow> node \<Rightarrow> node" where
  "map_images g (TextNode s) = TextNode s"
| "map_images g (Element t as ks) =
     Element t (if t = ustr ''img'' then g (Element t as ks) else as) (map (map_images g) ks)"

fun map_descendant_images :: "(node \<Rightarrow> (jstr \<times> jstr) list) \<Rightarrow> node \<Rightarrow> node" where
  "map_descendant_images g (TextNode s) = TextNode s"
| "map_descendant_images g (Element t as ks) = Element t as (map (map_images g) ks)"

definition pending_requests :: "'e env_scheme \<Rightarrow> image_call option list \<Rightarrow> request list" where
  "pending_requests E calls =
     concat (map (\<lambda>c. case c of Some (Pending n) \<Rightarrow> [image_request E n] | _ \<Rightarrow> []) calls)"

fun cache_loaded :: "'e env_scheme \<Rightarrow> image_call option list \<Rightarrow> (jstr \<rightharpoonup> jstr) \<Rightarrow> (jstr \<rightharpoonup> jstr)" where
  "cache_loaded E [] cache = cache"
| "cache_loaded E (c # cs) cache =
     cache_loaded E cs
       (case c of
          Some (Pending n) \<Rightarrow>
            (case image_settle E n (GM_xmlhttpRequest E (image_request E n)) of
               Inr dataUrl \<Rightarrow> cache(n \<mapsto> dataUrl)
             | Inl e \<Rightarrow> cache)
        | _ \<Rightarrow> cache)"

definition convertImagesToDataUrls ::
    "'e env_scheme \<Rightarrow> state \<Rightarrow> node \<Rightarrow> jstr option \<Rightarrow> node \<times> state" where
  "convertImagesToDataUrls E st root baseUrl =
     (let images = querySelectorAll root (sel_tag ''img'')
      in if length images = 0 then (root, st)
         else
           let calls = map (image_call_of E (imageDataCache st) baseUrl) images
           in (map_descendant_images (image_attributes E (imageDataCache st) baseUrl) root,
               st\<lparr> requests := requests st @ pending_requests E calls,
                   imageDataCache := cache_loaded E calls (imageDataCache st) \<rparr>))"

section \<open>Example environment\<close>

definition demo_api_text :: jstr where
  \<open>demo_api_text = ustr ''{"content":"<p>Hi</p>","title":"T","created":1600000000}''\<close>

definition demo_api_data :: jsv where
  "demo_api_data =
     JObj [(ustr ''content'', JStr (ustr ''<p>Hi</p>'')), (ustr ''title'', JStr (ustr ''T'')),
           (ustr ''created'', JNum 1600000000)]"

definition demo_blank_text :: jstr where
  \<open>demo_blank_text = ustr ''{"content":" ","title":"T"}''\<close>

definition demo_blank_data :: jsv where
  "demo_blank_data =
     JObj [(ustr ''content'', JStr (ustr '' '')), (ustr ''title'', JStr (ustr ''T''))]"

text \<open>The embedded state of the examples: an \<^verbatim>\<open>articles\<close> bucket whose only entity has a
  blank content string, and an \<^verbatim>\<open>answers\<close> bucket with a real one.\<close>

definition demo_blank_article :: jsv where
  "demo_blank_article = JObj [(ustr ''id'', JNum 1), (ustr ''content'', JStr (ustr '' ''))]"

definition demo_answer :: jsv where
  "demo_answer =
     JObj [(ustr ''id'', JNum 2), (ustr ''content'', JStr (ustr ''<p>x</p>'')),
           (ustr ''title'', JStr (ustr ''Answer title''))]"

definition demo_entities :: jsv where
  "demo_entities =
     JObj [(ustr ''users'', JObj [(ustr ''u'', JObj [(ustr ''name'', JStr (ustr ''N''))])]),
           (ustr ''answers'', JObj [(ustr ''2'', demo_answer)]),
           (ustr ''articles'', JObj [(ustr ''1'', demo_blank_article)])]"

text \<open>Entities whose only content-bearing entity sits in a bucket outside the preferred
  keys, and entities without any.\<close>

definition demo_entities_other :: jsv where
  "demo_entities_other =
     JObj [(ustr ''articles'', JObj []),
           (ustr ''pins'', JObj [(ustr ''7'', JNull), (ustr ''8'', demo_answer)]),
           (ustr ''drafts'', JObj [(ustr ''9'', demo_answer)])]"

definition demo_entities_none :: jsv where
  "demo_entities_none =
     JObj [(ustr ''articles'', JObj [(ustr ''1'', demo_blank_article)]),
           (ustr ''users'', JStr (ustr ''x''))]"

definition demo_state_text :: jstr where
  \<open>demo_state_text = ustr ''{"initialState":{"entities":{"users":{"u":{"name":"N"}},"answers":{"2":{"id":2,"content":"<p>x</p>","title":"Answer title"}},"articles":{"1":{"id":1,"content":" "}}}}}''\<close>

definition demo_state_none_text :: jstr where
  \<open>demo_state_none_text = ustr ''{"initialState":{"entities":{"articles":{"1":{"id":1,"content":" "}},"users":"x"}}}''\<close>

definition demo_state :: "jsv \<Rightarrow> jsv" where
  "demo_state entities = JObj [(ustr ''initialState'', JObj [(ustr ''entities'', entities)])]"

text \<open>A fetched page with a script node holding the given text and nothing else.\<close>

definition demo_script_doc :: "jstr \<Rightarrow> node" where
  "demo_script_doc text =
     Element (ustr ''#document'') []
       [el ''html''
          [el ''head'' [Element (ustr ''script'') [(ustr ''id'', ustr ''js-initialData'')]
                          [TextNode text]],
           el ''body'' []]]"

text \<open>A fetched answer page whose rendered content is a short preview: title, author and
  publication date are in the DOM, the full content only in the embedded state.\<close>

definition demo_article_doc :: node where
  "demo_article_doc =
     Element (ustr ''#document'') []
       [el ''html''
          [el ''head''
             [Element (ustr ''meta'')
                [(ustr ''itemprop'', ustr ''datePublished''), (ustr ''content'', ustr ''1600000000'')] [],
              Element (ustr ''script'') [(ustr ''id'', ustr ''js-initialData'')]
                [TextNode demo_state_text]],
           el ''body''
             [Element (ustr ''h1'') [(ustr ''class'', ustr ''Post-Title'')] [txt_node ''DOM title''],
              Element (ustr ''span'') [(ustr ''class'', ustr ''AuthorInfo-name'')]
                [txt_node ''DOM author''],
              Element (ustr ''div'') [(ustr ''class'', ustr ''RichContent-inner is-collapsed'')]
                [txt_node ''short'']]]]"

definition demo_article_url :: jstr where
  "demo_article_url = ustr ''https://www.zhihu.com/question/9/answer/2''"

text \<open>A fetched page whose rendered content is complete: two hundred letters.\<close>

definition demo_long_content :: node where
  "demo_long_content =
     Element (ustr ''div'') [(ustr ''class'', ustr ''Post-RichTextContainer'')]
       [TextNode (replicate 200 97)]"

definition demo_long_doc :: node where
  "demo_long_doc =
     Element (ustr ''#document'') []
       [el ''html''
          [el ''head'' [el ''title'' [txt_node ''Page title'']],
           el ''body'' [demo_long_content]]]"

text \<open>Content fragments with images: one already inlined, one lazily loaded whose data
  URL sits in \<^verbatim>\<open>data-original\<close>, and one inlined image that still carries a
  \<^verbatim>\<open>srcset\<close>.\<close>

definition demo_data_url :: jstr where
  "demo_data_url = ustr ''data:image/png;base64,AA''"

definition demo_inlined_fragment :: node where
  "demo_inlined_fragment =
     el ''div''
       [el ''p'' [txt_node ''text'',
                  Element (ustr ''img'') [(ustr ''src'', demo_data_url), (ustr ''alt'', ustr ''a'')] []],
        Element (ustr ''img'') [(ustr ''src'', demo_data_url)] []]"

definition demo_lazy_fragment :: node where
  "demo_lazy_fragment =
     el ''div'' [Element (ustr ''img'') [(ustr ''data-original'', demo_data_url)] []]"

definition demo_srcset_fragment :: node where
  "demo_srcset_fragment =
     el ''div''
       [Element (ustr ''img'') [(ustr ''src'', demo_data_url), (ustr ''srcset'', ustr ''a.png 2x'')] []]"

definition demo_numeric_url_text :: jstr where
  \<open>demo_numeric_url_text = ustr ''{"content":"<p>Hi</p>","url":5}''\<close>

definition demo_numeric_url_data :: jsv where
  "demo_numeric_url_data =
     JObj [(ustr ''content'', JStr (ustr ''<p>Hi</p>'')), (ustr ''url'', JNum 5)]"

text \<open>An answer whose \<^verbatim>\<open>updated\<close> is an object with a property named \<^verbatim>\<open>toString\<close>.\<close>

definition demo_object_date_text :: jstr where
  \<open>demo_object_date_text = ustr ''{"content":"<p>Hi</p>","updated":{"toString":1}}''\<close>

definition demo_object_date_data :: jsv where
  "demo_object_date_data =
     JObj [(ustr ''content'', JStr (ustr ''<p>Hi</p>'')),
           (ustr ''updated'', JObj [(ustr ''toString'', JNum 1)])]"

definition demo_JSON_parse :: "jstr \<Rightarrow> jsv option" where
  "demo_JSON_parse text =
     (if text = demo_api_text then Some demo_api_data
      else if text = demo_blank_text then Some demo_blank_data
      else if text = demo_numeric_url_text then Some demo_numeric_url_data
      else if text = demo_object_date_text then Some demo_object_date_data
      else if text = demo_state_text then Some (demo_state demo_entities)
      else if text = demo_state_none_text then Some (demo_state demo_entities_none)
      else None)"

text \<open>The article API answers for article 123 with the first text, for article 456
  with the blank one, for article 789 with the one whose \<^verbatim>\<open>url\<close> is a number and for
  article 321 with the one whose \<^verbatim>\<open>updated\<close> is an object; nothing else is reachable.\<close>

definition demo_response :: "jstr \<Rightarrow> response" where
  "demo_response body =
     \<lparr> status = 200, finalUrl = [], responseText = body, responseHeaders = [],
       response_bytes = None \<rparr>"

definition demo_GM_xmlhttpRequest :: "request \<Rightarrow> xhr_result" where
  "demo_GM_xmlhttpRequest req =
     (if req_url req = api_url (ustr ''123'') then OnLoad (demo_response demo_api_text)
      else if req_url req = api_url (ustr ''456'') then OnLoad (demo_response demo_blank_text)
      else if req_url req = api_url (ustr ''789'') then OnLoad (demo_response demo_numeric_url_text)
      else if req_url req = api_url (ustr ''321'') then OnLoad (demo_response demo_object_date_text)
      else OnError None)"

definition demo_env :: env where
  "demo_env = \<lparr> location_protocol = ustr ''https:'',
                 location_href = ustr ''https://www.zhihu.com/people/x/posts'',
                 URL_href = demo_URL_href,
                 URL_origin = (\<lambda>u. None),
                 Date_parse = demo_Date_parse,
                 JSON_parse = demo_JSON_parse,
                 innerHTML = (\<lambda>h. [TextNode h]),
                 parseFromString = (\<lambda>t. Element (ustr ''#document'') [] [TextNode t]),
                 btoa = (\<lambda>bytes. []),
                 GM_xmlhttpRequest = demo_GM_xmlhttpRequest,
                 Number_toString = show_int \<rparr>"

definition empty_state :: state where
  "empty_state = \<lparr> fetchedDocumentCache = Map.empty, imageDataCache = Map.empty, requests = [] \<rparr>"

section \<open>Properties\<close>

subsection \<open>Block-page detector\<close>

text \<open>
  C10. The detector is total and returns exactly one of the three classifications
  \<^verbatim>\<open>'SECURITY_CHECK'\<close>, \<^verbatim>\<open>'LOGIN_REQUIRED'\<close> and the clean one (the empty string),
  which are pairwise different; a payload matching the security-challenge patterns is
  classified \<^verbatim>\<open>'SECURITY_CHECK'\<close> also when it matches the login-wall patterns; a
  payload matching only the login-wall patterns is \<^verbatim>\<open>'LOGIN_REQUIRED'\<close>; a non-string
  or empty input is clean.
\<close>

theorem detectZhihuBlockPage_classifies:
  "detectZhihuBlockPage v \<in> {ustr ''SECURITY_CHECK'', ustr ''LOGIN_REQUIRED'', []}
   \<and> ustr ''SECURITY_CHECK'' \<noteq> ustr ''LOGIN_REQUIRED''
   \<and> ustr ''SECURITY_CHECK'' \<noteq> [] \<and> ustr ''LOGIN_REQUIRED'' \<noteq> []
   \<and> (\<forall>s. v = JStr s \<and> s \<noteq> [] \<and> test_any_ci security_patterns s
          \<and> test_any_ci login_patterns s
        \<longrightarrow> detectZhihuBlockPage v = ustr ''SECURITY_CHECK'')
   \<and> (\<forall>s. v = JStr s \<and> s \<noteq> [] \<and> test_any_ci security_patterns s
        \<longrightarrow> detectZhihuBlockPage v = ustr ''SECURITY_CHECK'')
   \<and> (\<forall>s. v = JStr s \<and> s \<noteq> [] \<and> \<not> test_any_ci security_patterns s
          \<and> test_any_ci login_patterns s
        \<longrightarrow> detectZhihuBlockPage v = ustr ''LOGIN_REQUIRED'')
   \<and> (\<forall>s. v = JStr s \<and> s \<noteq> [] \<and> \<not> test_any_ci security_patterns s
          \<and> \<not> test_any_ci login_patterns s
        \<longrightarrow> detectZhihuBlockPage v = [])
   \<and> ((\<forall>s. v \<noteq> JStr s) \<or> v = JStr [] \<longrightarrow> detectZhihuBlockPage v = [])"
  by (cases v) (auto simp: ustr_def)

theorem detectZhihuBlockPage_classifies_witness:
  "test_any_ci security_patterns (ustr ''Captcha SignFlow'')
   \<and> test_any_ci login_patterns (ustr ''Captcha SignFlow'')
   \<and> detectZhihuBlockPage (JStr (ustr ''Captcha SignFlow'')) = ustr ''SECURITY_CHECK''
   \<and> \<not> test_any_ci security_patterns [0x8BF7, 0x767B, 0x5F55]
   \<and> detectZhihuBlockPage (JStr [0x8BF7, 0x767B, 0x5F55]) = ustr ''LOGIN_REQUIRED''
   \<and> detectZhihuBlockPage (JNum 7) = []
   \<and> detectZhihuBlockPage (JStr []) = []"
proof -
  have sec: "test_any_ci security_patterns (ustr ''Captcha SignFlow'')"
    by (simp add: test_any_ci_def security_patterns_def includes_ci_def canon_def ustr_def)
  have login: "test_any_ci login_patterns (ustr ''Captcha SignFlow'')"
    by (simp add: test_any_ci_def login_patterns_def includes_ci_def canon_def ustr_def)
  have nsec: "\<not> test_any_ci security_patterns [0x8BF7, 0x767B, 0x5F55]"
    by (simp add: test_any_ci_def security_patterns_def includes_ci_def canon_def ustr_def)
  have login2: "test_any_ci login_patterns [0x8BF7, 0x767B, 0x5F55]"
    by (simp add: test_any_ci_def login_patterns_def includes_ci_def canon_def ustr_def)
  show ?thesis
    using sec login nsec login2
      detectZhihuBlockPage_classifies [of "JStr (ustr ''Captcha SignFlow'')"]
      detectZhihuBlockPage_classifies [of "JStr [0x8BF7, 0x767B, 0x5F55]"]
      detectZhihuBlockPage_classifies [of "JNum 7"]
      detectZhihuBlockPage_classifies [of "JStr []"]
    by (simp add: ustr_def)
qed

subsection \<open>URL normaliser\<close>

lemma normalizeUrl_string:
  "normalizeUrl E (JStr r) base =
     Inr (if r = [] then []
          else if prefix (ustr ''data:'') r then r
          else if prefix (ustr ''//'') r then location_protocol E @ r
          else if prefix (ustr ''http://'') r \<or> prefix (ustr ''https://'') r then r
          else (case URL_href E r (base_or_default E base) of Some a \<Rightarrow> a | None \<Rightarrow> r))"
  by (simp add: normalizeUrl_def split: option.splits)

text \<open>
  C6. \<^verbatim>\<open>normalizeUrl\<close> applies its rules in order: a falsy raw URL gives the empty
  string; a \<^verbatim>\<open>data:\<close> URL is returned unchanged; a URL starting with \<^verbatim>\<open>//\<close> is
  prefixed with the page's scheme; a URL starting with \<^verbatim>\<open>http://\<close> or \<^verbatim>\<open>https://\<close>
  is returned unchanged; anything else is resolved against the base (the page's
  address when no base is given); when the resolution fails the raw string is returned.
  On a raw URL that is a string or falsy it never throws. On any other raw URL, a
  truthy value that is not a string (a number, \<^verbatim>\<open>true\<close>, an array, an object), it throws
  a TypeError: the value has no \<^verbatim>\<open>startsWith\<close> method.
\<close>

theorem normalizeUrl_rules:
  "(\<not> truthy raw \<longrightarrow> normalizeUrl E raw base = Inr [])
   \<and> (\<forall>r. raw = JStr r \<and> r \<noteq> [] \<and> prefix (ustr ''data:'') r
        \<longrightarrow> normalizeUrl E raw base = Inr r)
   \<and> (\<forall>r. raw = JStr r \<and> r \<noteq> [] \<and> \<not> prefix (ustr ''data:'') r \<and> prefix (ustr ''//'') r
        \<longrightarrow> normalizeUrl E raw base = Inr (location_protocol E @ r))
   \<and> (\<forall>r. raw = JStr r \<and> r \<noteq> [] \<and> \<not> prefix (ustr ''data:'') r \<and> \<not> prefix (ustr ''//'') r
          \<and> (prefix (ustr ''http://'') r \<or> prefix (ustr ''https://'') r)
        \<longrightarrow> normalizeUrl E raw base = Inr r)
   \<and> (\<forall>r a. raw = JStr r \<and> r \<noteq> [] \<and> \<not> prefix (ustr ''data:'') r \<and> \<not> prefix (ustr ''//'') r
          \<and> \<not> prefix (ustr ''http://'') r \<and> \<not> prefix (ustr ''https://'') r
          \<and> URL_href E r (case base of None \<Rightarrow> location_href E | Some b \<Rightarrow> b) = Some a
        \<longrightarrow> normalizeUrl E raw base = Inr a)
   \<and> (\<forall>r. raw = JStr r \<and> r \<noteq> [] \<and> \<not> prefix (ustr ''data:'') r \<and> \<not> prefix (ustr ''//'') r
          \<and> \<not> prefix (ustr ''http://'') r \<and> \<not> prefix (ustr ''https://'') r
          \<and> URL_href E r (case base of None \<Rightarrow> location_href E | Some b \<Rightarrow> b) = None
        \<longrightarrow> normalizeUrl E raw base = Inr r)
   \<and> (\<not> truthy raw \<or> (\<exists>r. raw = JStr r) \<longrightarrow> (\<exists>u. normalizeUrl E raw base = Inr u))
   \<and> (truthy raw \<and> (\<forall>r. raw \<noteq> JStr r) \<longrightarrow> normalizeUrl E raw base = Inl TypeError)"
  by (cases raw) (auto simp: normalizeUrl_def base_or_default_def split: option.splits)

theorem normalizeUrl_rules_witness:
  "normalizeUrl demo_env JNull None = Inr []
   \<and> normalizeUrl demo_env (JStr []) None = Inr []
   \<and> normalizeUrl demo_env (JStr (ustr ''data:image/png;base64,AA'')) None
       = Inr (ustr ''data:image/png;base64,AA'')
   \<and> normalizeUrl demo_env (JStr (ustr ''//pic1.zhimg.com/a.jpg'')) None
       = Inr (ustr ''https://pic1.zhimg.com/a.jpg'')
   \<and> normalizeUrl demo_env (JStr (ustr ''http://a.b/c'')) None = Inr (ustr ''http://a.b/c'')
   \<and> normalizeUrl demo_env (JStr (ustr ''/p/123'')) None
       = Inr (ustr ''https://www.zhihu.com/p/123'')
   \<and> normalizeUrl demo_env (JStr (ustr ''p/123'')) None
       = Inr (ustr ''https://www.zhihu.com/people/x/p/123'')
   \<and> normalizeUrl demo_env (JStr (ustr ''ftp://'')) None = Inr (ustr ''ftp://'')
   \<and> normalizeUrl demo_env (JBool True) None = Inl TypeError"
proof -
  have a: "URL_href demo_env (ustr ''/p/123'')
             (case None of None \<Rightarrow> location_href demo_env | Some b \<Rightarrow> b)
           = Some (ustr ''https://www.zhihu.com/p/123'')"
    by (simp add: demo_env_def demo_URL_href_def demo_origin_def ustr_def)
  have b: "URL_href demo_env (ustr ''p/123'')
             (case None of None \<Rightarrow> location_href demo_env | Some b \<Rightarrow> b)
           = Some (ustr ''https://www.zhihu.com/people/x/p/123'')"
    by (simp add: demo_env_def demo_URL_href_def demo_origin_def ustr_def)
  have c: "URL_href demo_env (ustr ''ftp://'')
             (case None of None \<Rightarrow> location_href demo_env | Some b \<Rightarrow> b) = None"
    by (simp add: demo_env_def demo_URL_href_def demo_origin_def ustr_def)
  have p: "location_protocol demo_env = ustr ''https:''"
    by (simp add: demo_env_def)
  show ?thesis
    using a b c p
      normalizeUrl_rules [of JNull demo_env None]
      normalizeUrl_rules [of "JStr []" demo_env None]
      normalizeUrl_rules [of "JStr (ustr ''data:image/png;base64,AA'')" demo_env None]
      normalizeUrl_rules [of "JStr (ustr ''//pic1.zhimg.com/a.jpg'')" demo_env None]
      normalizeUrl_rules [of "JStr (ustr ''http://a.b/c'')" demo_env None]
      normalizeUrl_rules [of "JStr (ustr ''/p/123'')" demo_env None]
      normalizeUrl_rules [of "JStr (ustr ''p/123'')" demo_env None]
      normalizeUrl_rules [of "JStr (ustr ''ftp://'')" demo_env None]
      normalizeUrl_rules [of "JBool True" demo_env None]
    by (simp add: ustr_def)
qed

text \<open>
  The rules do not cover every input, and \<^verbatim>\<open>normalizeUrl\<close> does throw: the number 5 is
  truthy and is not a string, so the call of \<^verbatim>\<open>startsWith\<close> on it throws a TypeError
  and no string is returned. The script passes such a value when the article API
  answers with a numeric \<^verbatim>\<open>url\<close>: the record built from that answer is replaced by
  the TypeError.
\<close>

theorem normalizeUrl_rules_counterexample:
  "truthy (JNum 5)
   \<and> normalizeUrl demo_env (JNum 5) None = Inl TypeError
   \<and> (\<nexists>u. normalizeUrl demo_env (JNum 5) None = Inr u)
   \<and> get_prop demo_numeric_url_data (ustr ''url'') = JNum 5
   \<and> api_record demo_env (ustr ''789'') demo_numeric_url_data = Inl TypeError"
proof -
  have thrown: "normalizeUrl demo_env (JNum 5) None = Inl TypeError"
    by (simp add: normalizeUrl_def)
  have url: "get_prop demo_numeric_url_data (ustr ''url'') = JNum 5"
    by (simp add: demo_numeric_url_data_def get_prop_def ustr_def)
  have content: "get_prop demo_numeric_url_data (ustr ''content'') = JStr (ustr ''<p>Hi</p>'')"
    by (simp add: demo_numeric_url_data_def get_prop_def ustr_def)
  have dates: "get_prop demo_numeric_url_data (ustr ''updated'') = JUndefined"
    "get_prop demo_numeric_url_data (ustr ''created'') = JUndefined"
    by (simp_all add: demo_numeric_url_data_def get_prop_def ustr_def)
  have body: "trim (ustr ''<p>Hi</p>'') \<noteq> []"
    by (simp add: trim_def js_is_ws_def ustr_def)
  have built: "buildContentElementFromHtml demo_env (JStr (ustr ''<p>Hi</p>''))
               = Some (Element (ustr ''div'') [] [TextNode (ustr ''<p>Hi</p>'')])"
    by (simp add: buildContentElementFromHtml_def demo_env_def ustr_def)
  have answer: "truthy demo_numeric_url_data"
    by (simp add: demo_numeric_url_data_def)
  have replaced: "api_record demo_env (ustr ''789'') demo_numeric_url_data = Inl TypeError"
    by (simp add: api_record_def answer content url dates body built thrown parseIsoDate_def
        js_or_def)
  from thrown url replaced show ?thesis by simp
qed

text \<open>
  C5. Normalisation is idempotent: on a page served over http or https (the only pages
  the script is installed on), and with a URL constructor whose serialisation of this
  URL starts with its scheme, not with \<^verbatim>\<open>//\<close>, and is given back when it is parsed
  again (the URL standard's guarantee), \<^verbatim>\<open>normalizeUrl(normalizeUrl(u, b), b)\<close> equals \<^verbatim>\<open>normalizeUrl(u, b)\<close>
  for every raw URL string \<open>u\<close> and base \<open>b\<close>.
\<close>

theorem normalizeUrl_idempotent:
  assumes scheme: "location_protocol E = ustr ''http:'' \<or> location_protocol E = ustr ''https:''"
    and reparse: "\<forall>h. URL_href E u (base_or_default E b) = Some h
                    \<longrightarrow> \<not> prefix (ustr ''//'') h
                        \<and> URL_href E h (base_or_default E b) = Some h"
  shows "\<exists>n. normalizeUrl E (JStr u) b = Inr n \<and> normalizeUrl E (JStr n) b = Inr n"
proof -
  let ?d = "prefix (ustr ''data:'')" and ?s = "prefix (ustr ''//'')"
  let ?h = "\<lambda>r. prefix (ustr ''http://'') r \<or> prefix (ustr ''https://'') r"
  consider (empty) "u = []" | (data) "u \<noteq> []" "?d u" | (rel) "u \<noteq> []" "\<not> ?d u" "?s u"
    | (abs) "u \<noteq> []" "\<not> ?d u" "\<not> ?s u" "?h u"
    | (res) "u \<noteq> []" "\<not> ?d u" "\<not> ?s u" "\<not> ?h u"
    by blast
  then show ?thesis
  proof cases
    case empty
    then show ?thesis by (simp add: normalizeUrl_string)
  next
    case data
    then show ?thesis by (simp add: normalizeUrl_string)
  next
    case rel
    then obtain t where u: "u = ustr ''//'' @ t" by (auto simp: prefix_def)
    from scheme have "?h (location_protocol E @ u)"
      by (auto simp: u ustr_def)
    moreover from scheme have "\<not> ?d (location_protocol E @ u)" "\<not> ?s (location_protocol E @ u)"
      "location_protocol E @ u \<noteq> []"
      by (auto simp: u ustr_def)
    ultimately show ?thesis using rel
      by (simp add: normalizeUrl_string)
  next
    case abs
    then show ?thesis by (simp add: normalizeUrl_string)
  next
    case res
    show ?thesis
    proof (cases "URL_href E u (base_or_default E b)")
      case None
      with res show ?thesis by (simp add: normalizeUrl_string)
    next
      case (Some h)
      with reparse have again: "URL_href E h (base_or_default E b) = Some h"
        and scheme_first: "\<not> prefix (ustr ''//'') h" by simp_all
      from res Some have first: "normalizeUrl E (JStr u) b = Inr h"
        by (simp add: normalizeUrl_string)
      have "normalizeUrl E (JStr h) b = Inr h"
        using again scheme_first by (simp add: normalizeUrl_string)
      with first show ?thesis by simp
    qed
  qed
qed

theorem normalizeUrl_idempotent_witness:
  "normalizeUrl demo_env (JStr (ustr ''/p/123'')) None = Inr (ustr ''https://www.zhihu.com/p/123'')
   \<and> normalizeUrl demo_env (JStr (ustr ''https://www.zhihu.com/p/123'')) None
       = Inr (ustr ''https://www.zhihu.com/p/123'')
   \<and> (\<exists>n. normalizeUrl demo_env (JStr (ustr ''//zhimg.com/a'')) None = Inr n
          \<and> normalizeUrl demo_env (JStr n) None = Inr n)"
proof -
  have scheme: "location_protocol demo_env = ustr ''http:''
                \<or> location_protocol demo_env = ustr ''https:''"
    by (simp add: demo_env_def)
  have reparse: "\<forall>h. URL_href demo_env r (base_or_default demo_env None) = Some h
                   \<longrightarrow> \<not> prefix (ustr ''//'') h
                       \<and> URL_href demo_env h (base_or_default demo_env None) = Some h" for r
    by (auto simp: demo_env_def demo_URL_href_def demo_origin_def ustr_def prefix_def
        split: if_splits)
  have first: "normalizeUrl demo_env (JStr (ustr ''/p/123'')) None
                 = Inr (ustr ''https://www.zhihu.com/p/123'')"
    by (simp add: normalizeUrl_string demo_env_def demo_URL_href_def demo_origin_def
        base_or_default_def ustr_def)
  from normalizeUrl_idempotent [OF scheme reparse, of "ustr ''/p/123''"] first
  have second: "normalizeUrl demo_env (JStr (ustr ''https://www.zhihu.com/p/123'')) None
                  = Inr (ustr ''https://www.zhihu.com/p/123'')"
    by simp
  from first second normalizeUrl_idempotent [OF scheme reparse, of "ustr ''//zhimg.com/a''"]
  show ?thesis by blast
qed

subsection \<open>Table rule\<close>

lemmas dom_eval = querySelectorAll_def querySelector_def matches_selector_def
  matches_complex_def matches_compound_def sel_tag_def el_def txt_node_def ustr_def

lemmas table_eval = table_lines_def splice_insert_def row_markdown_def cell_markdown_def
  separator_row_def trim_def js_is_ws_def replace_newlines_def

lemma join_map_const: "join sep (map (\<lambda>_. x) xs) = join sep (replicate (length xs) x)"
  by (simp add: map_replicate_const)

lemma table_lines_Cons:
  "table_lines (row0 # rest) =
     row_markdown row0
     # separator_row (if querySelectorAll row0 (sel_tag ''th'') \<noteq> []
                      then length (querySelectorAll row0 (sel_tag ''th''))
                      else length (querySelectorAll row0 (sel_tag ''td'')))
     # map row_markdown rest"
  by (simp add: table_lines_def splice_insert_def separator_row_def querySelector_def
      join_map_const split: list.splits)

lemma demo_table_rows:
  "querySelectorAll demo_table (sel_tag ''tr'') =
     [el ''tr'' [el ''th'' [txt_node ''A''], el ''th'' [txt_node ''B'']],
      el ''tr'' [el ''td'' [txt_node ''1''], el ''td'' [txt_node ''2'']]]"
  by (simp add: demo_table_def dom_eval)

lemma demo_table_lines:
  "table_lines (querySelectorAll demo_table (sel_tag ''tr'')) =
     [ustr ''| A | B |'', ustr ''| --- | --- |'', ustr ''| 1 | 2 |'']"
  unfolding demo_table_rows by (simp add: table_eval dom_eval)

lemma demo_table_plain_rows:
  "querySelectorAll demo_table_plain (sel_tag ''tr'') =
     [el ''tr'' [el ''td'' [TextNode (ustr '' x'' @ [0xA] @ ustr ''y '')], el ''td'' []]]"
  by (simp add: demo_table_plain_def dom_eval)

text \<open>
  C3. The table rule leaves the converted content as it is for a table without rows.
  Otherwise it emits, between two blank-line separators and joined by newlines, the
  pipe-delimited line of the first row, then exactly one separator line of \<^verbatim>\<open>---\<close>
  cells, then the lines of the remaining rows in order: one line per row. The separator
  has as many cells as the first row has \<^verbatim>\<open>th\<close> cells if it has any, otherwise as many
  as it has \<^verbatim>\<open>td\<close> cells. A row's line is \<^verbatim>\<open>| c1 | ... | cn |\<close> over its \<^verbatim>\<open>th\<close> and
  \<^verbatim>\<open>td\<close> cells, each cell's text trimmed, its newlines replaced by spaces, and an empty
  cell rendered as one space. The table with header row A, B and data row 1, 2 gives
  exactly the three lines header, two-column separator, data.
\<close>

theorem tables_rule:
  "(querySelectorAll node (sel_tag ''tr'') = [] \<longrightarrow> tables_replacement content node = content)
   \<and> (\<forall>row0 rest. querySelectorAll node (sel_tag ''tr'') = row0 # rest \<longrightarrow>
         table_lines (row0 # rest) =
           row_markdown row0
           # separator_row (if querySelectorAll row0 (sel_tag ''th'') \<noteq> []
                            then length (querySelectorAll row0 (sel_tag ''th''))
                            else length (querySelectorAll row0 (sel_tag ''td'')))
           # map row_markdown rest
         \<and> length (table_lines (row0 # rest)) = length (row0 # rest) + 1
         \<and> tables_replacement content node =
             [0xA, 0xA] @ join [0xA] (table_lines (row0 # rest)) @ [0xA, 0xA])
   \<and> (\<forall>n. separator_row n
          = ustr ''| '' @ join (ustr '' | '') (replicate n (ustr ''---'')) @ ustr '' |'')
   \<and> (\<forall>row. row_markdown row =
          ustr ''| ''
          @ join (ustr '' | '')
              (map cell_markdown
                 (querySelectorAll row [[[Tag (ustr ''th'')]], [[Tag (ustr ''td'')]]]))
          @ ustr '' |'')
   \<and> (\<forall>cell. cell_markdown cell =
          (if trim (textContent cell) = [] then ustr '' ''
           else map (\<lambda>c. if c = 0xA then 0x20 else c) (trim (textContent cell))))
   \<and> table_lines (querySelectorAll demo_table (sel_tag ''tr''))
       = [ustr ''| A | B |'', ustr ''| --- | --- |'', ustr ''| 1 | 2 |'']
   \<and> tables_replacement content demo_table
       = [0xA, 0xA] @ ustr ''| A | B |'' @ [0xA] @ ustr ''| --- | --- |'' @ [0xA]
         @ ustr ''| 1 | 2 |'' @ [0xA, 0xA]"
proof -
  have empty: "querySelectorAll node (sel_tag ''tr'') = [] \<longrightarrow>
                 tables_replacement content node = content"
    by (simp add: tables_replacement_def)
  have rows: "\<forall>row0 rest. querySelectorAll node (sel_tag ''tr'') = row0 # rest \<longrightarrow>
         table_lines (row0 # rest) =
           row_markdown row0
           # separator_row (if querySelectorAll row0 (sel_tag ''th'') \<noteq> []
                            then length (querySelectorAll row0 (sel_tag ''th''))
                            else length (querySelectorAll row0 (sel_tag ''td'')))
           # map row_markdown rest
         \<and> length (table_lines (row0 # rest)) = length (row0 # rest) + 1
         \<and> tables_replacement content node =
             [0xA, 0xA] @ join [0xA] (table_lines (row0 # rest)) @ [0xA, 0xA]"
    by (simp add: table_lines_Cons tables_replacement_def)
  have sep: "\<forall>n. separator_row n
          = ustr ''| '' @ join (ustr '' | '') (replicate n (ustr ''---'')) @ ustr '' |''"
    by (simp add: separator_row_def)
  have row: "\<forall>row. row_markdown row =
          ustr ''| ''
          @ join (ustr '' | '')
              (map cell_markdown
                 (querySelectorAll row [[[Tag (ustr ''th'')]], [[Tag (ustr ''td'')]]]))
          @ ustr '' |''"
    by (simp add: row_markdown_def)
  have cell: "\<forall>cell. cell_markdown cell =
          (if trim (textContent cell) = [] then ustr '' ''
           else map (\<lambda>c. if c = 0xA then 0x20 else c) (trim (textContent cell)))"
    by (simp add: cell_markdown_def replace_newlines_def)
  have demo: "tables_replacement content demo_table
       = [0xA, 0xA] @ ustr ''| A | B |'' @ [0xA] @ ustr ''| --- | --- |'' @ [0xA]
         @ ustr ''| 1 | 2 |'' @ [0xA, 0xA]"
    using demo_table_lines
    by (simp add: tables_replacement_def demo_table_rows ustr_def)
  from empty rows sep row cell demo_table_lines demo show ?thesis
    by blast
qed

theorem tables_rule_witness:
  "querySelectorAll (el ''table'' []) (sel_tag ''tr'') = []
   \<and> tables_replacement (ustr ''kept'') (el ''table'' []) = ustr ''kept''
   \<and> tables_replacement [] demo_table_plain
       = [0xA, 0xA] @ ustr ''| x y |   |'' @ [0xA] @ ustr ''| --- | --- |'' @ [0xA, 0xA]
   \<and> length (table_lines (querySelectorAll demo_table (sel_tag ''tr''))) = 3"
proof -
  have none: "querySelectorAll (el ''table'' []) (sel_tag ''tr'') = []"
    by (simp add: dom_eval)
  have plain: "table_lines (querySelectorAll demo_table_plain (sel_tag ''tr''))
                 = [ustr ''| x y |   |'', ustr ''| --- | --- |'']"
    unfolding demo_table_plain_rows by (simp add: table_eval dom_eval)
  from tables_rule [of "el ''table'' []" "ustr ''kept''"] none
  have kept: "tables_replacement (ustr ''kept'') (el ''table'' []) = ustr ''kept''"
    by blast
  from tables_rule [of demo_table_plain "[]"] demo_table_plain_rows plain
  have two: "tables_replacement [] demo_table_plain
       = [0xA, 0xA] @ ustr ''| x y |   |'' @ [0xA] @ ustr ''| --- | --- |'' @ [0xA, 0xA]"
    by (simp add: ustr_def)
  from tables_rule [of demo_table "[]"] demo_table_rows
  have three: "length (table_lines (querySelectorAll demo_table (sel_tag ''tr''))) = 3"
    by simp
  from none kept two three show ?thesis by blast
qed

subsection \<open>Date normaliser\<close>

lemma pad_digits_numeral [simp]:
  "pad_digits (numeral k) n = pad_digits (pred_numeral k) (n div 10) @ [48 + n mod 10]"
  by (simp only: numeral_eq_Suc [of k] pad_digits.simps)

lemmas civil_eval = civil_from_days_def civil_of_era_def civil_of_def month_of_index_def
  month_index_def day_of_year_def year_of_era_def

lemmas date_eval = toISOString_def iso_date_of_def iso_time_of_def civil_eval msPerDay_def
  iso_year_def ustr_def iso_date_or_empty_def TimeClip_def

lemma toISOString_epoch: "toISOString 0 = ustr ''1970-01-01T00:00:00.000Z''"
  by (simp add: date_eval)

lemma toISOString_before_epoch: "toISOString (- 1) = ustr ''1969-12-31T23:59:59.999Z''"
  by (simp add: date_eval)

lemma toISOString_leap_day: "toISOString 951782400000 = ustr ''2000-02-29T00:00:00.000Z''"
  by (simp add: date_eval)

lemma toISOString_2020: "toISOString 1600000000000 = ustr ''2020-09-13T12:26:40.000Z''"
  by (simp add: date_eval)

lemma toISOString_year_10000:
  "toISOString 253402300800000 = ustr ''+010000-01-01T00:00:00.000Z''"
  by (simp add: date_eval)

lemma parseIsoDate_number:
  "parseIsoDate E (JNum n)
     = Inr (iso_date_or_empty (TimeClip (if n < 10 ^ 12 then n * 1000 else n)))"
  by (simp add: parseIsoDate_def)

lemma new_Date_not_object: "\<not> is_object v \<Longrightarrow> \<exists>t. new_Date E v = Inr t"
  by (cases v) simp_all

lemma parseIsoDate_not_object: "\<not> is_object v \<Longrightarrow> \<exists>d. parseIsoDate E v = Inr d"
  by (cases v) (simp_all add: parseIsoDate_def Let_def)

lemma parseIsoDate_own_toString:
  "ustr ''toString'' \<in> set (map fst kvs) \<Longrightarrow> parseIsoDate E (JObj kvs) = Inl TypeError"
  by (simp add: parseIsoDate_def)

text \<open>\<^verbatim>\<open>parseIsoDate\<close> returns exactly on the values that convert to a string.\<close>

lemma parseIsoDate_returns_iff:
  "(\<exists>d. parseIsoDate E v = Inr d) \<longleftrightarrow> (\<exists>s. js_toString E v = Inr s)"
  by (cases v) (auto simp: parseIsoDate_def Let_def split: sum.splits)

lemma trim_keeps_last:
  assumes "\<not> js_is_ws x"
  shows "\<exists>b. trim (a @ [x]) = b @ [x]"
proof -
  have "dropWhile js_is_ws (a @ [x]) = dropWhile js_is_ws a @ [x]"
    using assms by (simp add: dropWhile_append3)
  then show ?thesis using assms by (simp add: trim_def)
qed

lemma toISOString_not_numeric:
  "toISOString t \<noteq> [] \<and> \<not> all_digits (trim (toISOString t))"
proof -
  have z: "toISOString t = (iso_date_of (civil_from_days (t div msPerDay)) @ ustr ''T''
             @ iso_time_of (nat (t mod msPerDay))) @ [90]"
    by (simp add: toISOString_def ustr_def)
  have "\<not> js_is_ws 90" by (simp add: js_is_ws_def)
  with z obtain b where "trim (toISOString t) = b @ [90]"
    using trim_keeps_last by metis
  then have "\<not> all_digits (trim (toISOString t))"
    by (simp add: all_digits_def is_digit_def)
  with z show ?thesis by simp
qed

lemma parseIsoDate_string:
  assumes "s \<noteq> []" "\<not> all_digits (trim s)"
  shows "parseIsoDate E (JStr s)
           = Inr (iso_date_or_empty (Option.bind (Date_parse E s) TimeClip))"
  using assms by (simp add: parseIsoDate_def)

text \<open>
  C4, as the code has it. Below 1e12 a number is taken for seconds and multiplied by
  1000, so seconds and milliseconds normalise identically exactly for the timestamps
  whose millisecond value has reached 1e12: for every unix-second timestamp \<open>t\<close> with
  1e9 \<le> t < 1e12, \<^verbatim>\<open>parseIsoDate(t)\<close> equals \<^verbatim>\<open>parseIsoDate(t * 1000)\<close>, and both
  equal \<^verbatim>\<open>parseIsoDate\<close> of the ISO string of \<open>t\<close>, which is the date portion of that
  string; the engine's \<^verbatim>\<open>Date\<close> is taken to parse that ISO string back to its time
  value, as ECMAScript requires.
\<close>

theorem parseIsoDate_seconds_millis:
  assumes "10 ^ 9 \<le> t" and "t < 10 ^ 12"
    and "Date_parse E (toISOString (t * 1000)) = Some (t * 1000)"
  shows "parseIsoDate E (JNum t) = parseIsoDate E (JNum (t * 1000))
         \<and> parseIsoDate E (JStr (toISOString (t * 1000))) = parseIsoDate E (JNum t)
         \<and> parseIsoDate E (JNum t)
             = Inr (takeWhile (\<lambda>c. c \<noteq> of_char CHR ''T'') (toISOString (t * 1000)))"
proof -
  from assms(1) have big: "\<not> t * 1000 < 10 ^ 12" by simp
  from assms(2) have clip: "TimeClip (t * 1000) = Some (t * 1000)"
    using assms(1) by (simp add: TimeClip_def)
  have secs: "parseIsoDate E (JNum t) = Inr (iso_date_or_empty (TimeClip (t * 1000)))"
    using assms(2) by (simp add: parseIsoDate_number)
  have millis: "parseIsoDate E (JNum (t * 1000)) = Inr (iso_date_or_empty (TimeClip (t * 1000)))"
    using big by (simp only: parseIsoDate_number if_False)
  have iso: "parseIsoDate E (JStr (toISOString (t * 1000)))
               = Inr (iso_date_or_empty (TimeClip (t * 1000)))"
    using toISOString_not_numeric [of "t * 1000"] assms(3)
    by (simp add: parseIsoDate_string)
  from secs millis iso clip show ?thesis
    by (simp add: iso_date_or_empty_def)
qed

theorem parseIsoDate_seconds_millis_witness:
  "parseIsoDate demo_env (JNum 1600000000) = Inr (ustr ''2020-09-13'')
   \<and> parseIsoDate demo_env (JNum (1600000000 * 1000)) = Inr (ustr ''2020-09-13'')
   \<and> parseIsoDate demo_env (JStr (ustr ''2020-09-13T12:26:40.000Z'')) = Inr (ustr ''2020-09-13'')"
proof -
  have iso: "toISOString (1600000000 * 1000) = ustr ''2020-09-13T12:26:40.000Z''"
    using toISOString_2020 by simp
  have parse: "Date_parse demo_env (toISOString (1600000000 * 1000)) = Some (1600000000 * 1000)"
    unfolding iso by (simp add: demo_env_def demo_Date_parse_def)
  have day: "takeWhile (\<lambda>c. c \<noteq> of_char CHR ''T'') (ustr ''2020-09-13T12:26:40.000Z'')
               = ustr ''2020-09-13''"
    by (simp add: ustr_def)
  have "parseIsoDate demo_env (JNum 1600000000) = parseIsoDate demo_env (JNum (1600000000 * 1000))
        \<and> parseIsoDate demo_env (JStr (ustr ''2020-09-13T12:26:40.000Z''))
            = parseIsoDate demo_env (JNum 1600000000)
        \<and> parseIsoDate demo_env (JNum 1600000000) = Inr (ustr ''2020-09-13'')"
    by (rule parseIsoDate_seconds_millis [of 1600000000 demo_env, OF _ _ parse, unfolded iso day])
      simp_all
  then show ?thesis by metis
qed

text \<open>
  C4 as stated fails: one day after the epoch, \<open>t = 86400\<close>, the seconds value gives
  1970-01-02, while \<open>t * 1000 = 86400000\<close> is still below 1e12, is multiplied by 1000
  again and gives 1972-09-27.
\<close>

theorem parseIsoDate_seconds_millis_counterexample:
  "parseIsoDate demo_env (JNum 86400) = Inr (ustr ''1970-01-02'')
   \<and> parseIsoDate demo_env (JNum (86400 * 1000)) = Inr (ustr ''1972-09-27'')
   \<and> parseIsoDate demo_env (JNum 86400) \<noteq> parseIsoDate demo_env (JNum (86400 * 1000))"
proof -
  have a: "parseIsoDate demo_env (JNum 86400) = Inr (ustr ''1970-01-02'')"
    by (simp add: parseIsoDate_number date_eval)
  have b: "parseIsoDate demo_env (JNum (86400 * 1000)) = Inr (ustr ''1972-09-27'')"
    by (simp add: parseIsoDate_number date_eval)
  from a b show ?thesis by (simp add: ustr_def)
qed

subsection \<open>Embedded-state extractor\<close>

lemma first_bucket_find:
  "first_bucket entities keys =
     (case find (\<lambda>k. tryBuckets entities k \<noteq> None) keys of
        None \<Rightarrow> None
      | Some k \<Rightarrow> tryBuckets entities k)"
  by (induction keys) (auto split: option.splits)

lemma find_append:
  "find P (xs @ ys) = (case find P xs of Some x \<Rightarrow> Some x | None \<Rightarrow> find P ys)"
  by (induction xs) auto

lemma find_SomeD: "find P xs = Some x \<Longrightarrow> P x \<and> x \<in> set xs"
  by (induction xs) (auto split: if_splits)

lemma is_object_truthy: "is_object v \<Longrightarrow> truthy v"
  by (cases v) auto

lemma findEntityWithContent_find:
  assumes "is_object entities"
  shows "findEntityWithContent entities pk =
     (case find (\<lambda>k. tryBuckets entities k \<noteq> None)
             (pk @ filter (\<lambda>k. k \<notin> set pk) (map fst (own_entries entities))) of
        None \<Rightarrow> None
      | Some k \<Rightarrow> tryBuckets entities k)"
  using assms is_object_truthy [OF assms]
  by (auto simp: findEntityWithContent_def first_bucket_find find_append split: option.splits
      dest: find_Some_iff [THEN iffD1])

lemma findEntityWithContent_None:
  "findEntityWithContent entities pk = None \<longleftrightarrow>
     \<not> is_object entities
     \<or> (\<forall>k \<in> set pk \<union> fst ` set (own_entries entities). tryBuckets entities k = None)"
proof (cases "is_object entities")
  case False
  then show ?thesis by (simp add: findEntityWithContent_def)
next
  case True
  let ?ks = "pk @ filter (\<lambda>k. k \<notin> set pk) (map fst (own_entries entities))"
  let ?Q = "\<lambda>k. tryBuckets entities k \<noteq> None"
  have keys: "set ?ks = set pk \<union> fst ` set (own_entries entities)"
    by auto
  show ?thesis
  proof (cases "find ?Q ?ks")
    case None
    then have "\<forall>k \<in> set ?ks. tryBuckets entities k = None"
      by (simp only: find_None_iff) blast
    with None True show ?thesis
      by (simp only: findEntityWithContent_find [OF True] keys) simp
  next
    case (Some k)
    then have "?Q k" and "k \<in> set ?ks"
      using find_SomeD [of ?Q ?ks k] by blast+
    with Some True show ?thesis
      by (simp only: findEntityWithContent_find [OF True] keys) auto
  qed
qed

lemma tryBuckets_eq:
  "tryBuckets entities key =
     (if is_object (get_prop entities key) then
        (case find has_content (map snd (own_entries (get_prop entities key))) of
           None \<Rightarrow> None
         | Some e \<Rightarrow> Some (key, e))
      else None)"
  using is_object_truthy [of "get_prop entities key"]
  by (auto simp: tryBuckets_def Let_def split: option.splits)

lemma has_content_iff:
  "has_content item \<longleftrightarrow>
     truthy item \<and> (\<exists>c. get_prop item (ustr ''content'') = JStr c \<and> trim c \<noteq> [])"
  by (auto simp: has_content_def split: jsv.splits)

lemma extractFromInitialData_no_entity:
  assumes "findEntityWithContent
             (opt_prop (js_or_list [get_prop (safeParseJSON E (trim (textContent script)))
                                      (ustr ''initialState''),
                                    get_prop (safeParseJSON E (trim (textContent script)))
                                      (ustr ''data''),
                                    safeParseJSON E (trim (textContent script))])
                (ustr ''entities''))
             preferredKeys = None"
    and "querySelector d [[[Id (ustr ''js-initialData'')]]] = Some script"
  shows "extractFromInitialData E (Some d) fallbackUrl = Inr None"
  using assms by (simp add: extractFromInitialData_def Let_def)

lemmas json_eval = findEntityWithContent_def tryBuckets_def has_content_def get_prop_def
  preferredKeys_def trim_def js_is_ws_def ustr_def

lemma demo_entities_found:
  "findEntityWithContent demo_entities preferredKeys = Some (ustr ''answers'', demo_answer)"
  by (simp add: demo_entities_def demo_answer_def demo_blank_article_def json_eval)

lemma demo_entities_other_found:
  "findEntityWithContent demo_entities_other preferredKeys = Some (ustr ''pins'', demo_answer)"
  by (simp add: demo_entities_other_def demo_answer_def demo_blank_article_def json_eval)

lemma demo_entities_none_found:
  "findEntityWithContent demo_entities_none preferredKeys = None"
  by (simp add: demo_entities_none_def demo_answer_def demo_blank_article_def json_eval)

text \<open>
  C8, as the code has it. An entity is content-bearing when its \<^verbatim>\<open>content\<close> field is a
  string that is non-empty after trimming white space. For every entities object the
  search returns the first content-bearing entity of the first bucket that has one,
  the buckets taken in the order articles, answers, posts, zvideos and then the
  remaining keys in their stored order; it returns null when the entities are no object
  or no bucket has a content-bearing entity, and then the extractor returns null.
\<close>

theorem findEntityWithContent_search:
  "(is_object entities \<longrightarrow>
      findEntityWithContent entities preferredKeys =
        (case find (\<lambda>k. tryBuckets entities k \<noteq> None)
                (preferredKeys
                 @ filter (\<lambda>k. k \<notin> set preferredKeys) (map fst (own_entries entities))) of
           None \<Rightarrow> None
         | Some k \<Rightarrow> tryBuckets entities k))
   \<and> preferredKeys = [ustr ''articles'', ustr ''answers'', ustr ''posts'', ustr ''zvideos'']
   \<and> (\<forall>key. tryBuckets entities key =
          (if is_object (get_prop entities key) then
             (case find has_content (map snd (own_entries (get_prop entities key))) of
                None \<Rightarrow> None
              | Some e \<Rightarrow> Some (key, e))
           else None))
   \<and> (\<forall>item. has_content item \<longleftrightarrow>
          truthy item \<and> (\<exists>c. get_prop item (ustr ''content'') = JStr c \<and> trim c \<noteq> []))
   \<and> (findEntityWithContent entities preferredKeys = None \<longleftrightarrow>
        \<not> is_object entities
        \<or> (\<forall>k \<in> set preferredKeys \<union> fst ` set (own_entries entities).
              tryBuckets entities k = None))
   \<and> (\<forall>E d script fallbackUrl.
         querySelector d [[[Id (ustr ''js-initialData'')]]] = Some script
         \<and> entities =
             opt_prop (js_or_list [get_prop (safeParseJSON E (trim (textContent script)))
                                     (ustr ''initialState''),
                                   get_prop (safeParseJSON E (trim (textContent script)))
                                     (ustr ''data''),
                                   safeParseJSON E (trim (textContent script))])
               (ustr ''entities'')
         \<and> findEntityWithContent entities preferredKeys = None
         \<longrightarrow> extractFromInitialData E (Some d) fallbackUrl = Inr None)"
proof -
  have search: "is_object entities \<longrightarrow>
      findEntityWithContent entities preferredKeys =
        (case find (\<lambda>k. tryBuckets entities k \<noteq> None)
                (preferredKeys
                 @ filter (\<lambda>k. k \<notin> set preferredKeys) (map fst (own_entries entities))) of
           None \<Rightarrow> None
         | Some k \<Rightarrow> tryBuckets entities k)"
    using findEntityWithContent_find [of entities preferredKeys] by blast
  have order: "preferredKeys = [ustr ''articles'', ustr ''answers'', ustr ''posts'', ustr ''zvideos'']"
    by (simp add: preferredKeys_def)
  have bucket: "\<forall>key. tryBuckets entities key =
          (if is_object (get_prop entities key) then
             (case find has_content (map snd (own_entries (get_prop entities key))) of
                None \<Rightarrow> None
              | Some e \<Rightarrow> Some (key, e))
           else None)"
    using tryBuckets_eq [of entities] by blast
  have bearing: "\<forall>item. has_content item \<longleftrightarrow>
          truthy item \<and> (\<exists>c. get_prop item (ustr ''content'') = JStr c \<and> trim c \<noteq> [])"
    using has_content_iff by blast
  have none: "findEntityWithContent entities preferredKeys = None \<longleftrightarrow>
        \<not> is_object entities
        \<or> (\<forall>k \<in> set preferredKeys \<union> fst ` set (own_entries entities).
              tryBuckets entities k = None)"
    by (rule findEntityWithContent_None)
  have extractor: "\<forall>E d script fallbackUrl.
         querySelector d [[[Id (ustr ''js-initialData'')]]] = Some script
         \<and> entities =
             opt_prop (js_or_list [get_prop (safeParseJSON E (trim (textContent script)))
                                     (ustr ''initialState''),
                                   get_prop (safeParseJSON E (trim (textContent script)))
                                     (ustr ''data''),
                                   safeParseJSON E (trim (textContent script))])
               (ustr ''entities'')
         \<and> findEntityWithContent entities preferredKeys = None
         \<longrightarrow> extractFromInitialData E (Some d) fallbackUrl = Inr None"
    using extractFromInitialData_no_entity by metis
  show ?thesis
    by (intro conjI) (rule search order bucket bearing none extractor)+
qed

lemma demo_none_script:
  "querySelector (demo_script_doc demo_state_none_text) [[[Id (ustr ''js-initialData'')]]]
     = Some (Element (ustr ''script'') [(ustr ''id'', ustr ''js-initialData'')]
               [TextNode demo_state_none_text])"
  by (simp add: demo_script_doc_def dom_eval)

lemma demo_none_parsed:
  "safeParseJSON demo_env (trim demo_state_none_text) = demo_state demo_entities_none"
proof -
  have "trim demo_state_none_text = demo_state_none_text"
    by (simp add: demo_state_none_text_def trim_def js_is_ws_def ustr_def)
  moreover have "demo_JSON_parse demo_state_none_text = Some (demo_state demo_entities_none)"
    by (simp add: demo_JSON_parse_def demo_state_none_text_def demo_state_text_def
        demo_api_text_def demo_blank_text_def demo_numeric_url_text_def
        demo_object_date_text_def ustr_def)
  moreover have "demo_state_none_text \<noteq> []"
    by (simp add: demo_state_none_text_def ustr_def)
  ultimately show ?thesis
    by (simp add: safeParseJSON_def demo_env_def)
qed

lemma demo_none_entities:
  "opt_prop (js_or_list [get_prop (demo_state demo_entities_none) (ustr ''initialState''),
                         get_prop (demo_state demo_entities_none) (ustr ''data''),
                         demo_state demo_entities_none])
     (ustr ''entities'') = demo_entities_none"
  by (simp add: demo_state_def opt_prop_def get_prop_def ustr_def)

theorem findEntityWithContent_search_witness:
  "is_object demo_entities_other
   \<and> findEntityWithContent demo_entities_other preferredKeys = Some (ustr ''pins'', demo_answer)
   \<and> is_object demo_entities_none
   \<and> findEntityWithContent demo_entities_none preferredKeys = None
   \<and> extractFromInitialData demo_env (Some (demo_script_doc demo_state_none_text)) (JStr [])
       = Inr None"
proof -
  have obj: "is_object demo_entities_other" "is_object demo_entities_none"
    by (simp_all add: demo_entities_other_def demo_entities_none_def)
  have pins: "(case find (\<lambda>k. tryBuckets demo_entities_other k \<noteq> None)
                (preferredKeys
                 @ filter (\<lambda>k. k \<notin> set preferredKeys)
                     (map fst (own_entries demo_entities_other))) of
                 None \<Rightarrow> None
               | Some k \<Rightarrow> tryBuckets demo_entities_other k) = Some (ustr ''pins'', demo_answer)"
    by (simp add: demo_entities_other_def demo_answer_def json_eval)
  have found: "findEntityWithContent demo_entities_other preferredKeys
                 = Some (ustr ''pins'', demo_answer)"
    using findEntityWithContent_search [of demo_entities_other, THEN conjunct1, rule_format,
        OF obj(1)]
    by (simp only: pins)
  have buckets: "\<forall>k \<in> set preferredKeys \<union> fst ` set (own_entries demo_entities_none).
                   tryBuckets demo_entities_none k = None"
    by (simp add: demo_entities_none_def demo_blank_article_def json_eval)
  from findEntityWithContent_search [of demo_entities_none] buckets
  have none: "findEntityWithContent demo_entities_none preferredKeys = None"
    by blast
  have tc: "textContent (Element (ustr ''script'') [(ustr ''id'', ustr ''js-initialData'')]
                             [TextNode demo_state_none_text]) = demo_state_none_text"
    by simp
  have ent: "demo_entities_none =
             opt_prop (js_or_list
               [get_prop (safeParseJSON demo_env (trim (textContent
                    (Element (ustr ''script'') [(ustr ''id'', ustr ''js-initialData'')]
                       [TextNode demo_state_none_text])))) (ustr ''initialState''),
                get_prop (safeParseJSON demo_env (trim (textContent
                    (Element (ustr ''script'') [(ustr ''id'', ustr ''js-initialData'')]
                       [TextNode demo_state_none_text])))) (ustr ''data''),
                safeParseJSON demo_env (trim (textContent
                    (Element (ustr ''script'') [(ustr ''id'', ustr ''js-initialData'')]
                       [TextNode demo_state_none_text])))])
               (ustr ''entities'')"
    unfolding tc demo_none_parsed by (simp only: demo_none_entities)
  from findEntityWithContent_search [of demo_entities_none] demo_none_script ent none
  have extractor: "extractFromInitialData demo_env (Some (demo_script_doc demo_state_none_text))
                     (JStr []) = Inr None"
    by blast
  from obj found none extractor show ?thesis by blast
qed

text \<open>
  C8 as stated fails: in the example state the \<^verbatim>\<open>articles\<close> bucket, first in the
  preferred order, holds an entity whose \<^verbatim>\<open>content\<close> is the non-empty string of one
  space, yet the search passes it over and returns the entity of the \<^verbatim>\<open>answers\<close>
  bucket.
\<close>

theorem findEntityWithContent_search_counterexample:
  "get_prop demo_entities (ustr ''articles'') = JObj [(ustr ''1'', demo_blank_article)]
   \<and> get_prop demo_blank_article (ustr ''content'') = JStr (ustr '' '')
   \<and> ustr '' '' \<noteq> []
   \<and> hd preferredKeys = ustr ''articles''
   \<and> findEntityWithContent demo_entities preferredKeys = Some (ustr ''answers'', demo_answer)
   \<and> demo_answer \<noteq> demo_blank_article"
  using demo_entities_found
  by (simp add: demo_entities_def demo_blank_article_def demo_answer_def get_prop_def
      preferredKeys_def ustr_def)

subsection \<open>API fallback client\<close>

lemma extractZhihuArticleId_value:
  "extractZhihuArticleId E url =
     Inr (if url = [] then []
          else case normalizeUrl E (JStr url) None of
                 Inr normalized \<Rightarrow>
                   (case match_article_id normalized of Some a \<Rightarrow> a | None \<Rightarrow> [])
               | Inl e \<Rightarrow> [])"
  by (simp add: extractZhihuArticleId_def normalizeUrl_string split: option.splits)

lemma normalizeUrl_api_url: "normalizeUrl E (JStr (api_url a)) None = Inr (api_url a)"
  by (simp add: normalizeUrl_string api_url_def ustr_def)

lemma fetchJson_api_url:
  "fetchJson E st (api_url a) =
     (case GM_xmlhttpRequest E (json_request E (api_url a)) of
        OnLoad r \<Rightarrow>
          if 200 \<le> status r \<and> status r < 400 then
            if \<not> truthy (safeParseJSON E (responseText r)) then
              (Inl (Error (ustr ''Failed to parse JSON from '' @ api_url a)),
               st\<lparr>requests := requests st @ [json_request E (api_url a)]\<rparr>)
            else (Inr (safeParseJSON E (responseText r)),
                  st\<lparr>requests := requests st @ [json_request E (api_url a)]\<rparr>)
          else
            (Inl (Error (ustr ''Failed to fetch JSON '' @ api_url a @ ustr '': ''
                         @ number_toString E (status r))),
             st\<lparr>requests := requests st @ [json_request E (api_url a)]\<rparr>)
      | OnError err \<Rightarrow>
          (Inl (Error (ustr ''JSON request error for '' @ api_url a @ ustr '': ''
                       @ error_text err)),
           st\<lparr>requests := requests st @ [json_request E (api_url a)]\<rparr>))"
proof -
  have "api_url a \<noteq> []" by (simp add: api_url_def ustr_def)
  then show ?thesis
    by (simp add: fetchJson_def normalizeUrl_api_url send_def Let_def split: xhr_result.splits)
qed

lemma api_record_None:
  assumes "\<forall>c. get_prop data (ustr ''content'') = JStr c \<longrightarrow> trim c = []"
  shows "api_record E a data = Inr None"
  using assms by (simp add: api_record_def split: jsv.splits)

lemma trim_Nil: "trim [] = []"
  by (simp add: trim_def)

lemma api_record_Some:
  assumes "api_record E a data = Inr (Some rec)"
  shows "\<exists>c. get_prop data (ustr ''content'') = JStr c \<and> c \<noteq> [] \<and> trim c \<noteq> []
             \<and> cr_content rec = Element (ustr ''div'') [] (innerHTML E c)"
proof (cases "get_prop data (ustr ''content'')")
  case (JStr c)
  with assms have t: "trim c \<noteq> []"
    by (auto simp: api_record_def split: if_splits)
  then have c: "c \<noteq> []" using trim_Nil by auto
  from assms JStr t c have "cr_content rec = Element (ustr ''div'') [] (innerHTML E c)"
    by (auto simp: api_record_def buildContentElementFromHtml_def split: if_splits sum.splits)
  with JStr t c show ?thesis by simp
qed (use assms in \<open>auto simp: api_record_def split: if_splits\<close>)

lemma safeParseJSON_Some:
  assumes "truthy (safeParseJSON E t)"
  shows "t \<noteq> [] \<and> JSON_parse E t = Some (safeParseJSON E t)"
  using assms by (auto simp: safeParseJSON_def split: if_splits option.splits)

lemma fetchZhihuArticleDetailsByApi_eq:
  assumes "extractZhihuArticleId E url = Inr a"
  shows "fetchZhihuArticleDetailsByApi E st url =
     (if a = [] then (Inr None, st)
      else
        (case api_record E a (safeParseJSON E
                (case GM_xmlhttpRequest E (json_request E (api_url a)) of
                   OnLoad r \<Rightarrow> if 200 \<le> status r \<and> status r < 400 then responseText r else []
                 | OnError err \<Rightarrow> [])) of
           Inr result \<Rightarrow> Inr result
         | Inl e \<Rightarrow> Inr None,
         st\<lparr>requests := requests st @ [json_request E (api_url a)]\<rparr>))"
proof -
  have null: "api_record E a JNull = Inr None"
    by (simp add: api_record_def)
  have empty: "safeParseJSON E [] = JNull"
    by (simp add: safeParseJSON_def)
  have falsy: "\<not> truthy v \<Longrightarrow> api_record E a v = Inr None" for v
    by (simp add: api_record_def)
  show ?thesis
    using assms null empty falsy
    by (auto simp: fetchZhihuArticleDetailsByApi_def fetchJson_api_url
        split: xhr_result.splits sum.splits)
qed

text \<open>
  C7. \<^verbatim>\<open>fetchZhihuArticleDetailsByApi\<close> never rejects: for every URL string the
  identifier extraction returns a value and the call resolves. It resolves to null
  without a request when no numeric identifier is found, and to null when the request
  fails in transport, when the status is outside 200..399, when the body is empty or
  no JSON, and when the \<^verbatim>\<open>content\<close> field of the response is missing, no string or
  empty after trimming. A record is returned only when the request loaded with a good
  status and the parsed response carries a \<^verbatim>\<open>content\<close> string that is non-empty (also
  after trimming); the record's content is built from that string.
\<close>

theorem fetchZhihuArticleDetailsByApi_never_raises:
  "\<exists>articleId result st'.
     extractZhihuArticleId E url = Inr articleId
     \<and> fetchZhihuArticleDetailsByApi E st url = (Inr result, st')
     \<and> (articleId = [] \<longrightarrow> result = None \<and> st' = st)
     \<and> (\<forall>err. GM_xmlhttpRequest E (json_request E (api_url articleId)) = OnError err
            \<longrightarrow> result = None)
     \<and> (\<forall>r. GM_xmlhttpRequest E (json_request E (api_url articleId)) = OnLoad r
              \<and> \<not> (200 \<le> status r \<and> status r < 400)
            \<longrightarrow> result = None)
     \<and> (\<forall>r. GM_xmlhttpRequest E (json_request E (api_url articleId)) = OnLoad r
              \<and> (responseText r = [] \<or> JSON_parse E (responseText r) = None)
            \<longrightarrow> result = None)
     \<and> (\<forall>r data. GM_xmlhttpRequest E (json_request E (api_url articleId)) = OnLoad r
              \<and> JSON_parse E (responseText r) = Some data
              \<and> (\<forall>c. get_prop data (ustr ''content'') = JStr c \<longrightarrow> trim c = [])
            \<longrightarrow> result = None)
     \<and> (\<forall>rec. result = Some rec \<longrightarrow>
            articleId \<noteq> []
            \<and> (\<exists>r data c.
                  GM_xmlhttpRequest E (json_request E (api_url articleId)) = OnLoad r
                  \<and> 200 \<le> status r \<and> status r < 400
                  \<and> JSON_parse E (responseText r) = Some data
                  \<and> get_prop data (ustr ''content'') = JStr c \<and> c \<noteq> [] \<and> trim c \<noteq> []
                  \<and> cr_content rec = Element (ustr ''div'') [] (innerHTML E c)))"
proof -
  obtain a where a: "extractZhihuArticleId E url = Inr a"
    using extractZhihuArticleId_value by blast
  let ?req = "json_request E (api_url a)"
  let ?text = "case GM_xmlhttpRequest E ?req of
                 OnLoad r \<Rightarrow> if 200 \<le> status r \<and> status r < 400 then responseText r else []
               | OnError err \<Rightarrow> []"
  let ?data = "safeParseJSON E ?text"
  let ?result = "if a = [] then None
                 else case api_record E a ?data of Inr result \<Rightarrow> result | Inl e \<Rightarrow> None"
  let ?st = "if a = [] then st else st\<lparr>requests := requests st @ [?req]\<rparr>"
  have call: "fetchZhihuArticleDetailsByApi E st url = (Inr ?result, ?st)"
    by (simp add: fetchZhihuArticleDetailsByApi_eq [OF a] split: sum.splits)
  have null: "api_record E a JNull = Inr None"
    by (simp add: api_record_def)
  have no_id: "a = [] \<longrightarrow> ?result = None \<and> ?st = st"
    by simp
  have transport: "\<forall>err. GM_xmlhttpRequest E ?req = OnError err \<longrightarrow> ?result = None"
    by (auto simp: safeParseJSON_def null)
  have bad_status: "\<forall>r. GM_xmlhttpRequest E ?req = OnLoad r
                        \<and> \<not> (200 \<le> status r \<and> status r < 400) \<longrightarrow> ?result = None"
    by (auto simp: safeParseJSON_def null)
  have no_json: "\<forall>r. GM_xmlhttpRequest E ?req = OnLoad r
                     \<and> (responseText r = [] \<or> JSON_parse E (responseText r) = None)
                   \<longrightarrow> ?result = None"
    by (auto simp: safeParseJSON_def null)
  have no_content: "\<forall>r data. GM_xmlhttpRequest E ?req = OnLoad r
              \<and> JSON_parse E (responseText r) = Some data
              \<and> (\<forall>c. get_prop data (ustr ''content'') = JStr c \<longrightarrow> trim c = [])
            \<longrightarrow> ?result = None"
  proof (intro allI impI, elim conjE)
    fix r data
    assume load: "GM_xmlhttpRequest E ?req = OnLoad r"
      and parsed: "JSON_parse E (responseText r) = Some data"
      and blank: "\<forall>c. get_prop data (ustr ''content'') = JStr c \<longrightarrow> trim c = []"
    have "?data = JNull \<or> ?data = data"
      using load parsed by (simp add: safeParseJSON_def)
    with null api_record_None [OF blank, of E a] show "?result = None"
      by auto
  qed
  have only: "\<forall>rec. ?result = Some rec \<longrightarrow>
            a \<noteq> []
            \<and> (\<exists>r data c.
                  GM_xmlhttpRequest E ?req = OnLoad r
                  \<and> 200 \<le> status r \<and> status r < 400
                  \<and> JSON_parse E (responseText r) = Some data
                  \<and> get_prop data (ustr ''content'') = JStr c \<and> c \<noteq> [] \<and> trim c \<noteq> []
                  \<and> cr_content rec = Element (ustr ''div'') [] (innerHTML E c))"
  proof (intro allI impI)
    fix rec
    assume some: "?result = Some rec"
    then have id: "a \<noteq> []" and rec: "api_record E a ?data = Inr (Some rec)"
      by (auto split: if_splits sum.splits)
    from rec have t: "truthy ?data"
      by (auto simp: api_record_def split: if_splits)
    then have body: "?text \<noteq> []"
      using safeParseJSON_Some by blast
    then obtain r where load: "GM_xmlhttpRequest E ?req = OnLoad r"
      and ok1: "200 \<le> status r" and ok2: "status r < 400"
      by (cases "GM_xmlhttpRequest E ?req") (auto split: if_splits)
    let ?d = "safeParseJSON E (responseText r)"
    from load ok1 ok2 have data: "?data = ?d" by simp
    from rec have rec': "api_record E a ?d = Inr (Some rec)"
      by (simp only: data)
    from t have "truthy ?d" by (simp only: data)
    then have json: "JSON_parse E (responseText r) = Some ?d"
      using safeParseJSON_Some by blast
    from api_record_Some [OF rec'] obtain c where
      c1: "get_prop ?d (ustr ''content'') = JStr c" and c2: "c \<noteq> []" and c3: "trim c \<noteq> []"
      and c4: "cr_content rec = Element (ustr ''div'') [] (innerHTML E c)"
      by blast
    show "a \<noteq> []
            \<and> (\<exists>r data c.
                  GM_xmlhttpRequest E ?req = OnLoad r
                  \<and> 200 \<le> status r \<and> status r < 400
                  \<and> JSON_parse E (responseText r) = Some data
                  \<and> get_prop data (ustr ''content'') = JStr c \<and> c \<noteq> [] \<and> trim c \<noteq> []
                  \<and> cr_content rec = Element (ustr ''div'') [] (innerHTML E c))"
      by (intro conjI exI [of _ r] exI [of _ ?d] exI [of _ c])
        (rule id load ok1 ok2 json c1 c2 c3 c4)+
  qed
  show ?thesis
    by (intro exI [of _ a] exI [of _ ?result] exI [of _ ?st] conjI)
      (rule a call no_id transport bad_status no_json no_content only)+
qed

lemmas url_eval = extractZhihuArticleId_def normalizeUrl_string is_digit_def api_url_def
  json_request_def demo_env_def demo_GM_xmlhttpRequest_def demo_response_def ustr_def

lemma demo_id_123:
  "extractZhihuArticleId demo_env (ustr ''https://zhuanlan.zhihu.com/p/123'') = Inr (ustr ''123'')"
  by (simp add: url_eval)

lemma demo_id_456:
  "extractZhihuArticleId demo_env (ustr ''https://zhuanlan.zhihu.com/p/456'') = Inr (ustr ''456'')"
  by (simp add: url_eval)

lemma demo_id_789:
  "extractZhihuArticleId demo_env (ustr ''https://zhuanlan.zhihu.com/p/789'') = Inr (ustr ''789'')"
  by (simp add: url_eval)

lemma demo_id_999:
  "extractZhihuArticleId demo_env (ustr ''https://zhuanlan.zhihu.com/p/999'') = Inr (ustr ''999'')"
  by (simp add: url_eval)

lemma demo_id_none:
  "extractZhihuArticleId demo_env (ustr ''https://www.zhihu.com/question/1'') = Inr []"
  by (simp add: url_eval)

lemma demo_api_123:
  "GM_xmlhttpRequest demo_env (json_request demo_env (api_url (ustr ''123'')))
     = OnLoad (demo_response demo_api_text)"
  by (simp add: url_eval)

lemma demo_api_456:
  "GM_xmlhttpRequest demo_env (json_request demo_env (api_url (ustr ''456'')))
     = OnLoad (demo_response demo_blank_text)"
  by (simp add: url_eval)

lemma demo_api_789:
  "GM_xmlhttpRequest demo_env (json_request demo_env (api_url (ustr ''789'')))
     = OnLoad (demo_response demo_numeric_url_text)"
  by (simp add: url_eval)

lemma demo_id_321:
  "extractZhihuArticleId demo_env (ustr ''https://zhuanlan.zhihu.com/p/321'') = Inr (ustr ''321'')"
  by (simp add: url_eval)

lemma demo_api_321:
  "GM_xmlhttpRequest demo_env (json_request demo_env (api_url (ustr ''321'')))
     = OnLoad (demo_response demo_object_date_text)"
  by (simp add: url_eval)

lemma demo_api_999:
  "GM_xmlhttpRequest demo_env (json_request demo_env (api_url (ustr ''999''))) = OnError None"
  by (simp add: url_eval)

lemmas demo_texts = demo_api_text_def demo_blank_text_def demo_numeric_url_text_def
  demo_state_text_def demo_state_none_text_def demo_object_date_text_def

lemma demo_parse_api: "JSON_parse demo_env demo_api_text = Some demo_api_data"
  by (simp add: demo_env_def demo_JSON_parse_def)

lemma demo_parse_blank: "JSON_parse demo_env demo_blank_text = Some demo_blank_data"
  by (simp add: demo_env_def demo_JSON_parse_def demo_texts ustr_def)

lemma demo_parse_numeric_url:
  "JSON_parse demo_env demo_numeric_url_text = Some demo_numeric_url_data"
  by (simp add: demo_env_def demo_JSON_parse_def demo_texts ustr_def)

lemma demo_parse_object_date:
  "JSON_parse demo_env demo_object_date_text = Some demo_object_date_data"
  by (simp add: demo_env_def demo_JSON_parse_def demo_texts ustr_def)

lemma demo_api_record_123:
  "\<exists>rec. api_record demo_env (ustr ''123'') demo_api_data = Inr (Some rec)"
  by (simp add: api_record_def demo_api_data_def get_prop_def buildContentElementFromHtml_def
      normalizeUrl_string parseIsoDate_number js_or_def trim_def js_is_ws_def ustr_def)

theorem fetchZhihuArticleDetailsByApi_never_raises_witness:
  "fetchZhihuArticleDetailsByApi demo_env empty_state (ustr ''https://www.zhihu.com/question/1'')
     = (Inr None, empty_state)
   \<and> fst (fetchZhihuArticleDetailsByApi demo_env empty_state
            (ustr ''https://zhuanlan.zhihu.com/p/999'')) = Inr None
   \<and> fst (fetchZhihuArticleDetailsByApi demo_env empty_state
            (ustr ''https://zhuanlan.zhihu.com/p/456'')) = Inr None
   \<and> (\<exists>rec. fst (fetchZhihuArticleDetailsByApi demo_env empty_state
                   (ustr ''https://zhuanlan.zhihu.com/p/123'')) = Inr (Some rec)
          \<and> cr_content rec = Element (ustr ''div'') [] [TextNode (ustr ''<p>Hi</p>'')])"
proof -
  have none: "fetchZhihuArticleDetailsByApi demo_env empty_state
                (ustr ''https://www.zhihu.com/question/1'') = (Inr None, empty_state)"
    using fetchZhihuArticleDetailsByApi_never_raises
      [of demo_env "ustr ''https://www.zhihu.com/question/1''" empty_state]
    by (auto simp: demo_id_none)
  have transport: "fst (fetchZhihuArticleDetailsByApi demo_env empty_state
                     (ustr ''https://zhuanlan.zhihu.com/p/999'')) = Inr None"
    using fetchZhihuArticleDetailsByApi_never_raises
      [of demo_env "ustr ''https://zhuanlan.zhihu.com/p/999''" empty_state]
    by (auto simp: demo_id_999 demo_api_999)
  have blank_content: "\<forall>c. get_prop demo_blank_data (ustr ''content'') = JStr c \<longrightarrow> trim c = []"
    by (simp add: demo_blank_data_def get_prop_def trim_def js_is_ws_def ustr_def)
  have blank_text: "responseText (demo_response demo_blank_text) = demo_blank_text"
    by (simp add: demo_response_def)
  have blank: "fst (fetchZhihuArticleDetailsByApi demo_env empty_state
                 (ustr ''https://zhuanlan.zhihu.com/p/456'')) = Inr None"
    using fetchZhihuArticleDetailsByApi_never_raises
      [of demo_env "ustr ''https://zhuanlan.zhihu.com/p/456''" empty_state]
      demo_parse_blank blank_content
    by (auto simp: demo_id_456 demo_api_456 blank_text)
  have api_text: "responseText (demo_response demo_api_text) = demo_api_text"
    "status (demo_response demo_api_text) = 200" "demo_api_text \<noteq> []"
    by (simp_all add: demo_response_def demo_api_text_def ustr_def)
  have parsed: "safeParseJSON demo_env demo_api_text = demo_api_data"
    using api_text(3) by (simp add: safeParseJSON_def demo_parse_api)
  obtain rec where rec: "api_record demo_env (ustr ''123'') demo_api_data = Inr (Some rec)"
    using demo_api_record_123 by blast
  have id_ne: "ustr ''123'' \<noteq> []"
    by (simp add: ustr_def)
  have call: "fst (fetchZhihuArticleDetailsByApi demo_env empty_state
                (ustr ''https://zhuanlan.zhihu.com/p/123'')) = Inr (Some rec)"
    using id_ne
    by (simp add: fetchZhihuArticleDetailsByApi_eq [OF demo_id_123] demo_api_123 api_text parsed
        rec)
  have content: "get_prop demo_api_data (ustr ''content'') = JStr (ustr ''<p>Hi</p>'')"
    by (simp add: demo_api_data_def get_prop_def ustr_def)
  have html: "innerHTML demo_env (ustr ''<p>Hi</p>'') = [TextNode (ustr ''<p>Hi</p>'')]"
    by (simp add: demo_env_def)
  from fetchZhihuArticleDetailsByApi_never_raises
      [of demo_env "ustr ''https://zhuanlan.zhihu.com/p/123''" empty_state] call
  have "cr_content rec = Element (ustr ''div'') [] [TextNode (ustr ''<p>Hi</p>'')]"
    by (auto simp: demo_id_123 demo_api_123 api_text demo_parse_api content html)
  with none transport blank call show ?thesis by blast
qed

subsection \<open>Content resolver: API fallback after a failed document fetch\<close>

lemma fetchZhihuArticleDetails_rejected:
  assumes "fetchDocument E st url = (Inl e, st1)"
  shows "fetchZhihuArticleDetails E st url = fetchZhihuArticleDetailsByApi E st1 url"
  using assms by (simp add: fetchZhihuArticleDetails_def)

lemma get_prop_truthy:
  assumes "get_prop data k = JStr c"
  shows "truthy data"
  using assms by (cases data) (auto simp: get_prop_def)

lemma api_record_value:
  assumes content: "get_prop data (ustr ''content'') = JStr c" and "trim c \<noteq> []"
    and url: "normalizeUrl E (js_or (get_prop data (ustr ''url''))
                (JStr (ustr ''https://zhuanlan.zhihu.com/p/'' @ a))) None = Inr u"
    and date: "parseIsoDate E (js_or (get_prop data (ustr ''updated''))
                 (get_prop data (ustr ''created''))) = Inr d"
  shows "api_record E a data =
     Inr (Some \<lparr> cr_title = js_or (get_prop data (ustr ''title'')) (JStr []),
                 cr_author = js_or (opt_prop (get_prop data (ustr ''author'')) (ustr ''name''))
                               (JStr []),
                 cr_date = d,
                 cr_url = u,
                 cr_content = Element (ustr ''div'') [] (innerHTML E c) \<rparr>)"
proof -
  from assms(2) have "c \<noteq> []" using trim_Nil by auto
  with assms get_prop_truthy [OF content] show ?thesis
    by (simp add: api_record_def buildContentElementFromHtml_def)
qed

lemma api_record_date_thrown:
  assumes content: "get_prop data (ustr ''content'') = JStr c" and "trim c \<noteq> []"
    and date: "parseIsoDate E (js_or (get_prop data (ustr ''updated''))
                 (get_prop data (ustr ''created''))) = Inl e"
  shows "api_record E a data = Inl e"
proof -
  from assms(2) have "c \<noteq> []" using trim_Nil by auto
  with assms get_prop_truthy [OF content] show ?thesis
    by (simp add: api_record_def buildContentElementFromHtml_def)
qed

lemma normalizeUrl_string_or_falsy:
  assumes "\<not> truthy v \<or> (\<exists>s. v = JStr s)"
  shows "\<exists>u. normalizeUrl E v base = Inr u"
  using assms by (auto simp: normalizeUrl_def split: option.splits)

text \<open>
  C2, as the code has it. When the document fetch is rejected, the URL yields a numeric
  article identifier, and the API request loads with a status in 200..399 and a body
  that parses to a response whose \<^verbatim>\<open>content\<close> is a string that is non-empty after
  trimming, whose \<^verbatim>\<open>url\<close> field is a string or falsy (absent, say), and whose date
  value, \<^verbatim>\<open>updated\<close> or else \<^verbatim>\<open>created\<close>, converts to a string without throwing (as
  every value does but an object with a property named \<^verbatim>\<open>toString\<close> and an array
  holding one), then \<^verbatim>\<open>fetchZhihuArticleDetails\<close> resolves to a record whose title,
  author, date, url and content are all computed from the API response (and the
  identifier); nothing of the failed document fetch enters it.
\<close>

theorem fetchZhihuArticleDetails_api_fallback:
  assumes "fetchDocument E st url = (Inl e, st1)"
    and "extractZhihuArticleId E url = Inr articleId" and "articleId \<noteq> []"
    and "GM_xmlhttpRequest E (json_request E (api_url articleId)) = OnLoad r"
    and "200 \<le> status r" and "status r < 400"
    and "responseText r \<noteq> []" and "JSON_parse E (responseText r) = Some data"
    and "get_prop data (ustr ''content'') = JStr c" and "trim c \<noteq> []"
    and "\<not> truthy (get_prop data (ustr ''url'')) \<or> (\<exists>s. get_prop data (ustr ''url'') = JStr s)"
    and "js_toString E (js_or (get_prop data (ustr ''updated''))
                          (get_prop data (ustr ''created''))) = Inr s"
  shows "\<exists>u d. normalizeUrl E (js_or (get_prop data (ustr ''url''))
                 (JStr (ustr ''https://zhuanlan.zhihu.com/p/'' @ articleId))) None = Inr u
           \<and> parseIsoDate E (js_or (get_prop data (ustr ''updated''))
                                 (get_prop data (ustr ''created''))) = Inr d
           \<and> fetchZhihuArticleDetails E st url =
               (Inr (Some \<lparr> cr_title = js_or (get_prop data (ustr ''title'')) (JStr []),
                             cr_author = js_or (opt_prop (get_prop data (ustr ''author''))
                                                  (ustr ''name'')) (JStr []),
                             cr_date = d,
                             cr_url = u,
                             cr_content = Element (ustr ''div'') [] (innerHTML E c) \<rparr>),
                st1\<lparr>requests := requests st1 @ [json_request E (api_url articleId)]\<rparr>)"
proof -
  let ?raw = "js_or (get_prop data (ustr ''url''))
                (JStr (ustr ''https://zhuanlan.zhihu.com/p/'' @ articleId))"
  have "\<not> truthy ?raw \<or> (\<exists>s. ?raw = JStr s)"
    using assms(11) by (auto simp: js_or_def)
  then obtain u where u: "normalizeUrl E ?raw None = Inr u"
    using normalizeUrl_string_or_falsy by blast
  obtain d where d: "parseIsoDate E (js_or (get_prop data (ustr ''updated''))
                       (get_prop data (ustr ''created''))) = Inr d"
    using assms(12) parseIsoDate_returns_iff by blast
  have parsed: "safeParseJSON E (responseText r) = data"
    using assms(7,8) by (simp add: safeParseJSON_def)
  have "fetchZhihuArticleDetailsByApi E st1 url =
          (Inr (Some \<lparr> cr_title = js_or (get_prop data (ustr ''title'')) (JStr []),
                        cr_author = js_or (opt_prop (get_prop data (ustr ''author''))
                                             (ustr ''name'')) (JStr []),
                        cr_date = d,
                        cr_url = u,
                        cr_content = Element (ustr ''div'') [] (innerHTML E c) \<rparr>),
           st1\<lparr>requests := requests st1 @ [json_request E (api_url articleId)]\<rparr>)"
    using assms(3,5,6)
    by (simp add: fetchZhihuArticleDetailsByApi_eq [OF assms(2)] assms(4) parsed
        api_record_value [OF assms(9,10) u d])
  with u d fetchZhihuArticleDetails_rejected [OF assms(1)] show ?thesis
    by simp
qed

lemmas doc_eval = fetchDocument_def normalizeUrl_string send_def document_request_def
  api_url_def demo_env_def demo_GM_xmlhttpRequest_def empty_state_def ustr_def

lemma demo_fetchDocument_123:
  "isl (fst (fetchDocument demo_env empty_state (ustr ''https://zhuanlan.zhihu.com/p/123'')))"
  by (simp add: doc_eval)

lemma demo_fetchDocument_456:
  "isl (fst (fetchDocument demo_env empty_state (ustr ''https://zhuanlan.zhihu.com/p/456'')))"
  by (simp add: doc_eval)

lemma demo_fetchDocument_789:
  "isl (fst (fetchDocument demo_env empty_state (ustr ''https://zhuanlan.zhihu.com/p/789'')))"
  by (simp add: doc_eval)

lemma demo_fetchDocument_321:
  "isl (fst (fetchDocument demo_env empty_state (ustr ''https://zhuanlan.zhihu.com/p/321'')))"
  by (simp add: doc_eval)

lemma rejected_cases:
  assumes "isl (fst (fetchDocument E st url))"
  obtains e st1 where "fetchDocument E st url = (Inl e, st1)"
  using assms by (cases "fetchDocument E st url") (auto simp: isl_def)

lemma demo_response_fields:
  "status (demo_response body) = 200" "responseText (demo_response body) = body"
  by (simp_all add: demo_response_def)

lemma demo_texts_nonempty:
  "demo_api_text \<noteq> []" "demo_blank_text \<noteq> []" "demo_numeric_url_text \<noteq> []"
  "demo_object_date_text \<noteq> []"
  by (simp_all add: demo_texts ustr_def)

theorem fetchZhihuArticleDetails_api_fallback_witness:
  "isl (fst (fetchDocument demo_env empty_state (ustr ''https://zhuanlan.zhihu.com/p/123'')))
   \<and> (\<exists>st'. fetchZhihuArticleDetails demo_env empty_state
               (ustr ''https://zhuanlan.zhihu.com/p/123'') =
             (Inr (Some \<lparr> cr_title = JStr (ustr ''T''), cr_author = JStr [],
                           cr_date = ustr ''2020-09-13'',
                           cr_url = ustr ''https://zhuanlan.zhihu.com/p/123'',
                           cr_content = Element (ustr ''div'') []
                                          [TextNode (ustr ''<p>Hi</p>'')] \<rparr>), st'))"
proof -
  obtain e st1 where rejected:
    "fetchDocument demo_env empty_state (ustr ''https://zhuanlan.zhihu.com/p/123'') = (Inl e, st1)"
    using demo_fetchDocument_123 by (rule rejected_cases)
  have content: "get_prop demo_api_data (ustr ''content'') = JStr (ustr ''<p>Hi</p>'')"
    by (simp add: demo_api_data_def get_prop_def ustr_def)
  have nonblank: "trim (ustr ''<p>Hi</p>'') \<noteq> []"
    by (simp add: trim_def js_is_ws_def ustr_def)
  have no_url: "\<not> truthy (get_prop demo_api_data (ustr ''url''))
                \<or> (\<exists>s. get_prop demo_api_data (ustr ''url'') = JStr s)"
    by (simp add: demo_api_data_def get_prop_def ustr_def)
  have id_ne: "ustr ''123'' \<noteq> []"
    by (simp add: ustr_def)
  have parse: "JSON_parse demo_env (responseText (demo_response demo_api_text)) = Some demo_api_data"
    by (simp add: demo_response_fields demo_parse_api)
  have url: "normalizeUrl demo_env (js_or (get_prop demo_api_data (ustr ''url''))
               (JStr (ustr ''https://zhuanlan.zhihu.com/p/'' @ ustr ''123''))) None
             = Inr (ustr ''https://zhuanlan.zhihu.com/p/123'')"
    by (simp add: demo_api_data_def get_prop_def js_or_def normalizeUrl_string ustr_def)
  have title: "js_or (get_prop demo_api_data (ustr ''title'')) (JStr []) = JStr (ustr ''T'')"
    by (simp add: demo_api_data_def get_prop_def js_or_def ustr_def)
  have author: "js_or (opt_prop (get_prop demo_api_data (ustr ''author'')) (ustr ''name''))
                  (JStr []) = JStr []"
    by (simp add: demo_api_data_def get_prop_def opt_prop_def js_or_def ustr_def)
  have created: "js_or (get_prop demo_api_data (ustr ''updated''))
                   (get_prop demo_api_data (ustr ''created'')) = JNum 1600000000"
    by (simp add: demo_api_data_def get_prop_def js_or_def ustr_def)
  have date: "parseIsoDate demo_env (JNum 1600000000) = Inr (ustr ''2020-09-13'')"
    by (simp add: parseIsoDate_number date_eval)
  have printed: "js_toString demo_env (js_or (get_prop demo_api_data (ustr ''updated''))
                   (get_prop demo_api_data (ustr ''created'')))
                 = Inr (number_toString demo_env 1600000000)"
    by (simp only: created js_toString.simps)
  have html: "innerHTML demo_env (ustr ''<p>Hi</p>'') = [TextNode (ustr ''<p>Hi</p>'')]"
    by (simp add: demo_env_def)
  from fetchZhihuArticleDetails_api_fallback
    [OF rejected demo_id_123 id_ne demo_api_123 _ _ _ parse content nonblank no_url printed]
  have "\<exists>st'. fetchZhihuArticleDetails demo_env empty_state
               (ustr ''https://zhuanlan.zhihu.com/p/123'') =
             (Inr (Some \<lparr> cr_title = JStr (ustr ''T''), cr_author = JStr [],
                           cr_date = ustr ''2020-09-13'',
                           cr_url = ustr ''https://zhuanlan.zhihu.com/p/123'',
                           cr_content = Element (ustr ''div'') []
                                          [TextNode (ustr ''<p>Hi</p>'')] \<rparr>), st')"
    by (simp add: demo_response_fields demo_texts_nonempty url title author created date html)
  with demo_fetchDocument_123 show ?thesis by blast
qed

text \<open>
  C2 as stated fails. For article 456 the document fetch is rejected, the URL yields the
  identifier, and the API loads a response whose \<^verbatim>\<open>content\<close> is the non-empty string
  of one space: \<^verbatim>\<open>data.content.trim()\<close> is empty and the result is null. For
  article 789 the content is real but the \<^verbatim>\<open>url\<close> field is the number 5, on which
  \<^verbatim>\<open>normalizeUrl\<close> throws inside the \<^verbatim>\<open>try\<close>: the result is null again. For
  article 321 the content is real and there is no \<^verbatim>\<open>url\<close>, but \<^verbatim>\<open>updated\<close> is an
  object with a property named \<^verbatim>\<open>toString\<close>, on which \<^verbatim>\<open>new Date\<close> throws inside
  the \<^verbatim>\<open>try\<close>: null once more.
\<close>

theorem fetchZhihuArticleDetails_api_fallback_counterexample:
  "isl (fst (fetchDocument demo_env empty_state (ustr ''https://zhuanlan.zhihu.com/p/456'')))
   \<and> extractZhihuArticleId demo_env (ustr ''https://zhuanlan.zhihu.com/p/456'') = Inr (ustr ''456'')
   \<and> GM_xmlhttpRequest demo_env (json_request demo_env (api_url (ustr ''456'')))
       = OnLoad (demo_response demo_blank_text)
   \<and> status (demo_response demo_blank_text) = 200
   \<and> JSON_parse demo_env (responseText (demo_response demo_blank_text)) = Some demo_blank_data
   \<and> get_prop demo_blank_data (ustr ''content'') = JStr (ustr '' '')
   \<and> ustr '' '' \<noteq> []
   \<and> fst (fetchZhihuArticleDetails demo_env empty_state
            (ustr ''https://zhuanlan.zhihu.com/p/456'')) = Inr None
   \<and> isl (fst (fetchDocument demo_env empty_state (ustr ''https://zhuanlan.zhihu.com/p/789'')))
   \<and> extractZhihuArticleId demo_env (ustr ''https://zhuanlan.zhihu.com/p/789'') = Inr (ustr ''789'')
   \<and> GM_xmlhttpRequest demo_env (json_request demo_env (api_url (ustr ''789'')))
       = OnLoad (demo_response demo_numeric_url_text)
   \<and> JSON_parse demo_env (responseText (demo_response demo_numeric_url_text))
       = Some demo_numeric_url_data
   \<and> get_prop demo_numeric_url_data (ustr ''content'') = JStr (ustr ''<p>Hi</p>'')
   \<and> fst (fetchZhihuArticleDetails demo_env empty_state
            (ustr ''https://zhuanlan.zhihu.com/p/789'')) = Inr None
   \<and> isl (fst (fetchDocument demo_env empty_state (ustr ''https://zhuanlan.zhihu.com/p/321'')))
   \<and> extractZhihuArticleId demo_env (ustr ''https://zhuanlan.zhihu.com/p/321'') = Inr (ustr ''321'')
   \<and> GM_xmlhttpRequest demo_env (json_request demo_env (api_url (ustr ''321'')))
       = OnLoad (demo_response demo_object_date_text)
   \<and> JSON_parse demo_env (responseText (demo_response demo_object_date_text))
       = Some demo_object_date_data
   \<and> get_prop demo_object_date_data (ustr ''content'') = JStr (ustr ''<p>Hi</p>'')
   \<and> get_prop demo_object_date_data (ustr ''url'') = JUndefined
   \<and> get_prop demo_object_date_data (ustr ''updated'') = JObj [(ustr ''toString'', JNum 1)]
   \<and> parseIsoDate demo_env (JObj [(ustr ''toString'', JNum 1)]) = Inl TypeError
   \<and> fst (fetchZhihuArticleDetails demo_env empty_state
            (ustr ''https://zhuanlan.zhihu.com/p/321'')) = Inr None"
proof -
  obtain e4 st4 where r4:
    "fetchDocument demo_env empty_state (ustr ''https://zhuanlan.zhihu.com/p/456'') = (Inl e4, st4)"
    using demo_fetchDocument_456 by (rule rejected_cases)
  obtain e7 st7 where r7:
    "fetchDocument demo_env empty_state (ustr ''https://zhuanlan.zhihu.com/p/789'') = (Inl e7, st7)"
    using demo_fetchDocument_789 by (rule rejected_cases)
  obtain e3 st3 where r3:
    "fetchDocument demo_env empty_state (ustr ''https://zhuanlan.zhihu.com/p/321'') = (Inl e3, st3)"
    using demo_fetchDocument_321 by (rule rejected_cases)
  have ids: "ustr ''456'' \<noteq> []" "ustr ''789'' \<noteq> []" "ustr ''321'' \<noteq> []"
    by (simp_all add: ustr_def)
  have p3: "safeParseJSON demo_env demo_object_date_text = demo_object_date_data"
    using demo_texts_nonempty by (simp add: safeParseJSON_def demo_parse_object_date)
  have c3: "get_prop demo_object_date_data (ustr ''content'') = JStr (ustr ''<p>Hi</p>'')"
    by (simp add: demo_object_date_data_def get_prop_def ustr_def)
  have u3: "get_prop demo_object_date_data (ustr ''url'') = JUndefined"
    by (simp add: demo_object_date_data_def get_prop_def ustr_def)
  have d3: "get_prop demo_object_date_data (ustr ''updated'') = JObj [(ustr ''toString'', JNum 1)]"
    by (simp add: demo_object_date_data_def get_prop_def ustr_def)
  have t3: "parseIsoDate demo_env (JObj [(ustr ''toString'', JNum 1)]) = Inl TypeError"
    by (rule parseIsoDate_own_toString) simp
  have nonblank: "trim (ustr ''<p>Hi</p>'') \<noteq> []"
    by (simp add: trim_def js_is_ws_def ustr_def)
  have a3: "api_record demo_env (ustr ''321'') demo_object_date_data = Inl TypeError"
    by (rule api_record_date_thrown [OF c3 nonblank]) (simp add: d3 js_or_def t3)
  have f3: "fst (fetchZhihuArticleDetails demo_env empty_state
                   (ustr ''https://zhuanlan.zhihu.com/p/321'')) = Inr None"
    using ids
    by (simp add: fetchZhihuArticleDetails_rejected [OF r3]
        fetchZhihuArticleDetailsByApi_eq [OF demo_id_321] demo_api_321 demo_response_fields p3 a3)
  have p4: "safeParseJSON demo_env demo_blank_text = demo_blank_data"
    using demo_texts_nonempty by (simp add: safeParseJSON_def demo_parse_blank)
  have p7: "safeParseJSON demo_env demo_numeric_url_text = demo_numeric_url_data"
    using demo_texts_nonempty by (simp add: safeParseJSON_def demo_parse_numeric_url)
  have c4: "get_prop demo_blank_data (ustr ''content'') = JStr (ustr '' '')"
    by (simp add: demo_blank_data_def get_prop_def ustr_def)
  have c7: "get_prop demo_numeric_url_data (ustr ''content'') = JStr (ustr ''<p>Hi</p>'')"
    by (simp add: demo_numeric_url_data_def get_prop_def ustr_def)
  have a4: "api_record demo_env (ustr ''456'') demo_blank_data = Inr None"
    by (rule api_record_None)
      (simp add: demo_blank_data_def get_prop_def trim_def js_is_ws_def ustr_def)
  have a7: "api_record demo_env (ustr ''789'') demo_numeric_url_data = Inl TypeError"
    by (simp add: api_record_def c7 demo_numeric_url_data_def get_prop_def
        buildContentElementFromHtml_def normalizeUrl_def parseIsoDate_def js_or_def trim_def
        js_is_ws_def ustr_def)
  have f4: "fst (fetchZhihuArticleDetails demo_env empty_state
                   (ustr ''https://zhuanlan.zhihu.com/p/456'')) = Inr None"
    using ids
    by (simp add: fetchZhihuArticleDetails_rejected [OF r4]
        fetchZhihuArticleDetailsByApi_eq [OF demo_id_456] demo_api_456 demo_response_fields p4 a4)
  have f7: "fst (fetchZhihuArticleDetails demo_env empty_state
                   (ustr ''https://zhuanlan.zhihu.com/p/789'')) = Inr None"
    using ids
    by (simp add: fetchZhihuArticleDetails_rejected [OF r7]
        fetchZhihuArticleDetailsByApi_eq [OF demo_id_789] demo_api_789 demo_response_fields p7 a7)
  have sp: "ustr '' '' \<noteq> []" by (simp add: ustr_def)
  show ?thesis
    by (intro conjI)
      (rule demo_fetchDocument_456 demo_id_456 demo_api_456 demo_parse_blank c4 sp f4
         demo_fetchDocument_789 demo_id_789 demo_api_789 demo_parse_numeric_url c7 f7
         demo_fetchDocument_321 demo_id_321 demo_api_321 demo_parse_object_date c3 u3 d3 t3 f3
         demo_response_fields
       | simp only: demo_response_fields demo_parse_blank demo_parse_numeric_url
           demo_parse_object_date)+
qed

subsection \<open>Content resolver: truncation heuristic and overlay\<close>

lemma shouldUseFallback_iff:
  "shouldUseFallback content \<longleftrightarrow>
     content = None
     \<or> (\<exists>c. content = Some c
            \<and> (length (trim (textContent c)) < 200
                \<or> querySelector c [[[Tag (ustr ''button''), Class (ustr ''ContentItem-more'')]]]
                    \<noteq> None
                \<or> js_includes (trim (textContent c)) [0x9605, 0x8BFB, 0x5168, 0x6587]))"
  by (cases content)
    (auto simp: shouldUseFallback_def MIN_TEXT_LENGTH_def READ_MORE_def sel_tag_class_def Let_def)

lemma dom_canonicalUrl_string: "\<exists>s. dom_canonicalUrl doc url = JStr s"
  by (auto simp: dom_canonicalUrl_def js_or_def query_attr_def split: option.splits)

lemma query_attr_not_object: "\<not> is_object (query_attr doc sel name)"
  by (simp add: query_attr_def split: option.splits)

text \<open>The date of the page is computed from attribute strings: it never throws.\<close>

lemma dom_date_returns: "\<exists>d. dom_date E doc = Inr d"
proof -
  let ?p = "query_attr doc (sel_meta_itemprop ''datePublished'') (ustr ''content'')"
  let ?m = "query_attr doc (sel_meta_itemprop ''dateModified'') (ustr ''content'')"
  obtain p where p: "parseIsoDate E ?p = Inr p"
    using parseIsoDate_not_object [OF query_attr_not_object] by blast
  obtain m where m: "parseIsoDate E ?m = Inr m"
    using parseIsoDate_not_object [OF query_attr_not_object] by blast
  show ?thesis
    by (simp add: dom_date_def Let_def p m)
qed

lemma finish_overlay:
  assumes "normalizeUrl E (js_or (l_canonicalUrl (overlay fallback l)) (JStr url)) None = Inr u"
  shows "finish E url (overlay fallback l) =
     Inr (Some \<lparr> cr_title = (if truthy (cr_title fallback) then cr_title fallback else l_title l),
                 cr_author = (if truthy (cr_author fallback) then cr_author fallback
                              else l_author l),
                 cr_date = (if cr_date fallback \<noteq> [] then cr_date fallback else l_date l),
                 cr_url = u,
                 cr_content = cr_content fallback \<rparr>)"
  using assms by (simp add: finish_def overlay_def)

text \<open>
  C1. DOM extraction is judged insufficient exactly when the content element is
  absent, its trimmed text has fewer than 200 code units, or it contains a
  \<^verbatim>\<open>button.ContentItem-more\<close> element or the read-more phrase. When it is
  insufficient and the embedded-state extractor returns a record, the result takes
  each of title, author, date and canonical URL from that record where the record's
  field is non-empty and keeps the DOM-derived value where it is empty, takes the
  record's content, and carries the normalised canonical URL as its url. When the DOM
  extraction is sufficient the result is built from the DOM-derived values alone.
\<close>

theorem extractContentFromDocument_overlay:
  "(shouldUseFallback content \<longleftrightarrow>
      content = None
      \<or> (\<exists>c. content = Some c
             \<and> (length (trim (textContent c)) < 200
                 \<or> querySelector c [[[Tag (ustr ''button''), Class (ustr ''ContentItem-more'')]]]
                     \<noteq> None
                 \<or> js_includes (trim (textContent c)) [0x9605, 0x8BFB, 0x5168, 0x6587])))
   \<and> (\<forall>fallback.
         shouldUseFallback (dom_content doc)
         \<and> extractFromInitialData E (Some doc)
               (js_or (dom_canonicalUrl doc url) (JStr url)) = Inr (Some fallback)
         \<longrightarrow> (\<exists>u d. normalizeUrl E
                     (js_or (if cr_url fallback \<noteq> [] then JStr (cr_url fallback)
                             else dom_canonicalUrl doc url) (JStr url)) None = Inr u
                 \<and> dom_date E doc = Inr d
                 \<and> extractContentFromDocument E (Some doc) url =
                     Inr (Some \<lparr> cr_title = (if truthy (cr_title fallback) then cr_title fallback
                                               else dom_title doc),
                                   cr_author = (if truthy (cr_author fallback)
                                                then cr_author fallback else dom_author doc),
                                   cr_date = (if cr_date fallback \<noteq> [] then cr_date fallback
                                              else d),
                                   cr_url = u,
                                   cr_content = cr_content fallback \<rparr>)))
   \<and> (\<not> shouldUseFallback (dom_content doc) \<longrightarrow>
        (\<exists>c u d. dom_content doc = Some c
               \<and> normalizeUrl E (js_or (dom_canonicalUrl doc url) (JStr url)) None = Inr u
               \<and> dom_date E doc = Inr d
               \<and> extractContentFromDocument E (Some doc) url =
                   Inr (Some \<lparr> cr_title = dom_title doc, cr_author = dom_author doc,
                                 cr_date = d, cr_url = u, cr_content = c \<rparr>)))"
proof -
  have heuristic: "shouldUseFallback content \<longleftrightarrow>
      content = None
      \<or> (\<exists>c. content = Some c
             \<and> (length (trim (textContent c)) < 200
                 \<or> querySelector c [[[Tag (ustr ''button''), Class (ustr ''ContentItem-more'')]]]
                     \<noteq> None
                 \<or> js_includes (trim (textContent c)) [0x9605, 0x8BFB, 0x5168, 0x6587]))"
    by (rule shouldUseFallback_iff)
  obtain s where canon: "dom_canonicalUrl doc url = JStr s"
    using dom_canonicalUrl_string by blast
  obtain d where d: "dom_date E doc = Inr d"
    using dom_date_returns by blast
  let ?l = "\<lparr> l_title = dom_title doc, l_content = dom_content doc,
              l_author = dom_author doc, l_date = d,
              l_canonicalUrl = dom_canonicalUrl doc url \<rparr>"
  have overlaid: "\<forall>fallback.
         shouldUseFallback (dom_content doc)
         \<and> extractFromInitialData E (Some doc)
               (js_or (dom_canonicalUrl doc url) (JStr url)) = Inr (Some fallback)
         \<longrightarrow> (\<exists>u d. normalizeUrl E
                     (js_or (if cr_url fallback \<noteq> [] then JStr (cr_url fallback)
                             else dom_canonicalUrl doc url) (JStr url)) None = Inr u
                 \<and> dom_date E doc = Inr d
                 \<and> extractContentFromDocument E (Some doc) url =
                     Inr (Some \<lparr> cr_title = (if truthy (cr_title fallback) then cr_title fallback
                                               else dom_title doc),
                                   cr_author = (if truthy (cr_author fallback)
                                                then cr_author fallback else dom_author doc),
                                   cr_date = (if cr_date fallback \<noteq> [] then cr_date fallback
                                              else d),
                                   cr_url = u,
                                   cr_content = cr_content fallback \<rparr>))"
  proof (intro allI impI, elim conjE)
    fix fallback
    assume use: "shouldUseFallback (dom_content doc)"
      and fb: "extractFromInitialData E (Some doc)
                 (js_or (dom_canonicalUrl doc url) (JStr url)) = Inr (Some fallback)"
    let ?raw = "js_or (if cr_url fallback \<noteq> [] then JStr (cr_url fallback)
                       else dom_canonicalUrl doc url) (JStr url)"
    have "\<exists>t. ?raw = JStr t"
      by (simp add: canon js_or_def)
    then obtain u where u: "normalizeUrl E ?raw None = Inr u"
      using normalizeUrl_string_or_falsy by blast
    have overlay_url: "l_canonicalUrl (overlay fallback ?l)
                         = (if cr_url fallback \<noteq> [] then JStr (cr_url fallback)
                            else dom_canonicalUrl doc url)"
      by (simp add: overlay_def)
    have "extractContentFromDocument E (Some doc) url = finish E url (overlay fallback ?l)"
      using use fb by (simp add: extractContentFromDocument_def d Let_def)
    also have "\<dots> = Inr (Some \<lparr> cr_title = (if truthy (cr_title fallback) then cr_title fallback
                                               else dom_title doc),
                                   cr_author = (if truthy (cr_author fallback)
                                                then cr_author fallback else dom_author doc),
                                   cr_date = (if cr_date fallback \<noteq> [] then cr_date fallback
                                              else d),
                                   cr_url = u,
                                   cr_content = cr_content fallback \<rparr>)"
      using finish_overlay [of E fallback ?l url u] u overlay_url by simp
    finally have result: "extractContentFromDocument E (Some doc) url =
                     Inr (Some \<lparr> cr_title = (if truthy (cr_title fallback) then cr_title fallback
                                               else dom_title doc),
                                   cr_author = (if truthy (cr_author fallback)
                                                then cr_author fallback else dom_author doc),
                                   cr_date = (if cr_date fallback \<noteq> [] then cr_date fallback
                                              else d),
                                   cr_url = u,
                                   cr_content = cr_content fallback \<rparr>)" .
    show "\<exists>u d. normalizeUrl E ?raw None = Inr u
                 \<and> dom_date E doc = Inr d
                 \<and> extractContentFromDocument E (Some doc) url =
                     Inr (Some \<lparr> cr_title = (if truthy (cr_title fallback) then cr_title fallback
                                               else dom_title doc),
                                   cr_author = (if truthy (cr_author fallback)
                                                then cr_author fallback else dom_author doc),
                                   cr_date = (if cr_date fallback \<noteq> [] then cr_date fallback
                                              else d),
                                   cr_url = u,
                                   cr_content = cr_content fallback \<rparr>)"
      by (intro exI [of _ u] exI [of _ d] conjI) (rule u d result)+
  qed
  have sufficient: "\<not> shouldUseFallback (dom_content doc) \<longrightarrow>
        (\<exists>c u d. dom_content doc = Some c
               \<and> normalizeUrl E (js_or (dom_canonicalUrl doc url) (JStr url)) None = Inr u
               \<and> dom_date E doc = Inr d
               \<and> extractContentFromDocument E (Some doc) url =
                   Inr (Some \<lparr> cr_title = dom_title doc, cr_author = dom_author doc,
                                 cr_date = d, cr_url = u, cr_content = c \<rparr>))"
  proof
    assume no: "\<not> shouldUseFallback (dom_content doc)"
    then obtain c where c: "dom_content doc = Some c"
      by (cases "dom_content doc") (auto simp: shouldUseFallback_def)
    have "\<exists>t. js_or (dom_canonicalUrl doc url) (JStr url) = JStr t"
      by (simp add: canon js_or_def)
    then obtain u where u: "normalizeUrl E (js_or (dom_canonicalUrl doc url) (JStr url)) None = Inr u"
      using normalizeUrl_string_or_falsy by blast
    have result: "extractContentFromDocument E (Some doc) url =
            Inr (Some \<lparr> cr_title = dom_title doc, cr_author = dom_author doc,
                          cr_date = d, cr_url = u, cr_content = c \<rparr>)"
      using no c u by (simp add: extractContentFromDocument_def finish_def d Let_def)
    show "\<exists>c u d. dom_content doc = Some c
               \<and> normalizeUrl E (js_or (dom_canonicalUrl doc url) (JStr url)) None = Inr u
               \<and> dom_date E doc = Inr d
               \<and> extractContentFromDocument E (Some doc) url =
                   Inr (Some \<lparr> cr_title = dom_title doc, cr_author = dom_author doc,
                                 cr_date = d, cr_url = u, cr_content = c \<rparr>)"
      by (intro exI [of _ c] exI [of _ u] exI [of _ d] conjI) (rule c u d result)+
  qed
  show ?thesis
    by (intro conjI) (rule heuristic overlaid sufficient)+
qed

lemmas resolver_eval = dom_eval classList_def html_space_def sel_tag_class_def
  sel_meta_itemprop_def query_text_def query_attr_def js_or_def trim_def js_is_ws_def

lemma demo_article_content:
  "dom_content demo_article_doc =
     Some (Element (ustr ''div'') [(ustr ''class'', ustr ''RichContent-inner is-collapsed'')]
             [TextNode (ustr ''short'')])"
  by (simp add: dom_content_def demo_article_doc_def resolver_eval)

lemma demo_article_title: "dom_title demo_article_doc = JStr (ustr ''DOM title'')"
  by (simp add: dom_title_def demo_article_doc_def resolver_eval)

lemma demo_article_author: "dom_author demo_article_doc = JStr (ustr ''DOM author'')"
  by (simp add: dom_author_def demo_article_doc_def resolver_eval)

lemma demo_article_canonical:
  "dom_canonicalUrl demo_article_doc demo_article_url = JStr demo_article_url"
  by (simp add: dom_canonicalUrl_def demo_article_doc_def demo_article_url_def resolver_eval)

lemma digits_value_1600000000: "digits_value (ustr ''1600000000'') = 1600000000"
  by (simp add: digits_value_def ustr_def)

lemma demo_article_date: "dom_date demo_env demo_article_doc = Inr (ustr ''2020-09-13'')"
proof -
  have meta: "query_attr demo_article_doc (sel_meta_itemprop ''datePublished'') (ustr ''content'')
                = JStr (ustr ''1600000000'')"
    by (simp add: demo_article_doc_def resolver_eval)
  have numeric: "trim (ustr ''1600000000'') = ustr ''1600000000''"
    "all_digits (ustr ''1600000000'')"
    by (simp_all add: trim_def js_is_ws_def all_digits_def is_digit_def ustr_def)
  have "parseIsoDate demo_env (JStr (ustr ''1600000000'')) = parseIsoDate demo_env (JNum 1600000000)"
    using numeric digits_value_1600000000
    by (simp add: parseIsoDate_def) (simp add: ustr_def)
  also have "\<dots> = Inr (ustr ''2020-09-13'')"
    by (simp add: parseIsoDate_number date_eval)
  finally have "parseIsoDate demo_env (JStr (ustr ''1600000000'')) = Inr (ustr ''2020-09-13'')" .
  then show ?thesis
    by (simp add: dom_date_def meta Let_def) (simp add: ustr_def)
qed

lemma demo_article_script:
  "querySelector demo_article_doc [[[Id (ustr ''js-initialData'')]]]
     = Some (Element (ustr ''script'') [(ustr ''id'', ustr ''js-initialData'')]
               [TextNode demo_state_text])"
  by (simp add: demo_article_doc_def dom_eval)

lemma demo_state_parsed:
  "safeParseJSON demo_env (trim demo_state_text) = demo_state demo_entities"
proof -
  have "trim demo_state_text = demo_state_text"
    by (simp add: demo_state_text_def trim_def js_is_ws_def ustr_def)
  moreover have "demo_JSON_parse demo_state_text = Some (demo_state demo_entities)"
    by (simp add: demo_JSON_parse_def demo_texts ustr_def)
  moreover have "demo_state_text \<noteq> []"
    by (simp add: demo_state_text_def ustr_def)
  ultimately show ?thesis
    by (simp add: safeParseJSON_def demo_env_def)
qed

lemma demo_state_entities:
  "opt_prop (js_or_list [get_prop (demo_state demo_entities) (ustr ''initialState''),
                         get_prop (demo_state demo_entities) (ustr ''data''),
                         demo_state demo_entities])
     (ustr ''entities'') = demo_entities"
  by (simp add: demo_state_def opt_prop_def get_prop_def ustr_def)

lemma demo_answer_fields:
  "get_prop demo_answer (ustr ''content'') = JStr (ustr ''<p>x</p>'')"
  "get_prop demo_answer (ustr ''title'') = JStr (ustr ''Answer title'')"
  "get_prop demo_answer (ustr ''id'') = JNum 2"
  "get_prop demo_answer (ustr ''url'') = JUndefined"
  "get_prop demo_answer (ustr ''question'') = JUndefined"
  "get_prop demo_answer (ustr ''author'') = JUndefined"
  "get_prop demo_answer (ustr ''user'') = JUndefined"
  "get_prop demo_answer (ustr ''updated'') = JUndefined"
  "get_prop demo_answer (ustr ''updatedTime'') = JUndefined"
  "get_prop demo_answer (ustr ''publish_time'') = JUndefined"
  "get_prop demo_answer (ustr ''publishTime'') = JUndefined"
  "get_prop demo_answer (ustr ''created'') = JUndefined"
  "get_prop demo_answer (ustr ''createdTime'') = JUndefined"
  by (simp_all add: demo_answer_def get_prop_def ustr_def)

lemma demo_article_url_normal:
  "normalizeUrl demo_env (JStr demo_article_url) None = Inr demo_article_url"
  by (simp add: normalizeUrl_string demo_article_url_def ustr_def)

lemma demo_answer_url:
  "entity_url demo_env (ustr ''answers'') demo_answer (JStr demo_article_url)
     = Inr demo_article_url"
proof -
  have "ustr ''answers'' \<noteq> ustr ''articles''" by (simp add: ustr_def)
  then show ?thesis
    by (simp add: entity_url_def demo_answer_fields demo_article_url_normal opt_prop_def)
qed

lemma demo_article_fallback:
  "extractFromInitialData demo_env (Some demo_article_doc) (JStr demo_article_url) =
     Inr (Some \<lparr> cr_title = JStr (ustr ''Answer title''), cr_author = JStr [], cr_date = [],
                 cr_url = demo_article_url,
                 cr_content = Element (ustr ''div'') [] [TextNode (ustr ''<p>x</p>'')] \<rparr>)"
proof -
  have nonempty: "demo_state_text \<noteq> []" "ustr ''<p>x</p>'' \<noteq> []"
    by (simp_all add: demo_state_text_def ustr_def)
  have truthy_state: "truthy (demo_state demo_entities)" "truthy demo_entities"
    by (simp_all add: demo_state_def demo_entities_def)
  have state: "js_or_list [get_prop (demo_state demo_entities) (ustr ''initialState''),
                           get_prop (demo_state demo_entities) (ustr ''data''),
                           demo_state demo_entities]
                 = JObj [(ustr ''entities'', demo_entities)]"
    by (simp add: demo_state_def get_prop_def ustr_def)
  have ents: "opt_prop (JObj [(ustr ''entities'', demo_entities)]) (ustr ''entities'')
                = demo_entities"
    "opt_prop (JObj [(ustr ''entities'', demo_entities)]) (ustr ''title'') = JUndefined"
    by (simp_all add: opt_prop_def get_prop_def ustr_def)
  have undef: "opt_prop JUndefined k = JUndefined" for k
    by (simp add: opt_prop_def)
  have html: "innerHTML demo_env (ustr ''<p>x</p>'') = [TextNode (ustr ''<p>x</p>'')]"
    by (simp add: demo_env_def)
  have date: "parseIsoDate demo_env JUndefined = Inr []"
    by (simp add: parseIsoDate_def)
  have built: "buildContentElementFromHtml demo_env (JStr (ustr ''<p>x</p>''))
                 = Some (Element (ustr ''div'') [] [TextNode (ustr ''<p>x</p>'')])"
    using nonempty by (simp add: buildContentElementFromHtml_def html)
  have title: "js_or_list [JStr (ustr ''Answer title''), JUndefined, JUndefined, JStr []]
                 = JStr (ustr ''Answer title'')"
    by (simp add: ustr_def)
  show ?thesis
    using nonempty truthy_state
    by (simp add: extractFromInitialData_def demo_article_script demo_state_parsed state ents
        demo_entities_found built demo_answer_fields undef title date demo_answer_url Let_def
        del: js_or_list.simps)
      (simp add: demo_answer_fields date demo_answer_url)
qed

lemma js_includes_set: "js_includes s p \<Longrightarrow> set p \<subseteq> set s"
proof (induction s)
  case Nil
  then show ?case by simp
next
  case (Cons c s)
  then show ?case
    using set_mono_prefix [of p "c # s"] by auto
qed

lemma demo_long_content_found: "dom_content demo_long_doc = Some demo_long_content"
  by (simp add: dom_content_def demo_long_doc_def demo_long_content_def resolver_eval)

lemma demo_long_text: "trim (textContent demo_long_content) = replicate 200 97"
  by (simp add: demo_long_content_def trim_def js_is_ws_def dropWhile_replicate)

lemma demo_long_sufficient:
  "length (trim (textContent demo_long_content)) = 200"
  "querySelector demo_long_content [[[Tag (ustr ''button''), Class (ustr ''ContentItem-more'')]]]
     = None"
  "\<not> js_includes (trim (textContent demo_long_content)) [0x9605, 0x8BFB, 0x5168, 0x6587]"
proof -
  show "length (trim (textContent demo_long_content)) = 200"
    by (simp add: demo_long_text)
  show "querySelector demo_long_content
          [[[Tag (ustr ''button''), Class (ustr ''ContentItem-more'')]]] = None"
    by (simp add: demo_long_content_def dom_eval)
  show "\<not> js_includes (trim (textContent demo_long_content)) [0x9605, 0x8BFB, 0x5168, 0x6587]"
    using js_includes_set [of "replicate 200 97" "[0x9605, 0x8BFB, 0x5168, 0x6587]"]
    by (auto simp: demo_long_text)
qed

lemma demo_long_values:
  "dom_title demo_long_doc = JStr (ustr ''Page title'')"
  "dom_author demo_long_doc = JStr (ustr ''Unknown'')"
  "dom_canonicalUrl demo_long_doc demo_article_url = JStr demo_article_url"
  by (simp_all add: dom_title_def dom_author_def dom_canonicalUrl_def demo_long_doc_def
      demo_long_content_def demo_article_url_def resolver_eval)

theorem extractContentFromDocument_overlay_witness:
  "shouldUseFallback (dom_content demo_article_doc)
   \<and> extractContentFromDocument demo_env (Some demo_article_doc) demo_article_url =
       Inr (Some \<lparr> cr_title = JStr (ustr ''Answer title''),
                   cr_author = JStr (ustr ''DOM author''),
                   cr_date = ustr ''2020-09-13'',
                   cr_url = demo_article_url,
                   cr_content = Element (ustr ''div'') [] [TextNode (ustr ''<p>x</p>'')] \<rparr>)
   \<and> \<not> shouldUseFallback (dom_content demo_long_doc)
   \<and> (\<exists>r. extractContentFromDocument demo_env (Some demo_long_doc) demo_article_url
              = Inr (Some r)
          \<and> cr_title r = JStr (ustr ''Page title'') \<and> cr_author r = JStr (ustr ''Unknown'')
          \<and> cr_url r = demo_article_url \<and> cr_content r = demo_long_content)"
proof -
  note heuristic = extractContentFromDocument_overlay [THEN conjunct1]
  note overlay_rule = extractContentFromDocument_overlay [THEN conjunct2, THEN conjunct1, rule_format]
  note sufficient_rule = extractContentFromDocument_overlay [THEN conjunct2, THEN conjunct2, rule_format]
  have short: "length (trim (textContent (Element (ustr ''div'')
                 [(ustr ''class'', ustr ''RichContent-inner is-collapsed'')]
                 [TextNode (ustr ''short'')]))) < 200"
    by (simp add: trim_def js_is_ws_def ustr_def)
  have use: "shouldUseFallback (dom_content demo_article_doc)"
    unfolding demo_article_content
    by (rule heuristic [THEN iffD2]) (use short in blast)
  have url_ne: "demo_article_url \<noteq> []"
    by (simp add: demo_article_url_def ustr_def)
  have fb_url: "js_or (dom_canonicalUrl demo_article_doc demo_article_url)
                  (JStr demo_article_url) = JStr demo_article_url"
    using url_ne by (simp add: demo_article_canonical js_or_def)
  have fb: "extractFromInitialData demo_env (Some demo_article_doc)
              (js_or (dom_canonicalUrl demo_article_doc demo_article_url)
                 (JStr demo_article_url)) =
            Inr (Some \<lparr> cr_title = JStr (ustr ''Answer title''), cr_author = JStr [],
                        cr_date = [], cr_url = demo_article_url,
                        cr_content = Element (ustr ''div'') [] [TextNode (ustr ''<p>x</p>'')] \<rparr>)"
    unfolding fb_url by (rule demo_article_fallback)
  have truthy_title: "truthy (JStr (ustr ''Answer title''))"
    by (simp add: ustr_def)
  from overlay_rule [OF conjI [OF use fb]]
  have overlaid: "extractContentFromDocument demo_env (Some demo_article_doc) demo_article_url =
       Inr (Some \<lparr> cr_title = JStr (ustr ''Answer title''),
                   cr_author = JStr (ustr ''DOM author''),
                   cr_date = ustr ''2020-09-13'',
                   cr_url = demo_article_url,
                   cr_content = Element (ustr ''div'') [] [TextNode (ustr ''<p>x</p>'')] \<rparr>)"
    using url_ne truthy_title
    by (auto simp: demo_article_title demo_article_author demo_article_date
        demo_article_url_normal js_or_def)
  have enough: "\<not> shouldUseFallback (dom_content demo_long_doc)"
    unfolding demo_long_content_found
    using heuristic [of "Some demo_long_content"] demo_long_sufficient by simp
  from sufficient_rule [OF enough, of demo_env demo_article_url]
  have "\<exists>r. extractContentFromDocument demo_env (Some demo_long_doc) demo_article_url
              = Inr (Some r)
          \<and> cr_title r = JStr (ustr ''Page title'') \<and> cr_author r = JStr (ustr ''Unknown'')
          \<and> cr_url r = demo_article_url \<and> cr_content r = demo_long_content"
    using url_ne
    by (auto simp: demo_long_values demo_long_content_found demo_article_url_normal js_or_def)
  with use overlaid enough show ?thesis by blast
qed

subsection \<open>Image inliner\<close>

lemma matches_sel_tag: "matches_selector (sel_tag t) (anc, e) \<longleftrightarrow> tagName e = ustr t"
  by (simp add: matches_selector_def matches_complex_def matches_compound_def sel_tag_def)

lemma querySelectorAll_tag:
  "set (querySelectorAll root (sel_tag t))
     = {e. \<exists>anc. (anc, e) \<in> set (descendants root) \<and> tagName e = ustr t}"
  by (auto simp: querySelectorAll_def matches_sel_tag image_iff)

lemma map_images_cong:
  "(\<And>a e. (a, e) \<in> set (subtree anc n) \<Longrightarrow> tagName e = ustr ''img'' \<Longrightarrow> g e = h e)
   \<Longrightarrow> map_images g n = map_images h n"
proof (induction n arbitrary: anc)
  case (TextNode s)
  then show ?case by simp
next
  case (Element t as ks)
  have kids: "map (map_images g) ks = map (map_images h) ks"
  proof (rule map_cong [OF refl])
    fix k assume k: "k \<in> set ks"
    show "map_images g k = map_images h k"
    proof (rule Element.IH [OF k])
      fix a e
      assume "(a, e) \<in> set (subtree (Element t as ks # anc) k)" and "tagName e = ustr ''img''"
      with k Element.prems [of a e] show "g e = h e" by auto
    qed
  qed
  have self: "t = ustr ''img'' \<Longrightarrow> g (Element t as ks) = h (Element t as ks)"
    using Element.prems [of anc "Element t as ks"] by simp
  from kids self show ?case by simp
qed

lemma map_images_attributes: "map_images attributes n = n"
  by (induction n) (simp_all add: map_idI)

lemma map_descendant_images_cong:
  assumes "\<And>e. e \<in> set (querySelectorAll root (sel_tag ''img'')) \<Longrightarrow> g e = h e"
  shows "map_descendant_images g root = map_descendant_images h root"
proof (cases root)
  case (TextNode s)
  then show ?thesis by simp
next
  case (Element t as ks)
  have "map (map_images g) ks = map (map_images h) ks"
  proof (rule map_cong [OF refl])
    fix k assume k: "k \<in> set ks"
    show "map_images g k = map_images h k"
    proof (rule map_images_cong)
      fix a e
      assume "(a, e) \<in> set (subtree [root] k)" and img: "tagName e = ustr ''img''"
      with k Element have "(a, e) \<in> set (descendants root)" by auto
      with img have "e \<in> set (querySelectorAll root (sel_tag ''img''))"
        by (auto simp: querySelectorAll_tag)
      then show "g e = h e" by (rule assms)
    qed
  qed
  with Element show ?thesis by simp
qed

lemma map_descendant_images_attributes: "map_descendant_images attributes root = root"
  by (cases root) (simp_all add: map_images_attributes map_idI)

lemma data_url_nonempty: "prefix (ustr ''data:'') d \<Longrightarrow> d \<noteq> []"
  by (auto simp: ustr_def)

lemma image_attributes_data:
  assumes "image_src img = JStr d" and "prefix (ustr ''data:'') d"
  shows "image_call_of E cache baseUrl img = Some (Settled (Inr d))"
    and "image_attributes E cache baseUrl img
           = remove_attr (ustr ''srcset'') (set_attr (ustr ''src'') d (attributes img))"
proof -
  from assms(2) have ne: "d \<noteq> []" by (rule data_url_nonempty)
  with assms show call: "image_call_of E cache baseUrl img = Some (Settled (Inr d))"
    by (simp add: image_call_of_def fetchImage_call_def normalizeUrl_string)
  with ne show "image_attributes E cache baseUrl img
           = remove_attr (ustr ''srcset'') (set_attr (ustr ''src'') d (attributes img))"
    by (simp add: image_attributes_def image_outcome_def)
qed

lemma pending_requests_settled:
  assumes "\<forall>c \<in> set calls. \<exists>r. c = Some (Settled r)"
  shows "pending_requests E calls = []" and "cache_loaded E calls cache = cache"
proof -
  from assms show "pending_requests E calls = []"
    by (induction calls) (auto simp: pending_requests_def)
  from assms show "cache_loaded E calls cache = cache"
    by (induction calls arbitrary: cache) auto
qed

lemma set_attr_same: "map_of as name = Some v \<Longrightarrow> set_attr name v as = as"
  by (induction as) (auto split: if_splits)

lemma remove_attr_absent: "map_of as name = None \<Longrightarrow> remove_attr name as = as"
  by (induction as) (auto simp: remove_attr_def split: if_splits)

lemma image_src_of_src:
  assumes "getAttribute img (ustr ''src'') = Some d" and "d \<noteq> []"
  shows "image_src img = JStr d"
  using assms by (simp add: image_src_def attr_value_def)

lemma state_unchanged:
  "st\<lparr>requests := requests st @ [], imageDataCache := imageDataCache st\<rparr> = (st :: state)"
  by simp

lemma getAttribute_attributes: "getAttribute e name = map_of (attributes e) name"
  by (cases e) simp_all

lemma convertImagesToDataUrls_data:
  assumes data: "\<forall>img \<in> set (querySelectorAll root (sel_tag ''img'')).
                   \<exists>d. image_src img = JStr d \<and> prefix (ustr ''data:'') d"
  shows "convertImagesToDataUrls E st root baseUrl =
     (map_descendant_images
        (\<lambda>img. remove_attr (ustr ''srcset'')
                  (set_attr (ustr ''src'') (case image_src img of JStr d \<Rightarrow> d | _ \<Rightarrow> [])
                     (attributes img))) root,
      st)"
proof -
  let ?imgs = "querySelectorAll root (sel_tag ''img'')"
  let ?g = "\<lambda>img. remove_attr (ustr ''srcset'')
                     (set_attr (ustr ''src'') (case image_src img of JStr d \<Rightarrow> d | _ \<Rightarrow> [])
                     (attributes img))"
  let ?calls = "map (image_call_of E (imageDataCache st) baseUrl) ?imgs"
  show ?thesis
  proof (cases "?imgs = []")
    case True
    then have "map_descendant_images ?g root = map_descendant_images attributes root"
      by (intro map_descendant_images_cong) simp
    with True show ?thesis
      by (simp add: convertImagesToDataUrls_def map_descendant_images_attributes)
  next
    case False
    have settled: "\<forall>c \<in> set ?calls. \<exists>r. c = Some (Settled r)"
      using data image_attributes_data(1) by fastforce
    have tree: "map_descendant_images (image_attributes E (imageDataCache st) baseUrl) root
                  = map_descendant_images ?g root"
    proof (rule map_descendant_images_cong)
      fix e assume "e \<in> set ?imgs"
      with data obtain d where "image_src e = JStr d" "prefix (ustr ''data:'') d" by blast
      then show "image_attributes E (imageDataCache st) baseUrl e = ?g e"
        by (simp add: image_attributes_data(2))
    qed
    from False tree show ?thesis
      by (simp add: convertImagesToDataUrls_def Let_def pending_requests_settled [OF settled])
  qed
qed

text \<open>
  C9, as the code has it. For every content fragment in which every image's effective
  source (the first populated of \<^verbatim>\<open>src\<close>, \<^verbatim>\<open>data-original\<close>, \<^verbatim>\<open>data-src\<close>,
  \<^verbatim>\<open>data-actualsrc\<close>) is already a \<^verbatim>\<open>data:\<close> URL, \<^verbatim>\<open>convertImagesToDataUrls\<close>
  issues no request and leaves both caches as they are; it sets every image's \<^verbatim>\<open>src\<close>
  to that URL and removes its \<^verbatim>\<open>srcset\<close>. So the fragment is unchanged when every
  image's \<^verbatim>\<open>src\<close> attribute itself holds the \<^verbatim>\<open>data:\<close> URL and no image has a
  \<^verbatim>\<open>srcset\<close> attribute, as after a run that inlined every image.
\<close>

theorem convertImagesToDataUrls_inlined:
  "((\<forall>img \<in> set (querySelectorAll root (sel_tag ''img'')).
       \<exists>d. image_src img = JStr d \<and> prefix (ustr ''data:'') d)
    \<longrightarrow> snd (convertImagesToDataUrls E st root baseUrl) = st
        \<and> fst (convertImagesToDataUrls E st root baseUrl) =
            map_descendant_images
              (\<lambda>img. remove_attr (ustr ''srcset'')
                        (set_attr (ustr ''src'') (case image_src img of JStr d \<Rightarrow> d | _ \<Rightarrow> [])
                     (attributes img)))
              root)
   \<and> ((\<forall>img \<in> set (querySelectorAll root (sel_tag ''img'')).
          (\<exists>d. getAttribute img (ustr ''src'') = Some d \<and> prefix (ustr ''data:'') d)
          \<and> getAttribute img (ustr ''srcset'') = None)
       \<longrightarrow> convertImagesToDataUrls E st root baseUrl = (root, st))"
proof (intro conjI impI)
  assume "\<forall>img \<in> set (querySelectorAll root (sel_tag ''img'')).
            \<exists>d. image_src img = JStr d \<and> prefix (ustr ''data:'') d"
  then have eq: "convertImagesToDataUrls E st root baseUrl =
     (map_descendant_images
        (\<lambda>img. remove_attr (ustr ''srcset'')
                  (set_attr (ustr ''src'') (case image_src img of JStr d \<Rightarrow> d | _ \<Rightarrow> [])
                     (attributes img))) root,
      st)"
    by (rule convertImagesToDataUrls_data)
  show "snd (convertImagesToDataUrls E st root baseUrl) = st"
    by (simp add: eq)
  show "fst (convertImagesToDataUrls E st root baseUrl) =
            map_descendant_images
              (\<lambda>img. remove_attr (ustr ''srcset'')
                        (set_attr (ustr ''src'') (case image_src img of JStr d \<Rightarrow> d | _ \<Rightarrow> [])
                     (attributes img)))
              root"
    by (simp add: eq)
next
  let ?g = "\<lambda>img. remove_attr (ustr ''srcset'')
                     (set_attr (ustr ''src'') (case image_src img of JStr d \<Rightarrow> d | _ \<Rightarrow> [])
                     (attributes img))"
  assume inlined: "\<forall>img \<in> set (querySelectorAll root (sel_tag ''img'')).
          (\<exists>d. getAttribute img (ustr ''src'') = Some d \<and> prefix (ustr ''data:'') d)
          \<and> getAttribute img (ustr ''srcset'') = None"
  have src: "\<forall>img \<in> set (querySelectorAll root (sel_tag ''img'')).
               \<exists>d. image_src img = JStr d \<and> prefix (ustr ''data:'') d"
    using inlined image_src_of_src data_url_nonempty by blast
  have "map_descendant_images ?g root = map_descendant_images attributes root"
  proof (rule map_descendant_images_cong)
    fix e assume "e \<in> set (querySelectorAll root (sel_tag ''img''))"
    with inlined obtain d where d: "getAttribute e (ustr ''src'') = Some d"
      "prefix (ustr ''data:'') d" and none: "getAttribute e (ustr ''srcset'') = None"
      by blast
    from d have "image_src e = JStr d"
      using image_src_of_src data_url_nonempty by blast
    moreover from d(1) have "set_attr (ustr ''src'') d (attributes e) = attributes e"
      by (simp add: getAttribute_attributes set_attr_same)
    moreover from none have "remove_attr (ustr ''srcset'') (attributes e) = attributes e"
      by (simp add: getAttribute_attributes remove_attr_absent)
    ultimately show "?g e = attributes e" by simp
  qed
  with convertImagesToDataUrls_data [OF src, of E st baseUrl]
  show "convertImagesToDataUrls E st root baseUrl = (root, st)"
    by (simp add: map_descendant_images_attributes)
qed

lemmas image_eval = image_src_def attr_value_def remove_attr_def demo_data_url_def

lemma demo_inlined_images:
  "querySelectorAll demo_inlined_fragment (sel_tag ''img'') =
     [Element (ustr ''img'') [(ustr ''src'', demo_data_url), (ustr ''alt'', ustr ''a'')] [],
      Element (ustr ''img'') [(ustr ''src'', demo_data_url)] []]"
  by (simp add: demo_inlined_fragment_def dom_eval)

lemma demo_lazy_images:
  "querySelectorAll demo_lazy_fragment (sel_tag ''img'') =
     [Element (ustr ''img'') [(ustr ''data-original'', demo_data_url)] []]"
  by (simp add: demo_lazy_fragment_def dom_eval)

lemma demo_srcset_images:
  "querySelectorAll demo_srcset_fragment (sel_tag ''img'') =
     [Element (ustr ''img'') [(ustr ''src'', demo_data_url), (ustr ''srcset'', ustr ''a.png 2x'')] []]"
  by (simp add: demo_srcset_fragment_def dom_eval)

lemma demo_data_url_prefix: "prefix (ustr ''data:'') demo_data_url"
  by (simp add: demo_data_url_def ustr_def)

lemma demo_lazy_src:
  "image_src (Element (ustr ''img'') [(ustr ''data-original'', demo_data_url)] []) = JStr demo_data_url"
  by (simp add: image_eval ustr_def)

lemma demo_srcset_src:
  "image_src (Element (ustr ''img'')
     [(ustr ''src'', demo_data_url), (ustr ''srcset'', ustr ''a.png 2x'')] []) = JStr demo_data_url"
  by (simp add: image_eval ustr_def)

lemma demo_lazy_converted:
  "map_descendant_images
     (\<lambda>img. remove_attr (ustr ''srcset'')
               (set_attr (ustr ''src'') (case image_src img of JStr d \<Rightarrow> d | _ \<Rightarrow> [])
                     (attributes img)))
     demo_lazy_fragment
   = el ''div'' [Element (ustr ''img'')
                   [(ustr ''data-original'', demo_data_url), (ustr ''src'', demo_data_url)] []]"
  by (simp add: demo_lazy_fragment_def el_def demo_lazy_src) (simp add: remove_attr_def ustr_def)

lemma demo_srcset_converted:
  "map_descendant_images
     (\<lambda>img. remove_attr (ustr ''srcset'')
               (set_attr (ustr ''src'') (case image_src img of JStr d \<Rightarrow> d | _ \<Rightarrow> [])
                     (attributes img)))
     demo_srcset_fragment
   = el ''div'' [Element (ustr ''img'') [(ustr ''src'', demo_data_url)] []]"
  by (simp add: demo_srcset_fragment_def el_def demo_srcset_src) (simp add: remove_attr_def ustr_def)

theorem convertImagesToDataUrls_inlined_witness:
  "convertImagesToDataUrls demo_env empty_state demo_inlined_fragment None
     = (demo_inlined_fragment, empty_state)
   \<and> snd (convertImagesToDataUrls demo_env empty_state demo_lazy_fragment None) = empty_state
   \<and> fst (convertImagesToDataUrls demo_env empty_state demo_lazy_fragment None)
       = el ''div'' [Element (ustr ''img'')
                       [(ustr ''data-original'', demo_data_url), (ustr ''src'', demo_data_url)] []]"
proof -
  have inlined: "\<forall>img \<in> set (querySelectorAll demo_inlined_fragment (sel_tag ''img'')).
          (\<exists>d. getAttribute img (ustr ''src'') = Some d \<and> prefix (ustr ''data:'') d)
          \<and> getAttribute img (ustr ''srcset'') = None"
    using demo_data_url_prefix by (simp add: demo_inlined_images) (simp add: ustr_def)
  have lazy: "\<forall>img \<in> set (querySelectorAll demo_lazy_fragment (sel_tag ''img'')).
                \<exists>d. image_src img = JStr d \<and> prefix (ustr ''data:'') d"
    using demo_data_url_prefix by (simp add: demo_lazy_images demo_lazy_src)
  from convertImagesToDataUrls_inlined
    [of demo_inlined_fragment demo_env empty_state None, THEN conjunct2, THEN mp, OF inlined]
  have a: "convertImagesToDataUrls demo_env empty_state demo_inlined_fragment None
             = (demo_inlined_fragment, empty_state)" .
  from convertImagesToDataUrls_inlined
    [of demo_lazy_fragment demo_env empty_state None, THEN conjunct1, THEN mp, OF lazy]
  have b: "snd (convertImagesToDataUrls demo_env empty_state demo_lazy_fragment None) = empty_state"
    and c: "fst (convertImagesToDataUrls demo_env empty_state demo_lazy_fragment None)
       = el ''div'' [Element (ustr ''img'')
                       [(ustr ''data-original'', demo_data_url), (ustr ''src'', demo_data_url)] []]"
    by (simp_all add: demo_lazy_converted)
  from a b c show ?thesis by blast
qed

text \<open>
  C9 as stated fails. The effective source of the only image of the lazily loaded
  fragment is a \<^verbatim>\<open>data:\<close> URL held in \<^verbatim>\<open>data-original\<close>: the run adds a \<^verbatim>\<open>src\<close>
  attribute. The only image of the third fragment has a \<^verbatim>\<open>data:\<close> URL in \<^verbatim>\<open>src\<close> and
  a \<^verbatim>\<open>srcset\<close>: the run removes the \<^verbatim>\<open>srcset\<close>. Neither fragment is left unchanged.
\<close>

theorem convertImagesToDataUrls_inlined_counterexample:
  "querySelectorAll demo_lazy_fragment (sel_tag ''img'')
     = [Element (ustr ''img'') [(ustr ''data-original'', demo_data_url)] []]
   \<and> image_src (Element (ustr ''img'') [(ustr ''data-original'', demo_data_url)] [])
       = JStr demo_data_url
   \<and> prefix (ustr ''data:'') demo_data_url
   \<and> fst (convertImagesToDataUrls demo_env empty_state demo_lazy_fragment None)
       = el ''div'' [Element (ustr ''img'')
                       [(ustr ''data-original'', demo_data_url), (ustr ''src'', demo_data_url)] []]
   \<and> fst (convertImagesToDataUrls demo_env empty_state demo_lazy_fragment None)
       \<noteq> demo_lazy_fragment
   \<and> querySelectorAll demo_srcset_fragment (sel_tag ''img'')
       = [Element (ustr ''img'')
            [(ustr ''src'', demo_data_url), (ustr ''srcset'', ustr ''a.png 2x'')] []]
   \<and> image_src (Element (ustr ''img'')
         [(ustr ''src'', demo_data_url), (ustr ''srcset'', ustr ''a.png 2x'')] [])
       = JStr demo_data_url
   \<and> fst (convertImagesToDataUrls demo_env empty_state demo_srcset_fragment None)
       = el ''div'' [Element (ustr ''img'') [(ustr ''src'', demo_data_url)] []]
   \<and> fst (convertImagesToDataUrls demo_env empty_state demo_srcset_fragment None)
       \<noteq> demo_srcset_fragment"
proof -
  have lazy: "\<forall>img \<in> set (querySelectorAll demo_lazy_fragment (sel_tag ''img'')).
                \<exists>d. image_src img = JStr d \<and> prefix (ustr ''data:'') d"
    using demo_data_url_prefix by (simp add: demo_lazy_images demo_lazy_src)
  have srcset: "\<forall>img \<in> set (querySelectorAll demo_srcset_fragment (sel_tag ''img'')).
                  \<exists>d. image_src img = JStr d \<and> prefix (ustr ''data:'') d"
    using demo_data_url_prefix by (simp add: demo_srcset_images demo_srcset_src)
  have l: "fst (convertImagesToDataUrls demo_env empty_state demo_lazy_fragment None)
       = el ''div'' [Element (ustr ''img'')
                       [(ustr ''data-original'', demo_data_url), (ustr ''src'', demo_data_url)] []]"
    by (simp add: convertImagesToDataUrls_data [OF lazy] demo_lazy_converted)
  have s: "fst (convertImagesToDataUrls demo_env empty_state demo_srcset_fragment None)
       = el ''div'' [Element (ustr ''img'') [(ustr ''src'', demo_data_url)] []]"
    by (simp add: convertImagesToDataUrls_data [OF srcset] demo_srcset_converted)
  have ln: "fst (convertImagesToDataUrls demo_env empty_state demo_lazy_fragment None)
              \<noteq> demo_lazy_fragment"
    unfolding l by (simp add: demo_lazy_fragment_def el_def)
  have sn: "fst (convertImagesToDataUrls demo_env empty_state demo_srcset_fragment None)
              \<noteq> demo_srcset_fragment"
    unfolding s by (simp add: demo_srcset_fragment_def el_def)
  show ?thesis
    by (intro conjI)
      (rule demo_lazy_images demo_lazy_src demo_data_url_prefix l ln demo_srcset_images
         demo_srcset_src s sn)+
qed

end
